theory Spec2Isabelle
  imports Main "HOL-Library.Word" "HOL-Library.Signed_Division"
begin

unbundle bit_operations_syntax

section \<open>Data model of the hart (VirtualMachine.cpp)\<close>

type_synonym u8 = "8 word"
type_synonym u16 = "16 word"
type_synonym u32 = "32 word"
type_synonym u64 = "64 word"

text \<open>Register indices are the 5-bit fields of the instruction word.\<close>

type_synonym regidx = "5 word"

subsection \<open>The decoded instruction\<close>

text \<open>
  \<open>RVInstruction::Type\<close> is one flat enumeration in the source. It is split here into six
  families, in the order of the dispatch switch of \<open>VirtualMachine::Step\<close>; the constructor
  names are the enumerators (\<open>XOR\<close>, \<open>OR\<close> and \<open>AND\<close> carry a suffix, the names being taken
  by the bit operations).
\<close>

datatype BaseType = LUI | AUIPC | JAL | JALR | BEQ | BNE | BLT | BGE | BLTU | BGEU
  | LB | LH | LW | LBU | LHU | SB | SH | SW

datatype AluType = ADDI | SLTI | SLTIU | XORI | ORI | ANDI | SLLI | SRLI | SRAI
  | ADD | SUB | SLL | SLT | SLTU | XOR_op | SRL | SRA | OR_op | AND_op

datatype SysType = FENCE | ECALL | EBREAK | CSRRW | CSRRS | CSRRC | CSRRWI | CSRRSI | CSRRCI
  | URET | SRET | MRET | WFI | SFENCE_VMA | SINVAL_VMA | SINVAL_GVMA | SFENCE_W_INVAL
  | SFENCE_INVAL_IR | CUST_TVA | INVALID

datatype MulAtomicType = MUL | MULH | MULHSU | MULHU | DIV | DIVU | REM | REMU
  | LR_W | SC_W | AMOSWAP_W | AMOADD_W | AMOXOR_W | AMOAND_W | AMOOR_W
  | AMOMIN_W | AMOMAX_W | AMOMINU_W | AMOMAXU_W

datatype FloatType = FLW | FSW | FMADD_S | FMSUB_S | FNMSUB_S | FNMADD_S | FADD_S | FSUB_S
  | FMUL_S | FDIV_S | FSQRT_S | FSGNJ_S | FSGNJN_S | FSGNJX_S | FMIN_S | FMAX_S
  | FCVT_W_S | FCVT_WU_S | FMV_X_W | FEQ_S | FLT_S | FLE_S | FCLASS_S | FCVT_S_W
  | FCVT_S_WU | FMV_W_X

datatype DoubleType = FLD | FSD | FMADD_D | FMSUB_D | FNMSUB_D | FNMADD_D | FADD_D | FSUB_D
  | FMUL_D | FDIV_D | FSQRT_D | FSGNJ_D | FSGNJN_D | FSGNJX_D | FMIN_D | FMAX_D
  | FCVT_S_D | FCVT_D_S | FEQ_D | FLT_D | FLE_D | FCLASS_D | FCVT_W_D | FCVT_WU_D
  | FCVT_D_W | FCVT_D_WU

datatype Type = RV32I BaseType | RV32ALU AluType | RV32SYS SysType | RV32MA MulAtomicType
  | RV32F FloatType | RV32D DoubleType

record RVInstruction =
  type :: Type
  rd :: regidx
  rs1 :: regidx
  rs2 :: regidx
  rs3 :: regidx
  immediate :: u32
  rm :: u8

subsection \<open>Errors\<close>

text \<open>
  Every \<open>throw std::runtime_error\<close> of the source is a constructor; \<open>Bus_error\<close> stands for
  whatever the memory bus throws and \<open>Handler_error\<close> for what an ECALL handler throws.
\<close>

datatype error =
    CSR_Read_Privilege
  | Read_Invalid_CSR
  | CSR_Write_Privilege
  | Write_Invalid_CSR
  | PPN_access_fault
  | PPN_page_fault
  | Page_fault
  | SATP_missing
  | Invalid_PC_address u32
  | PC_not_present u32
  | Invalid_instruction u32 u32
  | Div_by_zero
  | Not_implemented
  | Unknown_ECall u32 u32
  | Bus_error u32
  | Handler_error u32

subsection \<open>Float lanes\<close>

text \<open>
  \<open>Float\<close> is a 64-bit lane with the views \<open>f\<close>/\<open>u32\<close> (the low 32 bits) and \<open>d\<close>/\<open>u64\<close>
  (all 64 bits), and the tag \<open>is_double\<close>. Values are kept as bit patterns.
\<close>

record Float =
  u64 :: u64
  is_double :: bool

definition u32_of :: "Float \<Rightarrow> u32" where
  "u32_of x = ucast (u64 x)"

text \<open>Assigning \<open>.f\<close> or \<open>.u32\<close> replaces the low half of the lane and keeps the high half.\<close>

definition set_u32 :: "Float \<Rightarrow> u32 \<Rightarrow> Float" where
  "set_u32 x v = x\<lparr>u64 := (u64 x AND 0xFFFFFFFF00000000) OR ucast v\<rparr>"

definition set_u64 :: "Float \<Rightarrow> u64 \<Rightarrow> Float" where
  "set_u64 x v = x\<lparr>u64 := v\<rparr>"

definition upper32 :: "Float \<Rightarrow> u32" where
  "upper32 x = ucast (drop_bit 32 (u64 x))"

definition RV_F32_NAN :: u64 where "RV_F32_NAN = 0xffffffff7fc00000"
definition RV_F32_QNAN :: u64 where "RV_F32_QNAN = 0xffffffffffc00000"
definition RV_F64_NAN :: u64 where "RV_F64_NAN = 0x7ff0000000000000"
definition RV_F64_QNAN :: u64 where "RV_F64_QNAN = 0xfff0000000000000"

subsection \<open>Host floating-point environment\<close>

datatype fexcept = FE_DIVBYZERO | FE_INEXACT | FE_INVALID | FE_OVERFLOW | FE_UNDERFLOW

datatype host_round = FE_TONEAREST | FE_TOWARDZERO | FE_DOWNWARD | FE_UPWARD

subsection \<open>Hart state\<close>

datatype PrivilegeLevel = User | Supervisor | Machine

record 'm VirtualMachine =
  memory :: 'm
  regs :: "regidx \<Rightarrow> u32"
  fregs :: "regidx \<Rightarrow> Float"
  pc :: u32
  csrs :: "u32 \<rightharpoonup> u32"
  privilege_level :: PrivilegeLevel
  cycles :: u64
  ticks :: u32
  running :: bool
  break_points :: "u32 set"
  mapped_time :: u64
  mapped_time_cmp :: u64
  host_rounding :: host_round
  host_flags :: "fexcept set"

subsection \<open>Constants of the absent headers\<close>

text \<open>
  Modelled from the spec: the CSR addresses, the \<open>fcsr\<close> flag masks, the rounding-mode codes
  and the register numbers are declared in \<open>VirtualMachine.hpp\<close> and \<open>RV32I.hpp\<close>, which are
  not among the sources. They carry the numbering of the RISC-V privileged and user
  specifications, which the ranges tested by \<open>CSRPrivilegeCheck\<close> presuppose.
\<close>

definition CSR_FFLAGS :: u32 where "CSR_FFLAGS = 0x001"
definition CSR_FRM :: u32 where "CSR_FRM = 0x002"
definition CSR_FCSR :: u32 where "CSR_FCSR = 0x003"
definition CSR_CYCLE :: u32 where "CSR_CYCLE = 0xC00"
definition CSR_TIME :: u32 where "CSR_TIME = 0xC01"
definition CSR_INSTRET :: u32 where "CSR_INSTRET = 0xC02"
definition CSR_CYCLEH :: u32 where "CSR_CYCLEH = 0xC80"
definition CSR_TIMEH :: u32 where "CSR_TIMEH = 0xC81"
definition CSR_INSTRETH :: u32 where "CSR_INSTRETH = 0xC82"
definition CSR_SSTATUS :: u32 where "CSR_SSTATUS = 0x100"
definition CSR_SIE :: u32 where "CSR_SIE = 0x104"
definition CSR_STVEC :: u32 where "CSR_STVEC = 0x105"
definition CSR_SCOUNTEREN :: u32 where "CSR_SCOUNTEREN = 0x106"
definition CSR_SENVCFG :: u32 where "CSR_SENVCFG = 0x10A"
definition CSR_SSCRATCH :: u32 where "CSR_SSCRATCH = 0x140"
definition CSR_SEPC :: u32 where "CSR_SEPC = 0x141"
definition CSR_SCAUSE :: u32 where "CSR_SCAUSE = 0x142"
definition CSR_STVAL :: u32 where "CSR_STVAL = 0x143"
definition CSR_SIP :: u32 where "CSR_SIP = 0x144"
definition CSR_SATP :: u32 where "CSR_SATP = 0x180"
definition CSR_SCONTEXT :: u32 where "CSR_SCONTEXT = 0x5A8"
definition CSR_MVENDORID :: u32 where "CSR_MVENDORID = 0xF11"
definition CSR_MARCHID :: u32 where "CSR_MARCHID = 0xF12"
definition CSR_MIMPID :: u32 where "CSR_MIMPID = 0xF13"
definition CSR_MHARTID :: u32 where "CSR_MHARTID = 0xF14"
definition CSR_MSTATUS :: u32 where "CSR_MSTATUS = 0x300"
definition CSR_MISA :: u32 where "CSR_MISA = 0x301"
definition CSR_MHPMEVENT3 :: u32 where "CSR_MHPMEVENT3 = 0x323"
definition CSR_MCYCLE :: u32 where "CSR_MCYCLE = 0xB00"
definition CSR_MINSTRET :: u32 where "CSR_MINSTRET = 0xB02"
definition CSR_MHPMCOUNTER3 :: u32 where "CSR_MHPMCOUNTER3 = 0xB03"
definition CSR_MCYCLEH :: u32 where "CSR_MCYCLEH = 0xB80"
definition CSR_MINSTRETH :: u32 where "CSR_MINSTRETH = 0xB82"
definition CSR_MHPMCOUNTER3H :: u32 where "CSR_MHPMCOUNTER3H = 0xB83"
definition CSR_PERFORMANCE_EVENT_MAX :: u32 where "CSR_PERFORMANCE_EVENT_MAX = 32"
definition CSR_PERF_COUNTER_MAX :: u32 where "CSR_PERF_COUNTER_MAX = 32"

lemmas CSR_defs = CSR_FFLAGS_def CSR_FRM_def CSR_FCSR_def CSR_CYCLE_def CSR_TIME_def
  CSR_INSTRET_def CSR_CYCLEH_def CSR_TIMEH_def CSR_INSTRETH_def CSR_SSTATUS_def CSR_SIE_def
  CSR_STVEC_def CSR_SCOUNTEREN_def CSR_SENVCFG_def CSR_SSCRATCH_def CSR_SEPC_def
  CSR_SCAUSE_def CSR_STVAL_def CSR_SIP_def CSR_SATP_def CSR_SCONTEXT_def CSR_MVENDORID_def
  CSR_MARCHID_def CSR_MIMPID_def CSR_MHARTID_def CSR_MSTATUS_def CSR_MISA_def
  CSR_MHPMEVENT3_def CSR_MCYCLE_def CSR_MINSTRET_def CSR_MHPMCOUNTER3_def CSR_MCYCLEH_def
  CSR_MINSTRETH_def CSR_MHPMCOUNTER3H_def CSR_PERFORMANCE_EVENT_MAX_def
  CSR_PERF_COUNTER_MAX_def

definition CSR_FCSR_NX :: u32 where "CSR_FCSR_NX = 0x01"
definition CSR_FCSR_UF :: u32 where "CSR_FCSR_UF = 0x02"
definition CSR_FCSR_OF :: u32 where "CSR_FCSR_OF = 0x04"
definition CSR_FCSR_DZ :: u32 where "CSR_FCSR_DZ = 0x08"
definition CSR_FCSR_NV :: u32 where "CSR_FCSR_NV = 0x10"
definition CSR_FCSR_FLAGS :: u32 where "CSR_FCSR_FLAGS = 0x1f"

lemmas FCSR_defs = CSR_FCSR_NX_def CSR_FCSR_UF_def CSR_FCSR_OF_def CSR_FCSR_DZ_def
  CSR_FCSR_NV_def CSR_FCSR_FLAGS_def

definition ISA_A :: u32 where "ISA_A = 0x00000001"
definition ISA_D :: u32 where "ISA_D = 0x00000008"
definition ISA_F :: u32 where "ISA_F = 0x00000020"
definition ISA_I :: u32 where "ISA_I = 0x00000100"
definition ISA_M :: u32 where "ISA_M = 0x00001000"
definition ISA_32_BITS :: u32 where "ISA_32_BITS = 0x40000000"

definition RM_ROUND_TO_NEAREST_TIES_EVEN :: u8 where "RM_ROUND_TO_NEAREST_TIES_EVEN = 0"
definition RM_ROUND_TO_ZERO :: u8 where "RM_ROUND_TO_ZERO = 1"
definition RM_ROUND_DOWN :: u8 where "RM_ROUND_DOWN = 2"
definition RM_ROUND_UP :: u8 where "RM_ROUND_UP = 3"
definition RM_ROUND_TO_NEAREST_TIES_MAX_MAGNITUDE :: u8 where
  "RM_ROUND_TO_NEAREST_TIES_MAX_MAGNITUDE = 4"
definition RM_INVALID0 :: u8 where "RM_INVALID0 = 5"
definition RM_INVALID1 :: u8 where "RM_INVALID1 = 6"
definition RM_DYNAMIC :: u8 where "RM_DYNAMIC = 7"

lemmas RM_defs = RM_ROUND_TO_NEAREST_TIES_EVEN_def RM_ROUND_TO_ZERO_def RM_ROUND_DOWN_def
  RM_ROUND_UP_def RM_ROUND_TO_NEAREST_TIES_MAX_MAGNITUDE_def RM_INVALID0_def RM_INVALID1_def
  RM_DYNAMIC_def

definition REG_ZERO :: regidx where "REG_ZERO = 0"
definition REG_A0 :: regidx where "REG_A0 = 10"

subsection \<open>The collaborators of the execution core\<close>

datatype amo = AtomicSwap | AtomicAdd | AtomicXor | AtomicAnd | AtomicOr
  | AtomicMin | AtomicMax | AtomicMinU | AtomicMaxU

datatype farith = F_ADD | F_SUB | F_MUL | F_DIV

text \<open>
  The memory bus (\<open>Memory\<close>), the decoder (\<open>RVInstruction::FromUInt32\<close>), the table of ECALL
  handlers and the arithmetic of the host's floating-point unit are not among the sources;
  they are the fields of this record, over any type \<open>'m\<close> of bus states. A bus operation
  that throws returns \<open>Inl\<close> and leaves the bus as it was. An ECALL handler receives the
  hart id, the bus and both register files by reference: what it returns is their new
  contents, also when it throws. A host operation returns its result and the exception
  flags it raises. \<open>shl_1U_32\<close> is the value the host yields for \<open>1U << 32\<close>, which C++
  leaves undefined, and \<open>Float_uninit\<close> the contents of a \<open>Float\<close> local that was declared
  and not assigned.
\<close>

record 'm Host =
  FromUInt32 :: "u32 \<Rightarrow> RVInstruction"
  ReadByte :: "'m \<Rightarrow> u32 \<Rightarrow> error + u8"
  ReadHalf :: "'m \<Rightarrow> u32 \<Rightarrow> error + u16"
  ReadWord :: "'m \<Rightarrow> u32 \<Rightarrow> error + u32"
  WriteByte :: "'m \<Rightarrow> u32 \<Rightarrow> u8 \<Rightarrow> error + 'm"
  WriteHalf :: "'m \<Rightarrow> u32 \<Rightarrow> u16 \<Rightarrow> error + 'm"
  WriteWord :: "'m \<Rightarrow> u32 \<Rightarrow> u32 \<Rightarrow> error + 'm"
  PeekWord :: "'m \<Rightarrow> u32 \<Rightarrow> u32 option"
  ReadWordReserved :: "'m \<Rightarrow> u32 \<Rightarrow> u32 \<Rightarrow> error + (u32 \<times> 'm)"
  WriteWordConditional :: "'m \<Rightarrow> u32 \<Rightarrow> u32 \<Rightarrow> u32 \<Rightarrow> error + (bool \<times> 'm)"
  Atomic :: "amo \<Rightarrow> 'm \<Rightarrow> u32 \<Rightarrow> u32 \<Rightarrow> error + (u32 \<times> 'm)"
  ecall_handlers :: "u32 \<rightharpoonup> (u32 \<Rightarrow> 'm \<Rightarrow> (regidx \<Rightarrow> u32) \<Rightarrow> (regidx \<Rightarrow> Float)
      \<Rightarrow> (error option \<times> 'm \<times> (regidx \<Rightarrow> u32) \<times> (regidx \<Rightarrow> Float)))"
  shl_1U_32 :: u32
  Float_uninit :: Float
  host_f32_arith :: "farith \<Rightarrow> host_round \<Rightarrow> u32 \<Rightarrow> u32 \<Rightarrow> u32 \<times> fexcept set"
  host_f32_sqrt :: "host_round \<Rightarrow> u32 \<Rightarrow> u32 \<times> fexcept set"
  host_f32_to_i32 :: "u32 \<Rightarrow> u32 \<times> fexcept set"
  host_f32_to_u32 :: "u32 \<Rightarrow> u32 \<times> fexcept set"
  host_i32_to_f32 :: "host_round \<Rightarrow> u32 \<Rightarrow> u32 \<times> fexcept set"
  host_u32_to_f32 :: "host_round \<Rightarrow> u32 \<Rightarrow> u32 \<times> fexcept set"
  host_f32_to_f64 :: "u32 \<Rightarrow> u64 \<times> fexcept set"
  host_f64_arith :: "farith \<Rightarrow> host_round \<Rightarrow> u64 \<Rightarrow> u64 \<Rightarrow> u64 \<times> fexcept set"
  host_f64_sqrt :: "host_round \<Rightarrow> u64 \<Rightarrow> u64 \<times> fexcept set"
  host_f64_to_i32 :: "u64 \<Rightarrow> u32 \<times> fexcept set"
  host_f64_to_u32 :: "u64 \<Rightarrow> u32 \<times> fexcept set"
  host_i32_to_f64 :: "u32 \<Rightarrow> u64"
  host_u32_to_f64 :: "u32 \<Rightarrow> u64"
  host_f64_to_f32 :: "host_round \<Rightarrow> u64 \<Rightarrow> u32 \<times> fexcept set"
  default_rounding_mode :: host_round

section \<open>The CSR file\<close>

definition CSRPrivilegeCheck :: "'m VirtualMachine \<Rightarrow> u32 \<Rightarrow> bool" where
  "CSRPrivilegeCheck vm csr =
    (if csr < 4 \<or> (csr \<ge> 0xc00 \<and> csr < 0xcf0) then True
     else if (csr \<ge> 0x100 \<and> csr < 0x121) \<or> csr = CSR_SCONTEXT
       then privilege_level vm \<noteq> User
     else privilege_level vm = Machine)"

definition ReadCSR :: "'m VirtualMachine \<Rightarrow> u32 \<Rightarrow> bool \<Rightarrow> error + u32" where
  "ReadCSR vm csr is_internal_read =
    (if \<not> is_internal_read \<and> \<not> CSRPrivilegeCheck vm csr then Inl CSR_Read_Privilege
     else case csrs vm csr of
       None \<Rightarrow> Inl Read_Invalid_CSR
     | Some stored \<Rightarrow>
        if csr \<ge> CSR_MHPMEVENT3 \<and> csr < CSR_MHPMEVENT3 + CSR_PERFORMANCE_EVENT_MAX - 3
          then Inr 0
        else if csr \<ge> CSR_MHPMCOUNTER3 \<and> csr < CSR_MHPMCOUNTER3 + CSR_PERF_COUNTER_MAX - 3
          then Inr 0
        else if csr \<ge> CSR_MHPMCOUNTER3H \<and> csr < CSR_MHPMCOUNTER3H + CSR_PERF_COUNTER_MAX - 3
          then Inr 0
        else if csr = CSR_MCYCLE \<or> csr = CSR_CYCLE then Inr (ucast (cycles vm))
        else if csr = CSR_MCYCLEH \<or> csr = CSR_CYCLEH
          then Inr (ucast (drop_bit 32 (cycles vm)))
        else if csr = CSR_TIME then Inr (ucast (mapped_time vm))
        else if csr = CSR_TIMEH then Inr (ucast (drop_bit 32 (mapped_time vm)))
        else Inr stored)"

definition WriteCSR :: "'m VirtualMachine \<Rightarrow> u32 \<Rightarrow> u32 \<Rightarrow> error + 'm VirtualMachine" where
  "WriteCSR vm csr val =
    (if \<not> CSRPrivilegeCheck vm csr then Inl CSR_Write_Privilege
     else if csrs vm csr = None then Inl Write_Invalid_CSR
     else if csr = CSR_MVENDORID \<or> csr = CSR_MARCHID \<or> csr = CSR_MIMPID
           \<or> csr = CSR_MHARTID \<or> csr = CSR_MISA \<or> csr = CSR_MINSTRET
           \<or> csr = CSR_MINSTRETH \<or> csr = CSR_CYCLE \<or> csr = CSR_CYCLEH
           \<or> csr = CSR_TIME \<or> csr = CSR_TIMEH
       then Inr vm
     else Inr (vm\<lparr>csrs := (csrs vm)(csr \<mapsto> val)\<rparr>))"

text \<open>
  \<open>csrs[k]\<close> on the \<open>std::unordered_map\<close>: the value stored under \<open>k\<close>, and an entry 0 is
  inserted when there was none.
\<close>

definition csrs_index :: "(u32 \<rightharpoonup> u32) \<Rightarrow> u32 \<Rightarrow> u32" where
  "csrs_index m k = (case m k of None \<Rightarrow> 0 | Some v \<Rightarrow> v)"

definition csrs_touch :: "(u32 \<rightharpoonup> u32) \<Rightarrow> u32 \<Rightarrow> (u32 \<rightharpoonup> u32)" where
  "csrs_touch m k = (case m k of None \<Rightarrow> m(k \<mapsto> 0) | Some v \<Rightarrow> m)"

definition touch_csr :: "'m VirtualMachine \<Rightarrow> u32 \<Rightarrow> 'm VirtualMachine" where
  "touch_csr vm k = vm\<lparr>csrs := csrs_touch (csrs vm) k\<rparr>"

section \<open>Float support\<close>

text \<open>
  \<open>ChangeRoundingMode\<close> calls itself for \<open>RM_DYNAMIC\<close> with bits 7:5 of \<open>fcsr\<close>; the result
  \<open>None\<close> is the call that never returns.
\<close>

partial_function (option) ChangeRoundingMode ::
    "'m Host \<Rightarrow> 'm VirtualMachine \<Rightarrow> u8 \<Rightarrow> (bool \<times> 'm VirtualMachine) option" where
  "ChangeRoundingMode h vm r =
    (if r = RM_ROUND_TO_NEAREST_TIES_EVEN then Some (True, vm\<lparr>host_rounding := FE_TONEAREST\<rparr>)
     else if r = RM_ROUND_TO_ZERO then Some (True, vm\<lparr>host_rounding := FE_TOWARDZERO\<rparr>)
     else if r = RM_ROUND_DOWN then Some (True, vm\<lparr>host_rounding := FE_DOWNWARD\<rparr>)
     else if r = RM_ROUND_UP then Some (True, vm\<lparr>host_rounding := FE_UPWARD\<rparr>)
     else if r = RM_ROUND_TO_NEAREST_TIES_MAX_MAGNITUDE \<or> r = RM_INVALID0 \<or> r = RM_INVALID1
       then Some (False, vm)
     else if r = RM_DYNAMIC
       then ChangeRoundingMode h (touch_csr vm CSR_FCSR)
              (ucast (drop_bit 5 (csrs_index (csrs vm) CSR_FCSR) AND 0b111))
     else Some (True, vm\<lparr>host_rounding := default_rounding_mode h\<rparr>))"

definition csr_or :: "'m VirtualMachine \<Rightarrow> u32 \<Rightarrow> u32 \<Rightarrow> 'm VirtualMachine" where
  "csr_or vm k bits = vm\<lparr>csrs := (csrs vm)(k \<mapsto> csrs_index (csrs vm) k OR bits)\<rparr>"

definition csr_and :: "'m VirtualMachine \<Rightarrow> u32 \<Rightarrow> u32 \<Rightarrow> 'm VirtualMachine" where
  "csr_and vm k bits = vm\<lparr>csrs := (csrs vm)(k \<mapsto> csrs_index (csrs vm) k AND bits)\<rparr>"

definition host_raise :: "fexcept set \<Rightarrow> 'm VirtualMachine \<Rightarrow> 'm VirtualMachine" where
  "host_raise fl vm = vm\<lparr>host_flags := host_flags vm \<union> fl\<rparr>"

definition CheckFloatErrors :: "'m VirtualMachine \<Rightarrow> bool \<times> 'm VirtualMachine" where
  "CheckFloatErrors vm =
    (let except = host_flags vm;
         vm0 = csr_and vm CSR_FCSR (NOT CSR_FCSR_FLAGS);
         vm1 = (if FE_DIVBYZERO \<in> except then csr_or vm0 CSR_FCSR CSR_FCSR_DZ else vm0);
         vm2 = (if FE_INEXACT \<in> except then csr_or vm1 CSR_FCSR CSR_FCSR_NX else vm1);
         vm3 = (if FE_INVALID \<in> except then csr_or vm2 CSR_FCSR CSR_FCSR_NV else vm2);
         vm4 = (if FE_OVERFLOW \<in> except then csr_or vm3 CSR_FCSR CSR_FCSR_OF else vm3);
         vm5 = (if FE_UNDERFLOW \<in> except then csr_or vm4 CSR_FCSR CSR_FCSR_UF else vm4)
     in (FE_DIVBYZERO \<in> except \<or> FE_INVALID \<in> except, vm5))"

definition SetFloatFlags ::
    "'m VirtualMachine \<Rightarrow> bool \<Rightarrow> bool \<Rightarrow> bool \<Rightarrow> bool \<Rightarrow> bool \<Rightarrow> 'm VirtualMachine" where
  "SetFloatFlags vm invalid_op div_by_zero overflow underflow inexact =
    (let vm1 = (if invalid_op then csr_or vm CSR_FCSR CSR_FCSR_NV else vm);
         vm2 = (if div_by_zero then csr_or vm1 CSR_FCSR CSR_FCSR_DZ else vm1);
         vm3 = (if overflow then csr_or vm2 CSR_FCSR CSR_FCSR_OF else vm2);
         vm4 = (if underflow then csr_or vm3 CSR_FCSR CSR_FCSR_UF else vm3)
     in if inexact then csr_or vm4 CSR_FCSR CSR_FCSR_NX else vm4)"

subsection \<open>Classification (ClassF32, ClassF64)\<close>

definition f32_sign :: "u32 \<Rightarrow> u32" where "f32_sign v = drop_bit 31 v"
definition f32_exp :: "u32 \<Rightarrow> u32" where "f32_exp v = drop_bit 23 v AND 0xff"
definition f32_frac :: "u32 \<Rightarrow> u32" where "f32_frac v = v AND 0x7fffff"

definition is_inf32 :: "u32 \<Rightarrow> bool" where
  "is_inf32 v = (f32_exp v = 0xff \<and> f32_frac v = 0)"
definition is_nan32 :: "u32 \<Rightarrow> bool" where
  "is_nan32 v = (f32_exp v = 0xff \<and> f32_frac v \<noteq> 0 \<and> \<not> (f32_frac v AND 0x400000 \<noteq> 0))"
definition is_qnan32 :: "u32 \<Rightarrow> bool" where
  "is_qnan32 v = (f32_exp v = 0xff \<and> f32_frac v AND 0x400000 \<noteq> 0)"
definition is_subnormal32 :: "u32 \<Rightarrow> bool" where
  "is_subnormal32 v = (f32_exp v = 0 \<and> f32_frac v \<noteq> 0)"
definition is_zero32 :: "u32 \<Rightarrow> bool" where
  "is_zero32 v = (f32_exp v = 0 \<and> f32_frac v = 0)"
definition is_neg32 :: "u32 \<Rightarrow> bool" where
  "is_neg32 v = (f32_sign v \<noteq> 0)"

lemmas ClassF32_defs = f32_sign_def f32_exp_def f32_frac_def is_inf32_def is_nan32_def
  is_qnan32_def is_subnormal32_def is_zero32_def is_neg32_def

definition f64_sign :: "u64 \<Rightarrow> u64" where "f64_sign v = drop_bit 63 v"
definition f64_exp :: "u64 \<Rightarrow> u64" where "f64_exp v = drop_bit 52 v AND 0x7ff"
definition f64_frac :: "u64 \<Rightarrow> u64" where "f64_frac v = v AND 0xfffffffffffff"

definition is_inf64 :: "u64 \<Rightarrow> bool" where
  "is_inf64 v = (f64_exp v = 0x7ff \<and> f64_frac v = 0)"
definition is_nan64 :: "u64 \<Rightarrow> bool" where
  "is_nan64 v = (f64_exp v = 0x7ff \<and> f64_frac v \<noteq> 0
                 \<and> \<not> (f64_frac v AND 0x8000000000000 \<noteq> 0))"
definition is_qnan64 :: "u64 \<Rightarrow> bool" where
  "is_qnan64 v = (f64_exp v = 0x7ff \<and> f64_frac v AND 0x8000000000000 \<noteq> 0)"
definition is_subnormal64 :: "u64 \<Rightarrow> bool" where
  "is_subnormal64 v = (f64_exp v = 0 \<and> f64_frac v \<noteq> 0)"
definition is_zero64 :: "u64 \<Rightarrow> bool" where
  "is_zero64 v = (f64_exp v = 0 \<and> f64_frac v = 0)"
definition is_neg64 :: "u64 \<Rightarrow> bool" where
  "is_neg64 v = (f64_sign v \<noteq> 0)"

lemmas ClassF64_defs = f64_sign_def f64_exp_def f64_frac_def is_inf64_def is_nan64_def
  is_qnan64_def is_subnormal64_def is_zero64_def is_neg64_def

text \<open>The 10-bit mask that FCLASS.S and FCLASS.D assemble from the six predicates.\<close>

definition fclass_mask :: "bool \<Rightarrow> bool \<Rightarrow> bool \<Rightarrow> bool \<Rightarrow> bool \<Rightarrow> bool \<Rightarrow> u32" where
  "fclass_mask is_inf is_nan is_qnan is_subnormal is_zero is_neg =
    (let r0 = (0 :: u32);
         r1 = (if is_inf \<and> is_neg then r0 OR push_bit 0 1 else r0);
         r2 = (if \<not> is_subnormal \<and> is_neg then r1 OR push_bit 1 1 else r1);
         r3 = (if is_subnormal \<and> is_neg then r2 OR push_bit 2 1 else r2);
         r4 = (if is_zero \<and> is_neg then r3 OR push_bit 3 1 else r3);
         r5 = (if is_zero \<and> \<not> is_neg then r4 OR push_bit 4 1 else r4);
         r6 = (if is_subnormal \<and> \<not> is_neg then r5 OR push_bit 5 1 else r5);
         r7 = (if \<not> is_subnormal \<and> \<not> is_nan then r6 OR push_bit 6 1 else r6);
         r8 = (if is_inf \<and> \<not> is_neg then r7 OR push_bit 7 1 else r7);
         r9 = (if is_nan then r8 OR push_bit 8 1 else r8)
     in if is_qnan then r9 OR push_bit 9 1 else r9)"

subsection \<open>Host comparisons and negation\<close>

text \<open>
  The comparisons \<open><\<close>, \<open><=\<close>, \<open>==\<close> of the host on \<open>float\<close> and \<open>double\<close> are those of
  IEEE 754, written on the bit patterns: a NaN compares false with everything, the two
  zeros are equal, and otherwise the order is that of sign and magnitude. \<open><\<close> and \<open><=\<close>
  raise \<open>FE_INVALID\<close> on a NaN operand, \<open>==\<close> on a signalling one. Unary minus flips the
  sign bit.
\<close>

definition ieee_mag :: "'a::len word \<Rightarrow> 'a word" where
  "ieee_mag v = take_bit (LENGTH('a) - 1) v"

definition ieee_key :: "'a::len word \<Rightarrow> int" where
  "ieee_key v = (if bit v (LENGTH('a) - 1) then - uint (ieee_mag v) else uint (ieee_mag v))"

definition f32_isnan :: "u32 \<Rightarrow> bool" where "f32_isnan v = (0x7f800000 < ieee_mag v)"
definition f64_isnan :: "u64 \<Rightarrow> bool" where "f64_isnan v = (0x7ff0000000000000 < ieee_mag v)"

definition f32_lt :: "u32 \<Rightarrow> u32 \<Rightarrow> bool" where
  "f32_lt a b = (\<not> f32_isnan a \<and> \<not> f32_isnan b \<and> ieee_key a < ieee_key b)"
definition f32_le :: "u32 \<Rightarrow> u32 \<Rightarrow> bool" where
  "f32_le a b = (\<not> f32_isnan a \<and> \<not> f32_isnan b \<and> ieee_key a \<le> ieee_key b)"
definition f32_eq :: "u32 \<Rightarrow> u32 \<Rightarrow> bool" where
  "f32_eq a b = (\<not> f32_isnan a \<and> \<not> f32_isnan b \<and> ieee_key a = ieee_key b)"
definition f32_ord_flags :: "u32 \<Rightarrow> u32 \<Rightarrow> fexcept set" where
  "f32_ord_flags a b = (if f32_isnan a \<or> f32_isnan b then {FE_INVALID} else {})"
definition f32_eq_flags :: "u32 \<Rightarrow> u32 \<Rightarrow> fexcept set" where
  "f32_eq_flags a b = (if is_nan32 a \<or> is_nan32 b then {FE_INVALID} else {})"
definition f32_neg :: "u32 \<Rightarrow> u32" where "f32_neg a = a XOR 0x80000000"

definition f64_lt :: "u64 \<Rightarrow> u64 \<Rightarrow> bool" where
  "f64_lt a b = (\<not> f64_isnan a \<and> \<not> f64_isnan b \<and> ieee_key a < ieee_key b)"
definition f64_le :: "u64 \<Rightarrow> u64 \<Rightarrow> bool" where
  "f64_le a b = (\<not> f64_isnan a \<and> \<not> f64_isnan b \<and> ieee_key a \<le> ieee_key b)"
definition f64_eq :: "u64 \<Rightarrow> u64 \<Rightarrow> bool" where
  "f64_eq a b = (\<not> f64_isnan a \<and> \<not> f64_isnan b \<and> ieee_key a = ieee_key b)"
definition f64_ord_flags :: "u64 \<Rightarrow> u64 \<Rightarrow> fexcept set" where
  "f64_ord_flags a b = (if f64_isnan a \<or> f64_isnan b then {FE_INVALID} else {})"
definition f64_eq_flags :: "u64 \<Rightarrow> u64 \<Rightarrow> fexcept set" where
  "f64_eq_flags a b = (if is_nan64 a \<or> is_nan64 b then {FE_INVALID} else {})"
definition f64_neg :: "u64 \<Rightarrow> u64" where "f64_neg a = a XOR 0x8000000000000000"

section \<open>The address translator\<close>

text \<open>
  Modelled from the spec: \<open>TLBEntry\<close> is declared in \<open>VirtualMachine.hpp\<close>, which is not
  among the sources. Its bit fields are those of an Sv32 page-table entry: V, R, W, X, U,
  G, A, D in bits 0 to 7, \<open>PPN_0\<close> in bits 19:10, \<open>PPN_1\<close> in bits 31:20, \<open>PPN\<close> the 22 bits
  31:10, and \<open>IsLeaf\<close> holds when one of R, W, X is set.
\<close>

definition pte_V :: "u32 \<Rightarrow> bool" where "pte_V raw = bit raw 0"
definition pte_R :: "u32 \<Rightarrow> bool" where "pte_R raw = bit raw 1"
definition pte_W :: "u32 \<Rightarrow> bool" where "pte_W raw = bit raw 2"
definition pte_X :: "u32 \<Rightarrow> bool" where "pte_X raw = bit raw 3"
definition pte_A :: "u32 \<Rightarrow> bool" where "pte_A raw = bit raw 6"
definition pte_D :: "u32 \<Rightarrow> bool" where "pte_D raw = bit raw 7"
definition pte_PPN_0 :: "u32 \<Rightarrow> u32" where "pte_PPN_0 raw = drop_bit 10 raw AND 0x3ff"
definition pte_PPN_1 :: "u32 \<Rightarrow> u32" where "pte_PPN_1 raw = drop_bit 20 raw AND 0xfff"
definition pte_PPN :: "u32 \<Rightarrow> u32" where "pte_PPN raw = drop_bit 10 raw AND 0x3fffff"
definition IsLeaf :: "u32 \<Rightarrow> bool" where "IsLeaf raw = (pte_R raw \<or> pte_W raw \<or> pte_X raw)"

lemmas pte_defs = pte_V_def pte_R_def pte_W_def pte_X_def pte_A_def pte_D_def pte_PPN_0_def
  pte_PPN_1_def pte_PPN_def IsLeaf_def

text \<open>The bit fields of the local union \<open>VirtualAddress\<close>.\<close>

definition vaddr_offset :: "u32 \<Rightarrow> u32" where "vaddr_offset raw = raw AND 0xfff"
definition vaddr_vpn_0 :: "u32 \<Rightarrow> u32" where "vaddr_vpn_0 raw = drop_bit 12 raw AND 0x3ff"
definition vaddr_vpn_1 :: "u32 \<Rightarrow> u32" where "vaddr_vpn_1 raw = drop_bit 22 raw AND 0x3ff"

definition PAGE_SIZE :: u32 where "PAGE_SIZE = 0x1000"

definition ReadTLBEntry :: "'m Host \<Rightarrow> 'm \<Rightarrow> u32 \<Rightarrow> error + u32" where
  "ReadTLBEntry h mem address =
    (case PeekWord h mem address of
       None \<Rightarrow> Inl PPN_access_fault
     | Some raw \<Rightarrow>
         if \<not> pte_V raw \<or> (\<not> pte_R raw \<and> pte_W raw) then Inl PPN_page_fault else Inr raw)"

definition TranslateMemoryAddress ::
    "'m Host \<Rightarrow> 'm VirtualMachine \<Rightarrow> u32 \<Rightarrow> bool \<Rightarrow> error + u32" where
  "TranslateMemoryAddress h vm address is_write =
    (case csrs vm CSR_SATP of
       None \<Rightarrow> Inl SATP_missing
     | Some satp \<Rightarrow>
        let root_table_address = push_bit 12 satp in
        (case ReadTLBEntry h (memory vm) (root_table_address + vaddr_vpn_1 address * 4) of
          Inl e \<Rightarrow> Inl e
        | Inr ppn_1 \<Rightarrow>
           (case (if IsLeaf ppn_1 then Inr (ppn_1, True)
                  else (case ReadTLBEntry h (memory vm)
                              (pte_PPN ppn_1 * PAGE_SIZE + vaddr_vpn_0 address * 4) of
                         Inl e \<Rightarrow> Inl e
                       | Inr leaf \<Rightarrow> (if \<not> IsLeaf leaf then Inl PPN_page_fault
                                      else Inr (leaf, False)))) of
              Inl e \<Rightarrow> Inl e
            | Inr (leaf, super) \<Rightarrow>
                if super \<and> pte_PPN_0 leaf \<noteq> 0 then Inl PPN_page_fault
                else if \<not> pte_A leaf \<or> (pte_D leaf \<and> is_write) then Inl Page_fault
                else if super
                  then Inr (push_bit 22 (pte_PPN_1 leaf) OR push_bit 12 (vaddr_vpn_0 address)
                            OR vaddr_offset address)
                else Inr (push_bit 12 (pte_PPN leaf) OR vaddr_offset address))))"

text \<open>\<open>CheckMemoryAccess\<close> grants everything: the address is present and translates to itself.\<close>

record MemoryAccess =
  address_present :: bool
  translated_address :: u32

definition CheckMemoryAccess :: "'m VirtualMachine \<Rightarrow> u32 \<Rightarrow> MemoryAccess" where
  "CheckMemoryAccess vm address = \<lparr>address_present = True, translated_address = address\<rparr>"

section \<open>The execution core\<close>

text \<open>
  What the dispatch of one instruction does to the hart: it completes (\<open>Done\<close>), it throws
  and leaves the hart as it was at the \<open>throw\<close> (\<open>Throw\<close>), or it never returns.
\<close>

datatype 'm outcome = Done "'m VirtualMachine" | Throw error "'m VirtualMachine" | NoReturn

definition set_reg :: "'m VirtualMachine \<Rightarrow> regidx \<Rightarrow> u32 \<Rightarrow> 'm VirtualMachine" where
  "set_reg vm r v = vm\<lparr>regs := (regs vm)(r := v)\<rparr>"

definition set_freg :: "'m VirtualMachine \<Rightarrow> regidx \<Rightarrow> Float \<Rightarrow> 'm VirtualMachine" where
  "set_freg vm r v = vm\<lparr>fregs := (fregs vm)(r := v)\<rparr>"

definition InvalidInstruction :: "'m Host \<Rightarrow> 'm VirtualMachine \<Rightarrow> 'm outcome" where
  "InvalidInstruction h vm =
    (case ReadWord h (memory vm) (pc vm) of
       Inl e \<Rightarrow> Throw e vm
     | Inr instr \<Rightarrow> Throw (Invalid_instruction (pc vm) instr) vm)"

text \<open>A bus read whose value the instruction goes on with, and a bus write.\<close>

definition bus_read :: "error + 'a \<Rightarrow> 'm VirtualMachine \<Rightarrow> ('a \<Rightarrow> 'm outcome) \<Rightarrow> 'm outcome" where
  "bus_read r vm k = (case r of Inl e \<Rightarrow> Throw e vm | Inr v \<Rightarrow> k v)"

definition bus_write :: "error + 'm \<Rightarrow> 'm VirtualMachine \<Rightarrow> 'm outcome" where
  "bus_write r vm = (case r of Inl e \<Rightarrow> Throw e vm | Inr m \<Rightarrow> Done (vm\<lparr>memory := m\<rparr>))"

definition SignExtend :: "u32 \<Rightarrow> nat \<Rightarrow> u32" where
  "SignExtend v b =
    (let sign = push_bit b (- 1) in if v AND push_bit b 1 \<noteq> 0 then v OR sign else v)"

definition shl_1U :: "'m Host \<Rightarrow> nat \<Rightarrow> u32" where
  "shl_1U h n = (if n < 32 then push_bit n 1 else shl_1U_32 h)"

text \<open>The body shared by the cases SRAI and SRA, on the value of \<open>rs1\<close> and the amount.\<close>

definition sra_value :: "'m Host \<Rightarrow> u32 \<Rightarrow> nat \<Rightarrow> u32" where
  "sra_value h x amount =
    (let val = drop_bit amount x;
         sign = push_bit amount (- 1)
     in if x AND shl_1U h (32 - amount) \<noteq> 0 then val OR sign else val)"

definition of_bool32 :: "bool \<Rightarrow> u32" where
  "of_bool32 b = (if b then 1 else 0)"

fun branch :: "bool \<Rightarrow> RVInstruction \<Rightarrow> 'm VirtualMachine \<Rightarrow> 'm outcome" where
  "branch taken instr vm =
    (if taken then Done (vm\<lparr>pc := pc vm + immediate instr\<rparr>)
     else Done (vm\<lparr>pc := pc vm + 4\<rparr>))"

fun exec_base :: "'m Host \<Rightarrow> BaseType \<Rightarrow> RVInstruction \<Rightarrow> 'm VirtualMachine \<Rightarrow> 'm outcome" where
  "exec_base h LUI instr vm = Done (set_reg vm (rd instr) (immediate instr))"
| "exec_base h AUIPC instr vm = Done (set_reg vm (rd instr) (pc vm + immediate instr))"
| "exec_base h JAL instr vm =
    (let next_pc = pc vm + 4;
         vm1 = vm\<lparr>pc := pc vm + immediate instr\<rparr>
     in Done (set_reg vm1 (rd instr) next_pc))"
| "exec_base h JALR instr vm =
    (let next_pc = pc vm + 4;
         vm1 = vm\<lparr>pc := (regs vm (rs1 instr) + immediate instr) AND 0xfffffffe\<rparr>
     in Done (set_reg vm1 (rd instr) next_pc))"
| "exec_base h BEQ instr vm = branch (regs vm (rs1 instr) = regs vm (rs2 instr)) instr vm"
| "exec_base h BNE instr vm = branch (regs vm (rs1 instr) \<noteq> regs vm (rs2 instr)) instr vm"
| "exec_base h BLT instr vm =
    branch (sint (regs vm (rs1 instr)) < sint (regs vm (rs2 instr))) instr vm"
| "exec_base h BGE instr vm =
    branch (sint (regs vm (rs1 instr)) \<ge> sint (regs vm (rs2 instr))) instr vm"
| "exec_base h BLTU instr vm = branch (regs vm (rs1 instr) < regs vm (rs2 instr)) instr vm"
| "exec_base h BGEU instr vm = branch (regs vm (rs1 instr) \<ge> regs vm (rs2 instr)) instr vm"
| "exec_base h LB instr vm =
    bus_read (ReadByte h (memory vm) (regs vm (rs1 instr) + immediate instr)) vm
      (\<lambda>b. Done (set_reg vm (rd instr) (SignExtend (ucast b) 7)))"
| "exec_base h LH instr vm =
    bus_read (ReadHalf h (memory vm) (regs vm (rs1 instr) + immediate instr)) vm
      (\<lambda>b. Done (set_reg vm (rd instr) (SignExtend (ucast b) 15)))"
| "exec_base h LW instr vm =
    bus_read (ReadWord h (memory vm) (regs vm (rs1 instr) + immediate instr)) vm
      (\<lambda>w. Done (set_reg vm (rd instr) w))"
| "exec_base h LBU instr vm =
    bus_read (ReadByte h (memory vm) (regs vm (rs1 instr) + immediate instr)) vm
      (\<lambda>b. Done (set_reg vm (rd instr) (ucast b)))"
| "exec_base h LHU instr vm =
    bus_read (ReadHalf h (memory vm) (regs vm (rs1 instr) + immediate instr)) vm
      (\<lambda>b. Done (set_reg vm (rd instr) (ucast b)))"
| "exec_base h SB instr vm =
    bus_write (WriteByte h (memory vm) (regs vm (rs1 instr) + immediate instr)
                 (ucast (regs vm (rs2 instr)))) vm"
| "exec_base h SH instr vm =
    bus_write (WriteHalf h (memory vm) (regs vm (rs1 instr) + immediate instr)
                 (ucast (regs vm (rs2 instr)))) vm"
| "exec_base h SW instr vm =
    bus_write (WriteWord h (memory vm) (regs vm (rs1 instr) + immediate instr)
                 (regs vm (rs2 instr))) vm"

fun exec_alu :: "'m Host \<Rightarrow> AluType \<Rightarrow> RVInstruction \<Rightarrow> 'm VirtualMachine \<Rightarrow> 'm outcome" where
  "exec_alu h ADDI instr vm =
    Done (set_reg vm (rd instr) (regs vm (rs1 instr) + immediate instr))"
| "exec_alu h SLTI instr vm =
    Done (set_reg vm (rd instr)
      (of_bool32 (sint (regs vm (rs1 instr)) < sint (immediate instr))))"
| "exec_alu h SLTIU instr vm =
    Done (set_reg vm (rd instr) (of_bool32 (regs vm (rs1 instr) < immediate instr)))"
| "exec_alu h XORI instr vm =
    Done (set_reg vm (rd instr) (regs vm (rs1 instr) XOR immediate instr))"
| "exec_alu h ORI instr vm =
    Done (set_reg vm (rd instr) (regs vm (rs1 instr) OR immediate instr))"
| "exec_alu h ANDI instr vm =
    Done (set_reg vm (rd instr) (regs vm (rs1 instr) AND immediate instr))"
| "exec_alu h SLLI instr vm =
    (let amount = unat (rs2 instr)
     in Done (set_reg vm (rd instr) (push_bit amount (regs vm (rs1 instr)))))"
| "exec_alu h SRLI instr vm =
    (let amount = unat (rs2 instr)
     in Done (set_reg vm (rd instr) (drop_bit amount (regs vm (rs1 instr)))))"
| "exec_alu h SRAI instr vm =
    (let amount = unat (rs2 instr)
     in Done (set_reg vm (rd instr) (sra_value h (regs vm (rs1 instr)) amount)))"
| "exec_alu h ADD instr vm =
    Done (set_reg vm (rd instr) (regs vm (rs1 instr) + regs vm (rs2 instr)))"
| "exec_alu h SUB instr vm =
    Done (set_reg vm (rd instr) (regs vm (rs1 instr) - regs vm (rs2 instr)))"
| "exec_alu h SLL instr vm =
    (let amount = unat (regs vm (rs2 instr) AND 0x1f)
     in Done (set_reg vm (rd instr) (push_bit amount (regs vm (rs1 instr)))))"
| "exec_alu h SLT instr vm =
    Done (set_reg vm (rd instr)
      (of_bool32 (sint (regs vm (rs1 instr)) < sint (regs vm (rs2 instr)))))"
| "exec_alu h SLTU instr vm =
    Done (set_reg vm (rd instr) (of_bool32 (regs vm (rs1 instr) < regs vm (rs2 instr))))"
| "exec_alu h XOR_op instr vm =
    Done (set_reg vm (rd instr) (regs vm (rs1 instr) XOR regs vm (rs2 instr)))"
| "exec_alu h SRL instr vm =
    (let amount = unat (regs vm (rs2 instr) AND 0x1f)
     in Done (set_reg vm (rd instr) (drop_bit amount (regs vm (rs1 instr)))))"
| "exec_alu h SRA instr vm =
    (let amount = unat (regs vm (rs2 instr) AND 0x1f)
     in Done (set_reg vm (rd instr) (sra_value h (regs vm (rs1 instr)) amount)))"
| "exec_alu h OR_op instr vm =
    Done (set_reg vm (rd instr) (regs vm (rs1 instr) OR regs vm (rs2 instr)))"
| "exec_alu h AND_op instr vm =
    Done (set_reg vm (rd instr) (regs vm (rs1 instr) AND regs vm (rs2 instr)))"

subsection \<open>CSR instructions, ECALL and the privileged instructions\<close>

text \<open>The outward read of a CSR instruction: \<open>if (instr.rd != REG_ZERO) regs[instr.rd] = ReadCSR(...)\<close>.\<close>

definition csr_read_rd ::
    "'m VirtualMachine \<Rightarrow> RVInstruction \<Rightarrow> ('m VirtualMachine \<Rightarrow> 'm outcome) \<Rightarrow> 'm outcome" where
  "csr_read_rd vm instr k =
    (if rd instr \<noteq> REG_ZERO
     then (case ReadCSR vm (immediate instr) False of
             Inl e \<Rightarrow> Throw e vm
           | Inr v \<Rightarrow> k (set_reg vm (rd instr) v))
     else k vm)"

definition csr_write :: "'m VirtualMachine \<Rightarrow> u32 \<Rightarrow> u32 \<Rightarrow> 'm outcome" where
  "csr_write vm csr v = (case WriteCSR vm csr v of Inl e \<Rightarrow> Throw e vm | Inr vm' \<Rightarrow> Done vm')"

text \<open>\<open>WriteCSR(csr, f(ReadCSR(csr, true)))\<close>: the internal read, then the checked write.\<close>

definition csr_modify :: "'m VirtualMachine \<Rightarrow> u32 \<Rightarrow> (u32 \<Rightarrow> u32) \<Rightarrow> 'm outcome" where
  "csr_modify vm csr f =
    (case ReadCSR vm csr True of
       Inl e \<Rightarrow> Throw e vm
     | Inr old \<Rightarrow> csr_write vm csr (f old))"

definition ecall :: "'m Host \<Rightarrow> 'm VirtualMachine \<Rightarrow> 'm outcome" where
  "ecall h vm =
    (let a0 = regs vm REG_A0;
         vm1 = touch_csr vm CSR_MHARTID;
         hart = csrs_index (csrs vm) CSR_MHARTID
     in case ecall_handlers h a0 of
          None \<Rightarrow> Throw (Unknown_ECall hart a0) vm1
        | Some handler \<Rightarrow>
            (case handler hart (memory vm1) (regs vm1) (fregs vm1) of
               (res, m, rs, fs) \<Rightarrow>
                 (let vm2 = vm1\<lparr>memory := m, regs := rs, fregs := fs\<rparr>
                  in case res of None \<Rightarrow> Done vm2 | Some e \<Rightarrow> Throw e vm2)))"

fun exec_sys :: "'m Host \<Rightarrow> SysType \<Rightarrow> RVInstruction \<Rightarrow> 'm VirtualMachine \<Rightarrow> 'm outcome" where
  "exec_sys h FENCE instr vm = Done vm"
| "exec_sys h ECALL instr vm = ecall h vm"
| "exec_sys h EBREAK instr vm = Done vm"
| "exec_sys h CSRRW instr vm =
    (let val = regs vm (rs1 instr)
     in csr_read_rd vm instr (\<lambda>vm1. csr_write vm1 (immediate instr) val))"
| "exec_sys h CSRRS instr vm =
    (let val = regs vm (rs1 instr)
     in csr_read_rd vm instr (\<lambda>vm1.
          if rs1 instr \<noteq> REG_ZERO
          then csr_modify vm1 (immediate instr) (\<lambda>old. old OR val)
          else Done vm1))"
| "exec_sys h CSRRC instr vm =
    (let val = regs vm (rs1 instr)
     in csr_read_rd vm instr (\<lambda>vm1.
          if rs1 instr \<noteq> REG_ZERO
          then csr_modify vm1 (immediate instr) (\<lambda>old. old AND NOT val)
          else Done vm1))"
| "exec_sys h CSRRWI instr vm =
    (let val = ucast (rs1 instr)
     in csr_read_rd vm instr (\<lambda>vm1. csr_write vm1 (immediate instr) val))"
| "exec_sys h CSRRSI instr vm =
    (let val = ucast (rs1 instr)
     in csr_read_rd vm instr (\<lambda>vm1. csr_modify vm1 (immediate instr) (\<lambda>old. old OR val)))"
| "exec_sys h CSRRCI instr vm =
    (let val = ucast (rs1 instr)
     in csr_read_rd vm instr (\<lambda>vm1.
          csr_modify vm1 (immediate instr) (\<lambda>old. old AND NOT val)))"
| "exec_sys h URET instr vm = Throw Not_implemented vm"
| "exec_sys h SRET instr vm = Throw Not_implemented vm"
| "exec_sys h MRET instr vm = Throw Not_implemented vm"
| "exec_sys h WFI instr vm = Throw Not_implemented vm"
| "exec_sys h SFENCE_VMA instr vm = Throw Not_implemented vm"
| "exec_sys h SINVAL_VMA instr vm = Throw Not_implemented vm"
| "exec_sys h SINVAL_GVMA instr vm = Throw Not_implemented vm"
| "exec_sys h SFENCE_W_INVAL instr vm = Throw Not_implemented vm"
| "exec_sys h SFENCE_INVAL_IR instr vm = Throw Not_implemented vm"
| "exec_sys h CUST_TVA instr vm =
    (case TranslateMemoryAddress h vm (regs vm (rs1 instr)) False of
       Inl e \<Rightarrow> Throw e vm
     | Inr pa \<Rightarrow> Done (set_reg vm (rd instr) pa))"
| "exec_sys h INVALID instr vm = InvalidInstruction h vm"

subsection \<open>Multiplication, division and atomics\<close>

text \<open>
  The read-modify-write primitives of the bus return the prior value, which goes to \<open>rd\<close>.
  \<open>csrs[CSR_MHARTID]\<close> is evaluated for the call, so the entry exists afterwards.
\<close>

definition bus_rmw ::
    "error + (u32 \<times> 'm) \<Rightarrow> 'm VirtualMachine \<Rightarrow> regidx \<Rightarrow> 'm outcome" where
  "bus_rmw r vm dst =
    (case r of
       Inl e \<Rightarrow> Throw e vm
     | Inr (v, m) \<Rightarrow> Done (set_reg (vm\<lparr>memory := m\<rparr>) dst v))"

definition amo_op ::
    "'m Host \<Rightarrow> amo \<Rightarrow> RVInstruction \<Rightarrow> 'm VirtualMachine \<Rightarrow> 'm outcome" where
  "amo_op h opn instr vm =
    bus_rmw (Atomic h opn (memory vm) (regs vm (rs1 instr)) (regs vm (rs2 instr))) vm (rd instr)"

text \<open>
  Signed division truncates towards zero. \<open>INT_MIN / -1\<close> and the overflow of the signed
  product of MUL are undefined in C++; the model gives them the wrapped value.
\<close>

fun exec_ma ::
    "'m Host \<Rightarrow> MulAtomicType \<Rightarrow> RVInstruction \<Rightarrow> 'm VirtualMachine \<Rightarrow> 'm outcome" where
  "exec_ma h MUL instr vm =
    Done (set_reg vm (rd instr) (regs vm (rs1 instr) * regs vm (rs2 instr)))"
| "exec_ma h MULH instr vm =
    (let lhs = (scast (regs vm (rs1 instr)) :: u64);
         rhs = (scast (regs vm (rs2 instr)) :: u64);
         result = lhs * rhs
     in Done (set_reg vm (rd instr) (ucast (signed_drop_bit 32 result))))"
| "exec_ma h MULHSU instr vm =
    (let lhs = (scast (regs vm (rs1 instr)) :: u64);
         rhs = (ucast (regs vm (rs2 instr)) :: u64);
         result = lhs * rhs
     in Done (set_reg vm (rd instr) (ucast (signed_drop_bit 32 result))))"
| "exec_ma h MULHU instr vm =
    (let lhs = (ucast (regs vm (rs1 instr)) :: u64);
         rhs = (ucast (regs vm (rs2 instr)) :: u64);
         result = lhs * rhs
     in Done (set_reg vm (rd instr) (ucast (drop_bit 32 result))))"
| "exec_ma h DIV instr vm =
    (let lhs = sint (regs vm (rs1 instr)); rhs = sint (regs vm (rs2 instr))
     in if rhs = 0 then Throw Div_by_zero vm
        else Done (set_reg vm (rd instr) (word_of_int (lhs sdiv rhs))))"
| "exec_ma h DIVU instr vm =
    (let lhs = regs vm (rs1 instr); rhs = regs vm (rs2 instr)
     in if rhs = 0 then Throw Div_by_zero vm
        else Done (set_reg vm (rd instr) (lhs div rhs)))"
| "exec_ma h REM instr vm =
    (let lhs = sint (regs vm (rs1 instr)); rhs = sint (regs vm (rs2 instr))
     in if rhs = 0 then Throw Div_by_zero vm
        else Done (set_reg vm (rd instr) (word_of_int (lhs smod rhs))))"
| "exec_ma h REMU instr vm =
    (let lhs = regs vm (rs1 instr); rhs = regs vm (rs2 instr)
     in if rhs = 0 then Throw Div_by_zero vm
        else Done (set_reg vm (rd instr) (lhs mod rhs)))"
| "exec_ma h LR_W instr vm =
    (if rs2 instr \<noteq> 0 then InvalidInstruction h vm
     else let vm1 = touch_csr vm CSR_MHARTID
          in bus_rmw (ReadWordReserved h (memory vm1) (regs vm1 (rs1 instr))
                        (csrs_index (csrs vm) CSR_MHARTID)) vm1 (rd instr))"
| "exec_ma h SC_W instr vm =
    (let vm1 = touch_csr vm CSR_MHARTID
     in case WriteWordConditional h (memory vm1) (regs vm1 (rs1 instr)) (regs vm1 (rs2 instr))
               (csrs_index (csrs vm) CSR_MHARTID) of
          Inl e \<Rightarrow> Throw e vm1
        | Inr (ok, m) \<Rightarrow>
            (if ok then Done (set_reg (vm1\<lparr>memory := m\<rparr>) (rd instr) 0)
             else Done (set_reg (vm1\<lparr>memory := m\<rparr>) (rd instr) 1)))"
| "exec_ma h AMOSWAP_W instr vm = amo_op h AtomicSwap instr vm"
| "exec_ma h AMOADD_W instr vm = amo_op h AtomicAdd instr vm"
| "exec_ma h AMOXOR_W instr vm = amo_op h AtomicXor instr vm"
| "exec_ma h AMOAND_W instr vm = amo_op h AtomicAnd instr vm"
| "exec_ma h AMOOR_W instr vm = amo_op h AtomicOr instr vm"
| "exec_ma h AMOMIN_W instr vm = amo_op h AtomicMin instr vm"
| "exec_ma h AMOMAX_W instr vm = amo_op h AtomicMax instr vm"
| "exec_ma h AMOMINU_W instr vm = amo_op h AtomicMinU instr vm"
| "exec_ma h AMOMAXU_W instr vm = amo_op h AtomicMaxU instr vm"

subsection \<open>Single-precision instructions\<close>

text \<open>\<open>if (!ChangeRoundingMode(instr.rm)) InvalidInstruction();\<close> and what follows it.\<close>

definition with_rounding ::
    "'m Host \<Rightarrow> 'm VirtualMachine \<Rightarrow> RVInstruction \<Rightarrow> ('m VirtualMachine \<Rightarrow> 'm outcome)
      \<Rightarrow> 'm outcome" where
  "with_rounding h vm instr k =
    (case ChangeRoundingMode h vm (rm instr) of
       None \<Rightarrow> NoReturn
     | Some (ok, vm1) \<Rightarrow> if \<not> ok then InvalidInstruction h vm1 else k vm1)"

text \<open>
  \<open>if (CheckFloatErrors()) fregs[rd].u64 = RV_F32_NAN; else fregs[rd].f = result;\<close> after
  the host has computed \<open>result\<close> and raised the flags \<open>fl\<close>.
\<close>

definition write_f32_checked ::
    "'m VirtualMachine \<Rightarrow> regidx \<Rightarrow> u32 \<times> fexcept set \<Rightarrow> 'm outcome" where
  "write_f32_checked vm dst res =
    (case CheckFloatErrors (host_raise (snd res) vm) of
       (bad, vm1) \<Rightarrow>
         if bad then Done (set_freg vm1 dst (set_u64 (fregs vm1 dst) RV_F32_NAN))
         else Done (set_freg vm1 dst (set_u32 (fregs vm1 dst) (fst res))))"

text \<open>
  The fused family computes \<open>\<plusminus>(rs1 * rs2) \<plusminus> rs3\<close> with one host multiplication and one
  host addition or subtraction.
\<close>

definition fma_s ::
    "'m Host \<Rightarrow> bool \<Rightarrow> farith \<Rightarrow> RVInstruction \<Rightarrow> 'm VirtualMachine \<Rightarrow> 'm outcome" where
  "fma_s h negate opn instr vm =
    with_rounding h vm instr (\<lambda>vm1.
      let a = u32_of (fregs vm1 (rs1 instr));
          b = u32_of (fregs vm1 (rs2 instr));
          c = u32_of (fregs vm1 (rs3 instr));
          lhs_is_inf = is_inf32 a;
          rhs_is_zero = is_zero32 b
      in if lhs_is_inf \<and> rhs_is_zero then InvalidInstruction h vm1
         else (let prod = host_f32_arith h F_MUL (host_rounding vm1) a b;
                   p = (if negate then f32_neg (fst prod) else fst prod);
                   res = host_f32_arith h opn (host_rounding vm1) p c
               in write_f32_checked vm1 (rd instr) (fst res, snd prod \<union> snd res)))"

definition arith_s ::
    "'m Host \<Rightarrow> farith \<Rightarrow> RVInstruction \<Rightarrow> 'm VirtualMachine \<Rightarrow> 'm outcome" where
  "arith_s h opn instr vm =
    with_rounding h vm instr (\<lambda>vm1.
      write_f32_checked vm1 (rd instr)
        (host_f32_arith h opn (host_rounding vm1)
           (u32_of (fregs vm1 (rs1 instr))) (u32_of (fregs vm1 (rs2 instr)))))"

definition NV_only :: "'m VirtualMachine \<Rightarrow> 'm VirtualMachine" where
  "NV_only vm = SetFloatFlags vm True False False False False"

definition NX_only :: "'m VirtualMachine \<Rightarrow> 'm VirtualMachine" where
  "NX_only vm = SetFloatFlags vm False False False False True"

definition minmax_s :: "bool \<Rightarrow> RVInstruction \<Rightarrow> 'm VirtualMachine \<Rightarrow> 'm outcome" where
  "minmax_s is_max instr vm =
    (let a = u32_of (fregs vm (rs1 instr));
         b = u32_of (fregs vm (rs2 instr));
         lhs_neg = is_neg32 a; rhs_neg = is_neg32 b;
         lhs_nan = (is_nan32 a \<or> is_qnan32 a);
         rhs_nan = (is_nan32 b \<or> is_qnan32 b)
     in if lhs_nan \<and> rhs_nan
        then (let vm1 = NV_only vm
              in Done (set_freg vm1 (rd instr) (set_u64 (fregs vm1 (rd instr)) RV_F32_NAN)))
        else (let lhs_less =
                    (if lhs_nan then False
                     else if rhs_nan then True
                     else if lhs_neg \<and> \<not> rhs_neg then True
                     else if \<not> lhs_neg \<and> rhs_neg then False
                     else f32_lt a b);
                  vm1 = (if lhs_nan \<or> rhs_nan then NV_only vm
                         else if lhs_neg \<noteq> rhs_neg then vm
                         else host_raise (f32_ord_flags a b) vm)
              in if lhs_less \<noteq> is_max
                 then Done (set_freg vm1 (rd instr) (fregs vm1 (rs1 instr)))
                 else Done (set_freg vm1 (rd instr) (fregs vm1 (rs2 instr)))))"

text \<open>
  FCVT.W.S and FCVT.WU.S differ in the clamps and in the host conversions; \<open>neg_inf\<close>,
  \<open>pos_inf\<close> and \<open>nan\<close> are the three constants of the case, \<open>conv\<close> the conversion of
  \<open>float\<close> to the integer type and \<open>conv_back\<close> the one back that \<open>val != f\<close> performs.
\<close>

definition fcvt_int_s ::
    "'m Host \<Rightarrow> u32 \<Rightarrow> u32 \<Rightarrow> u32 \<Rightarrow> (u32 \<Rightarrow> u32 \<times> fexcept set)
      \<Rightarrow> (host_round \<Rightarrow> u32 \<Rightarrow> u32 \<times> fexcept set)
      \<Rightarrow> RVInstruction \<Rightarrow> 'm VirtualMachine \<Rightarrow> 'm outcome" where
  "fcvt_int_s h neg_inf pos_inf nan conv conv_back instr vm =
    with_rounding h vm instr (\<lambda>vm1.
      let a = u32_of (fregs vm1 (rs1 instr))
      in if is_inf32 a
         then (let result = (if f32_lt a 0 then neg_inf else pos_inf);
                   vm2 = NX_only (host_raise (f32_ord_flags a 0) vm1)
               in Done (set_reg vm2 (rd instr) result))
         else if is_nan32 a \<or> is_qnan32 a
         then Done (set_reg (NX_only vm1) (rd instr) nan)
         else (let val = conv a;
                   back = conv_back (host_rounding vm1) (fst val);
                   vm2 = host_raise (snd val \<union> snd back \<union> f32_eq_flags (fst back) a) vm1;
                   vm3 = (if \<not> f32_eq (fst back) a then NX_only vm2 else vm2)
               in Done (set_reg vm3 (rd instr) (fst val))))"

text \<open>The three compares; \<open>strict\<close> is False for FEQ.S, which raises NV on a signalling NaN only.\<close>

definition compare_s ::
    "'m Host \<Rightarrow> bool \<Rightarrow> (u32 \<Rightarrow> u32 \<Rightarrow> bool) \<Rightarrow> (u32 \<Rightarrow> u32 \<Rightarrow> fexcept set)
      \<Rightarrow> RVInstruction \<Rightarrow> 'm VirtualMachine \<Rightarrow> 'm outcome" where
  "compare_s h strict rel rel_flags instr vm =
    with_rounding h vm instr (\<lambda>vm1.
      let lhs = u32_of (fregs vm1 (rs1 instr));
          rhs = u32_of (fregs vm1 (rs2 instr));
          lhs_nan = is_nan32 lhs; lhs_qnan = is_qnan32 lhs;
          rhs_nan = is_nan32 rhs; rhs_qnan = is_qnan32 rhs;
          any_nan = (lhs_nan \<or> rhs_nan \<or> lhs_qnan \<or> rhs_qnan);
          vm2 = (if lhs_nan \<or> rhs_nan \<or> (strict \<and> any_nan) then NV_only vm1 else vm1)
      in if any_nan then Done (set_reg vm2 (rd instr) 0)
         else Done (set_reg (host_raise (rel_flags lhs rhs) vm2) (rd instr)
                      (of_bool32 (rel lhs rhs))))"

text \<open>
  FCVT.S.W and FCVT.S.WU: \<open>fregs[rd].f = val\<close>, and the test \<open>fregs[rd].f != val\<close> converts
  \<open>val\<close> once more.
\<close>

definition fcvt_s_int ::
    "'m Host \<Rightarrow> (host_round \<Rightarrow> u32 \<Rightarrow> u32 \<times> fexcept set) \<Rightarrow> RVInstruction
      \<Rightarrow> 'm VirtualMachine \<Rightarrow> 'm outcome" where
  "fcvt_s_int h from_int instr vm =
    (let val = regs vm (rs1 instr);
         conv = from_int (host_rounding vm) val;
         vm1 = set_freg (host_raise (snd conv) vm) (rd instr)
                 (set_u32 (fregs vm (rd instr)) (fst conv));
         again = from_int (host_rounding vm1) val;
         stored = u32_of (fregs vm1 (rd instr));
         vm2 = host_raise (snd again \<union> f32_eq_flags stored (fst again)) vm1
     in if \<not> f32_eq stored (fst again) then Done (NV_only vm2) else Done vm2)"

definition ToFloat :: "'m Host \<Rightarrow> u32 \<Rightarrow> Float" where
  "ToFloat h v = (set_u32 (Float_uninit h) v)\<lparr>is_double := False\<rparr>"

definition ToDouble :: "'m Host \<Rightarrow> u64 \<Rightarrow> Float" where
  "ToDouble h v = set_u64 (Float_uninit h) v"

definition sign32 :: u32 where "sign32 = push_bit 31 1"

fun exec_f :: "'m Host \<Rightarrow> FloatType \<Rightarrow> RVInstruction \<Rightarrow> 'm VirtualMachine \<Rightarrow> 'm outcome" where
  "exec_f h FLW instr vm =
    bus_read (ReadWord h (memory vm) (regs vm (rs1 instr) + immediate instr)) vm
      (\<lambda>w. Done (set_freg vm (rd instr) (ToFloat h w)))"
| "exec_f h FSW instr vm =
    bus_write (WriteWord h (memory vm) (regs vm (rs1 instr) + immediate instr)
                 (u32_of (fregs vm (rs2 instr)))) vm"
| "exec_f h FMADD_S instr vm = fma_s h False F_ADD instr vm"
| "exec_f h FMSUB_S instr vm = fma_s h False F_SUB instr vm"
| "exec_f h FNMSUB_S instr vm = fma_s h True F_ADD instr vm"
| "exec_f h FNMADD_S instr vm = fma_s h True F_SUB instr vm"
| "exec_f h FADD_S instr vm = arith_s h F_ADD instr vm"
| "exec_f h FSUB_S instr vm = arith_s h F_SUB instr vm"
| "exec_f h FMUL_S instr vm = arith_s h F_MUL instr vm"
| "exec_f h FDIV_S instr vm = arith_s h F_DIV instr vm"
| "exec_f h FSQRT_S instr vm =
    with_rounding h vm instr (\<lambda>vm1.
      let a = u32_of (fregs vm1 (rs1 instr))
      in if is_inf32 a \<or> is_nan32 a \<or> is_qnan32 a \<or> is_neg32 a
         then Done (set_freg vm1 (rd instr) (set_u64 (fregs vm1 (rd instr)) RV_F32_NAN))
         else (let res = host_f32_sqrt h (host_rounding vm1) a;
                   vm2 = host_raise (snd res) vm1
               in Done (set_freg vm2 (rd instr) (set_u32 (fregs vm2 (rd instr)) (fst res)))))"
| "exec_f h FSGNJ_S instr vm =
    (let result = fregs vm (rs1 instr);
         rhs = fregs vm (rs2 instr);
         r1 = set_u32 result (u32_of result AND NOT sign32);
         r2 = set_u32 r1 (u32_of r1 OR (u32_of rhs AND sign32))
     in Done (set_freg vm (rd instr) r2))"
| "exec_f h FSGNJN_S instr vm =
    (let result = fregs vm (rs1 instr);
         rhs = fregs vm (rs2 instr);
         r1 = set_u32 result (u32_of result AND NOT sign32);
         r2 = set_u32 r1 (u32_of r1 OR (NOT (u32_of rhs) AND sign32))
     in Done (set_freg vm (rd instr) r2))"
| "exec_f h FSGNJX_S instr vm =
    (let result = fregs vm (rs1 instr);
         rhs = fregs vm (rs2 instr);
         r1 = set_u32 result (u32_of result XOR (u32_of rhs AND sign32))
     in Done (set_freg vm (rd instr) r1))"
| "exec_f h FMIN_S instr vm = minmax_s False instr vm"
| "exec_f h FMAX_S instr vm = minmax_s True instr vm"
| "exec_f h FCVT_W_S instr vm =
    fcvt_int_s h (- 1) 0x7fffffff 0x7fffffff (host_f32_to_i32 h) (host_i32_to_f32 h) instr vm"
| "exec_f h FCVT_WU_S instr vm =
    fcvt_int_s h 0 (- 1) (- 1) (host_f32_to_u32 h) (host_u32_to_f32 h) instr vm"
| "exec_f h FMV_X_W instr vm = Done (set_reg vm (rd instr) (u32_of (fregs vm (rs1 instr))))"
| "exec_f h FEQ_S instr vm = compare_s h False f32_eq f32_eq_flags instr vm"
| "exec_f h FLT_S instr vm = compare_s h True f32_lt f32_ord_flags instr vm"
| "exec_f h FLE_S instr vm = compare_s h True f32_le f32_ord_flags instr vm"
| "exec_f h FCLASS_S instr vm =
    with_rounding h vm instr (\<lambda>vm1.
      let a = u32_of (fregs vm1 (rs1 instr))
      in Done (set_reg vm1 (rd instr)
           (fclass_mask (is_inf32 a) (is_nan32 a) (is_qnan32 a) (is_subnormal32 a)
              (is_zero32 a) (is_neg32 a))))"
| "exec_f h FCVT_S_W instr vm = fcvt_s_int h (host_i32_to_f32 h) instr vm"
| "exec_f h FCVT_S_WU instr vm = fcvt_s_int h (host_u32_to_f32 h) instr vm"
| "exec_f h FMV_W_X instr vm =
    (let lane0 = set_u64 (fregs vm (rd instr)) 0
     in Done (set_freg vm (rd instr) (set_u32 lane0 (regs vm (rs1 instr)))))"

subsection \<open>Double-precision instructions\<close>

definition write_f64_checked ::
    "'m VirtualMachine \<Rightarrow> regidx \<Rightarrow> u64 \<times> fexcept set \<Rightarrow> 'm outcome" where
  "write_f64_checked vm dst res =
    (case CheckFloatErrors (host_raise (snd res) vm) of
       (bad, vm1) \<Rightarrow>
         if bad then Done (set_freg vm1 dst (set_u64 (fregs vm1 dst) RV_F64_NAN))
         else Done (set_freg vm1 dst (set_u64 (fregs vm1 dst) (fst res))))"

definition fma_d ::
    "'m Host \<Rightarrow> bool \<Rightarrow> farith \<Rightarrow> RVInstruction \<Rightarrow> 'm VirtualMachine \<Rightarrow> 'm outcome" where
  "fma_d h negate opn instr vm =
    with_rounding h vm instr (\<lambda>vm1.
      let a = u64 (fregs vm1 (rs1 instr));
          b = u64 (fregs vm1 (rs2 instr));
          c = u64 (fregs vm1 (rs3 instr));
          lhs_is_inf = is_inf64 a;
          rhs_is_zero = is_zero64 b
      in if lhs_is_inf \<and> rhs_is_zero then InvalidInstruction h vm1
         else (let prod = host_f64_arith h F_MUL (host_rounding vm1) a b;
                   p = (if negate then f64_neg (fst prod) else fst prod);
                   res = host_f64_arith h opn (host_rounding vm1) p c
               in write_f64_checked vm1 (rd instr) (fst res, snd prod \<union> snd res)))"

definition arith_d ::
    "'m Host \<Rightarrow> farith \<Rightarrow> RVInstruction \<Rightarrow> 'm VirtualMachine \<Rightarrow> 'm outcome" where
  "arith_d h opn instr vm =
    with_rounding h vm instr (\<lambda>vm1.
      write_f64_checked vm1 (rd instr)
        (host_f64_arith h opn (host_rounding vm1)
           (u64 (fregs vm1 (rs1 instr))) (u64 (fregs vm1 (rs2 instr)))))"

definition minmax_d :: "bool \<Rightarrow> RVInstruction \<Rightarrow> 'm VirtualMachine \<Rightarrow> 'm outcome" where
  "minmax_d is_max instr vm =
    (let a = u64 (fregs vm (rs1 instr));
         b = u64 (fregs vm (rs2 instr));
         lhs_neg = is_neg64 a; rhs_neg = is_neg64 b;
         lhs_nan = (is_nan64 a \<or> is_qnan64 a);
         rhs_nan = (is_nan64 b \<or> is_qnan64 b)
     in if lhs_nan \<and> rhs_nan
        then (let vm1 = NV_only vm
              in Done (set_freg vm1 (rd instr) (set_u64 (fregs vm1 (rd instr)) RV_F64_NAN)))
        else (let lhs_less =
                    (if lhs_nan then False
                     else if rhs_nan then True
                     else if lhs_neg \<and> \<not> rhs_neg then True
                     else if \<not> lhs_neg \<and> rhs_neg then False
                     else f64_lt a b);
                  vm1 = (if lhs_nan \<or> rhs_nan then NV_only vm
                         else if lhs_neg \<noteq> rhs_neg then vm
                         else host_raise (f64_ord_flags a b) vm)
              in if lhs_less \<noteq> is_max
                 then Done (set_freg vm1 (rd instr) (fregs vm1 (rs1 instr)))
                 else Done (set_freg vm1 (rd instr) (fregs vm1 (rs2 instr)))))"

definition fcvt_int_d ::
    "'m Host \<Rightarrow> u32 \<Rightarrow> u32 \<Rightarrow> u32 \<Rightarrow> (u64 \<Rightarrow> u32 \<times> fexcept set) \<Rightarrow> (u32 \<Rightarrow> u64)
      \<Rightarrow> RVInstruction \<Rightarrow> 'm VirtualMachine \<Rightarrow> 'm outcome" where
  "fcvt_int_d h neg_inf pos_inf nan conv conv_back instr vm =
    with_rounding h vm instr (\<lambda>vm1.
      let a = u64 (fregs vm1 (rs1 instr))
      in if is_inf64 a
         then (let result = (if f64_lt a 0 then neg_inf else pos_inf);
                   vm2 = NX_only (host_raise (f64_ord_flags a 0) vm1)
               in Done (set_reg vm2 (rd instr) result))
         else if is_nan64 a \<or> is_qnan64 a
         then Done (set_reg (NX_only vm1) (rd instr) nan)
         else (let val = conv a;
                   back = conv_back (fst val);
                   vm2 = host_raise (snd val \<union> f64_eq_flags back a) vm1;
                   vm3 = (if \<not> f64_eq back a then NX_only vm2 else vm2)
               in Done (set_reg vm3 (rd instr) (fst val))))"

definition compare_d ::
    "'m Host \<Rightarrow> bool \<Rightarrow> (u64 \<Rightarrow> u64 \<Rightarrow> bool) \<Rightarrow> (u64 \<Rightarrow> u64 \<Rightarrow> fexcept set)
      \<Rightarrow> RVInstruction \<Rightarrow> 'm VirtualMachine \<Rightarrow> 'm outcome" where
  "compare_d h strict rel rel_flags instr vm =
    with_rounding h vm instr (\<lambda>vm1.
      let lhs = u64 (fregs vm1 (rs1 instr));
          rhs = u64 (fregs vm1 (rs2 instr));
          lhs_nan = is_nan64 lhs; lhs_qnan = is_qnan64 lhs;
          rhs_nan = is_nan64 rhs; rhs_qnan = is_qnan64 rhs;
          any_nan = (lhs_nan \<or> rhs_nan \<or> lhs_qnan \<or> rhs_qnan);
          vm2 = (if lhs_nan \<or> rhs_nan \<or> (strict \<and> any_nan) then NV_only vm1 else vm1)
      in if any_nan then Done (set_reg vm2 (rd instr) 0)
         else Done (set_reg (host_raise (rel_flags lhs rhs) vm2) (rd instr)
                      (of_bool32 (rel lhs rhs))))"

definition fcvt_d_int ::
    "(u32 \<Rightarrow> u64) \<Rightarrow> RVInstruction \<Rightarrow> 'm VirtualMachine \<Rightarrow> 'm outcome" where
  "fcvt_d_int from_int instr vm =
    (let val = regs vm (rs1 instr);
         vm1 = set_freg vm (rd instr) (set_u64 (fregs vm (rd instr)) (from_int val));
         stored = u64 (fregs vm1 (rd instr));
         vm2 = host_raise (f64_eq_flags stored (from_int val)) vm1
     in if \<not> f64_eq stored (from_int val) then Done (NV_only vm2) else Done vm2)"

definition sign64 :: u64 where "sign64 = push_bit 63 1"

fun exec_d :: "'m Host \<Rightarrow> DoubleType \<Rightarrow> RVInstruction \<Rightarrow> 'm VirtualMachine \<Rightarrow> 'm outcome" where
  "exec_d h FLD instr vm =
    (let addr = regs vm (rs1 instr) + immediate instr
     in bus_read (ReadWord h (memory vm) addr) vm (\<lambda>lo.
          bus_read (ReadWord h (memory vm) (addr + 4)) vm (\<lambda>hi.
            Done (set_freg vm (rd instr)
                    (ToDouble h (ucast lo OR push_bit 32 (ucast hi)))))))"
| "exec_d h FSD instr vm =
    (let addr = regs vm (rs1 instr) + immediate instr;
         val = u64 (fregs vm (rs2 instr))
     in case WriteWord h (memory vm) addr (ucast val) of
          Inl e \<Rightarrow> Throw e vm
        | Inr m \<Rightarrow>
            (let vm1 = vm\<lparr>memory := m\<rparr>
             in bus_write (WriteWord h m (addr + 4) (ucast (drop_bit 32 val))) vm1))"
| "exec_d h FMADD_D instr vm = fma_d h False F_ADD instr vm"
| "exec_d h FMSUB_D instr vm = fma_d h False F_SUB instr vm"
| "exec_d h FNMSUB_D instr vm = fma_d h True F_ADD instr vm"
| "exec_d h FNMADD_D instr vm = fma_d h True F_SUB instr vm"
| "exec_d h FADD_D instr vm = arith_d h F_ADD instr vm"
| "exec_d h FSUB_D instr vm = arith_d h F_SUB instr vm"
| "exec_d h FMUL_D instr vm = arith_d h F_MUL instr vm"
| "exec_d h FDIV_D instr vm = arith_d h F_DIV instr vm"
| "exec_d h FSQRT_D instr vm =
    with_rounding h vm instr (\<lambda>vm1.
      let a = u64 (fregs vm1 (rs1 instr))
      in if is_inf64 a \<or> is_nan64 a \<or> is_qnan64 a \<or> is_neg64 a
         then Done (set_freg vm1 (rd instr) (set_u64 (fregs vm1 (rd instr)) RV_F64_NAN))
         else (let res = host_f64_sqrt h (host_rounding vm1) a;
                   vm2 = host_raise (snd res) vm1
               in Done (set_freg vm2 (rd instr) (set_u64 (fregs vm2 (rd instr)) (fst res)))))"
| "exec_d h FSGNJ_D instr vm =
    (let result = fregs vm (rs1 instr);
         rhs = fregs vm (rs2 instr);
         r1 = set_u64 result (u64 result AND NOT sign64);
         r2 = set_u64 r1 (u64 r1 OR (u64 rhs AND sign64))
     in Done (set_freg vm (rd instr) r2))"
| "exec_d h FSGNJN_D instr vm =
    (let result = fregs vm (rs1 instr);
         rhs = fregs vm (rs2 instr);
         r1 = set_u64 result (u64 result AND NOT sign64);
         r2 = set_u64 r1 (u64 r1 OR (NOT (u64 rhs) AND sign64))
     in Done (set_freg vm (rd instr) r2))"
| "exec_d h FSGNJX_D instr vm =
    (let result = fregs vm (rs1 instr);
         rhs = fregs vm (rs2 instr);
         r1 = set_u64 result (u64 result XOR (u64 rhs AND sign64))
     in Done (set_freg vm (rd instr) r1))"
| "exec_d h FMIN_D instr vm = minmax_d False instr vm"
| "exec_d h FMAX_D instr vm = minmax_d True instr vm"
| "exec_d h FCVT_S_D instr vm =
    with_rounding h vm instr (\<lambda>vm1.
      let a = u64 (fregs vm1 (rs1 instr));
          lhs_snan = is_nan64 a; lhs_qnan = is_qnan64 a
      in if lhs_snan
         then Done (set_freg vm1 (rd instr) (set_u64 (fregs vm1 (rd instr)) RV_F32_NAN))
         else if lhs_qnan
         then Done (set_freg vm1 (rd instr) (set_u64 (fregs vm1 (rd instr)) RV_F32_QNAN))
         else (let res = host_f64_to_f32 h (host_rounding vm1) a;
                   vm2 = host_raise (snd res) vm1;
                   lane0 = set_u64 (fregs vm2 (rd instr)) 0
               in Done (set_freg vm2 (rd instr) (set_u32 lane0 (fst res)))))"
| "exec_d h FCVT_D_S instr vm =
    (let a = u32_of (fregs vm (rs1 instr));
         lhs_snan = is_nan32 a; lhs_qnan = is_qnan32 a
     in if lhs_snan
        then Done (set_freg vm (rd instr) (set_u64 (fregs vm (rd instr)) RV_F64_NAN))
        else if lhs_qnan
        then Done (set_freg vm (rd instr) (set_u64 (fregs vm (rd instr)) RV_F64_QNAN))
        else (let res = host_f32_to_f64 h a;
                  vm1 = host_raise (snd res) vm
              in Done (set_freg vm1 (rd instr) (set_u64 (fregs vm1 (rd instr)) (fst res)))))"
| "exec_d h FEQ_D instr vm = compare_d h False f64_eq f64_eq_flags instr vm"
| "exec_d h FLT_D instr vm = compare_d h True f64_lt f64_ord_flags instr vm"
| "exec_d h FLE_D instr vm = compare_d h True f64_le f64_ord_flags instr vm"
| "exec_d h FCLASS_D instr vm =
    with_rounding h vm instr (\<lambda>vm1.
      let a = u64 (fregs vm1 (rs1 instr))
      in Done (set_reg vm1 (rd instr)
           (fclass_mask (is_inf64 a) (is_nan64 a) (is_qnan64 a) (is_subnormal64 a)
              (is_zero64 a) (is_neg64 a))))"
| "exec_d h FCVT_W_D instr vm =
    fcvt_int_d h (- 1) 0x7fffffff 0x7fffffff (host_f64_to_i32 h) (host_i32_to_f64 h) instr vm"
| "exec_d h FCVT_WU_D instr vm =
    fcvt_int_d h 0 (- 1) (- 1) (host_f64_to_u32 h) (host_u32_to_f64 h) instr vm"
| "exec_d h FCVT_D_W instr vm = fcvt_d_int (host_i32_to_f64 h) instr vm"
| "exec_d h FCVT_D_WU instr vm = fcvt_d_int (host_u32_to_f64 h) instr vm"

subsection \<open>The step loop\<close>

fun dispatch :: "'m Host \<Rightarrow> Type \<Rightarrow> RVInstruction \<Rightarrow> 'm VirtualMachine \<Rightarrow> 'm outcome" where
  "dispatch h (RV32I t) instr vm = exec_base h t instr vm"
| "dispatch h (RV32ALU t) instr vm = exec_alu h t instr vm"
| "dispatch h (RV32SYS t) instr vm = exec_sys h t instr vm"
| "dispatch h (RV32MA t) instr vm = exec_ma h t instr vm"
| "dispatch h (RV32F t) instr vm = exec_f h t instr vm"
| "dispatch h (RV32D t) instr vm = exec_d h t instr vm"

text \<open>The second switch of the loop body: the types that have written \<open>pc\<close> themselves.\<close>

fun writes_pc :: "Type \<Rightarrow> bool" where
  "writes_pc (RV32I JAL) = True"
| "writes_pc (RV32I JALR) = True"
| "writes_pc (RV32I BEQ) = True"
| "writes_pc (RV32I BGE) = True"
| "writes_pc (RV32I BGEU) = True"
| "writes_pc (RV32I BLT) = True"
| "writes_pc (RV32I BLTU) = True"
| "writes_pc (RV32I BNE) = True"
| "writes_pc _ = False"

definition IsBreakPoint :: "'m Host \<Rightarrow> 'm VirtualMachine \<Rightarrow> u32 \<Rightarrow> bool" where
  "IsBreakPoint h vm addr =
    (if addr \<in> break_points vm then True
     else case PeekWord h (memory vm) addr of
            None \<Rightarrow> False
          | Some word \<Rightarrow> type (FromUInt32 h word) = RV32SYS EBREAK)"

text \<open>
  The instruction the loop body fetches at \<open>pc\<close>: \<open>Inl\<close> when the bus throws on the read.
\<close>

definition fetch :: "'m Host \<Rightarrow> 'm VirtualMachine \<Rightarrow> error + RVInstruction" where
  "fetch h vm =
    (case ReadWord h (memory vm) (translated_address (CheckMemoryAccess vm (pc vm))) of
       Inl e \<Rightarrow> Inl e
     | Inr w \<Rightarrow> Inr (FromUInt32 h w))"

text \<open>One iteration of the loop of \<open>Step\<close>, from \<open>cycles++\<close> to the reset of lane 0.\<close>

definition step_body :: "'m Host \<Rightarrow> 'm VirtualMachine \<Rightarrow> 'm outcome" where
  "step_body h vm =
    (let vm1 = vm\<lparr>cycles := cycles vm + 1\<rparr>
     in if pc vm1 AND 0b11 \<noteq> 0 then Throw (Invalid_PC_address (pc vm1)) vm1
        else if \<not> address_present (CheckMemoryAccess vm1 (pc vm1))
          then Throw (PC_not_present (pc vm1)) vm1
        else case fetch h vm1 of
               Inl e \<Rightarrow> Throw e vm1
             | Inr instr \<Rightarrow>
                 (case dispatch h (type instr) instr vm1 of
                    NoReturn \<Rightarrow> NoReturn
                  | Throw e vm2 \<Rightarrow> Throw e vm2
                  | Done vm2 \<Rightarrow>
                      (let vm3 = (if writes_pc (type instr) then vm2
                                  else vm2\<lparr>pc := pc vm2 + 4\<rparr>)
                       in Done (if rd instr = 0 then set_reg vm3 (rd instr) 0 else vm3))))"

text \<open>
  The loop \<open>for (i = 0; i < steps && running; i++)\<close>: the result is what \<open>Step\<close> returns and the
  hart it leaves, the exception and the hart at the throw, or \<open>None\<close> when an iteration
  never returns.
\<close>

fun step_loop ::
    "'m Host \<Rightarrow> nat \<Rightarrow> 'm VirtualMachine \<Rightarrow> (error option \<times> bool \<times> 'm VirtualMachine) option" where
  "step_loop h 0 vm = Some (None, False, vm)"
| "step_loop h (Suc n) vm =
    (if \<not> running vm then Some (None, False, vm)
     else case step_body h vm of
            NoReturn \<Rightarrow> None
          | Throw e vm1 \<Rightarrow> Some (Some e, False, vm1)
          | Done vm1 \<Rightarrow>
              (if IsBreakPoint h vm1 (pc vm1) then Some (None, True, vm1)
               else step_loop h n vm1))"

definition Step ::
    "'m Host \<Rightarrow> u32 \<Rightarrow> 'm VirtualMachine \<Rightarrow> (error option \<times> bool \<times> 'm VirtualMachine) option" where
  "Step h steps vm = step_loop h (unat steps) (vm\<lparr>ticks := ticks vm + steps\<rparr>)"

subsection \<open>Reset\<close>

definition Setup :: "'m VirtualMachine \<Rightarrow> 'm VirtualMachine" where
  "Setup vm =
    vm\<lparr>regs := (\<lambda>r. 0),
       fregs := (\<lambda>r. (set_u32 (fregs vm r) 0)\<lparr>is_double := False\<rparr>),
       csrs := (csrs vm)
         (CSR_FRM \<mapsto> 0, CSR_CYCLE \<mapsto> 0, CSR_TIME \<mapsto> 0, CSR_INSTRET \<mapsto> 0,
          CSR_CYCLEH \<mapsto> 0, CSR_TIMEH \<mapsto> 0, CSR_INSTRETH \<mapsto> 0,
          CSR_SSTATUS \<mapsto> 0, CSR_SIE \<mapsto> 0, CSR_STVEC \<mapsto> 0, CSR_SCOUNTEREN \<mapsto> 0,
          CSR_SENVCFG \<mapsto> 0, CSR_SSCRATCH \<mapsto> 0, CSR_SEPC \<mapsto> 0, CSR_SCAUSE \<mapsto> 0,
          CSR_STVAL \<mapsto> 0, CSR_SIP \<mapsto> 0, CSR_SATP \<mapsto> 0, CSR_SCONTEXT \<mapsto> 0,
          CSR_MSTATUS \<mapsto> 0),
       privilege_level := Machine,
       cycles := 0\<rparr>"

text \<open>
  The constructor. \<open>raw\<close> holds the members before the constructor body runs (their
  initialisers are in the absent header); the CSR map starts empty, \<open>mem\<close> is the bus with
  the CSR-mapped region added, \<open>now\<close> is the wall clock in ticks that seeds \<open>time\<close>.
\<close>

definition new_VirtualMachine ::
    "'m VirtualMachine \<Rightarrow> 'm \<Rightarrow> u32 \<Rightarrow> u32 \<Rightarrow> u64 \<Rightarrow> 'm VirtualMachine" where
  "new_VirtualMachine raw mem starting_pc hart_id now =
    Setup (raw\<lparr>memory := mem, pc := starting_pc,
      csrs := Map.empty
        (CSR_MVENDORID \<mapsto> 0,
         CSR_MARCHID \<mapsto> 0x454E4948,
         CSR_MIMPID \<mapsto> 0x43414D56,
         CSR_MHARTID \<mapsto> hart_id,
         CSR_MISA \<mapsto> ISA_32_BITS OR ISA_A OR ISA_D OR ISA_F OR ISA_I OR ISA_M),
      mapped_time := now\<rparr>)"

subsection \<open>Observations\<close>

text \<open>The value of an integer register, and a float lane, after an instruction that completed.\<close>

definition done_reg :: "'m outcome \<Rightarrow> regidx \<Rightarrow> u32 option" where
  "done_reg out r =
    (case out of Done vm \<Rightarrow> Some (regs vm r) | Throw e vm \<Rightarrow> None | NoReturn \<Rightarrow> None)"

definition done_freg :: "'m outcome \<Rightarrow> regidx \<Rightarrow> Float option" where
  "done_freg out r =
    (case out of Done vm \<Rightarrow> Some (fregs vm r) | Throw e vm \<Rightarrow> None | NoReturn \<Rightarrow> None)"

text \<open>The upper half of a lane that boxes a single-precision value: all ones.\<close>

definition NaN_box :: u32 where "NaN_box = 0xFFFFFFFF"

text \<open>
  \<open>fcsr\<close> records DZ or NV: the two flags on which \<open>CheckFloatErrors\<close> returns true are in
  the flags field it has just rewritten.
\<close>

definition fcsr_flagged :: "'m VirtualMachine \<Rightarrow> bool" where
  "fcsr_flagged vm = (csrs_index (csrs vm) CSR_FCSR AND (CSR_FCSR_DZ OR CSR_FCSR_NV) \<noteq> 0)"

text \<open>
  The destination lane after \<open>if (CheckFloatErrors()) fregs[rd].u64 = RV_F32_NAN; else
  fregs[rd].f = result;\<close>: the canonical NaN with its all-ones upper half, or \<open>result\<close> in the
  low half under the upper half the lane had.
\<close>

definition checked_lane :: "'m VirtualMachine \<Rightarrow> Float \<Rightarrow> Float \<Rightarrow> u32 \<Rightarrow> bool" where
  "checked_lane vm' before after result =
    (if fcsr_flagged vm' then u64 after = RV_F32_NAN \<and> upper32 after = NaN_box
     else upper32 after = upper32 before \<and> u32_of after = result)"

text \<open>Bits 7:5 of \<open>fcsr\<close>, the rounding mode that \<open>RM_DYNAMIC\<close> resolves to.\<close>

definition frm_field :: "'m VirtualMachine \<Rightarrow> u8" where
  "frm_field vm = ucast (drop_bit 5 (csrs_index (csrs vm) CSR_FCSR) AND 0b111)"

text \<open>
  What an instruction with destination \<open>d\<close> leaves alone: \<open>pc\<close> (unless \<open>pcw\<close>, for the types
  that write it), the cycle counter and every integer register but \<open>d\<close>; when it throws,
  \<open>pc\<close>, the cycle counter and lane 0.
\<close>

definition frame :: "bool \<Rightarrow> regidx \<Rightarrow> 'm VirtualMachine \<Rightarrow> 'm outcome \<Rightarrow> bool" where
  "frame pcw d vm out =
    (case out of
       Done vm' \<Rightarrow> (pcw \<or> pc vm' = pc vm) \<and> cycles vm' = cycles vm
                    \<and> (\<forall>r. r \<noteq> d \<longrightarrow> regs vm' r = regs vm r)
     | Throw e vm' \<Rightarrow> pc vm' = pc vm \<and> cycles vm' = cycles vm \<and> regs vm' 0 = regs vm 0
     | NoReturn \<Rightarrow> True)"

section \<open>Sv32 translation as the specification words it\<close>

text \<open>
  The two kinds of fault the specification distinguishes, and the kind of each exception
  of the translator.
\<close>

datatype fault = Access_fault | Page_fault_class

fun fault_class :: "error \<Rightarrow> fault option" where
  "fault_class PPN_access_fault = Some Access_fault"
| "fault_class PPN_page_fault = Some Page_fault_class"
| "fault_class Page_fault = Some Page_fault_class"
| "fault_class _ = None"

text \<open>The leaf's A bit is set, and the access is not a write to a leaf whose D bit is set.\<close>

definition sv32_leaf_checks :: "u32 \<Rightarrow> bool \<Rightarrow> bool" where
  "sv32_leaf_checks pte is_write = (bit pte 6 \<and> \<not> (is_write \<and> bit pte 7))"

text \<open>
  The walk in the specification's words, over the non-faulting \<open>peek\<close> of the bus: the
  virtual address is \<open>{vpn1, vpn0, offset}\<close>, the root table is at \<open>satp << 12\<close>, the first
  entry is read at \<open>root + vpn1*4\<close>; a leaf there is a superpage, whose \<open>PPN[0]\<close> must be
  zero and whose physical address is \<open>{PPN1, vpn0, offset}\<close>; otherwise the second entry
  is read at \<open>PPN*4096 + vpn0*4\<close> and must be a valid leaf, and the address is the leaf's
  page number followed by the offset. Concatenation is written as a sum of shifted fields.
\<close>

definition sv32_translate_spec ::
    "(u32 \<Rightarrow> u32 option) \<Rightarrow> u32 \<Rightarrow> u32 \<Rightarrow> bool \<Rightarrow> fault + u32" where
  "sv32_translate_spec peek satp va is_write =
    (let offset = take_bit 12 va;
         vpn0 = take_bit 10 (drop_bit 12 va);
         vpn1 = take_bit 10 (drop_bit 22 va);
         root = push_bit 12 satp
     in case peek (root + vpn1 * 4) of
          None \<Rightarrow> Inl Access_fault
        | Some pte1 \<Rightarrow>
            if \<not> bit pte1 0 \<or> (\<not> bit pte1 1 \<and> bit pte1 2) then Inl Page_fault_class
            else if bit pte1 1 \<or> bit pte1 2 \<or> bit pte1 3
            then (if take_bit 10 (drop_bit 10 pte1) \<noteq> 0 then Inl Page_fault_class
                  else if \<not> sv32_leaf_checks pte1 is_write then Inl Page_fault_class
                  else Inr (push_bit 22 (drop_bit 20 pte1) + push_bit 12 vpn0 + offset))
            else (case peek (drop_bit 10 pte1 * 4096 + vpn0 * 4) of
                    None \<Rightarrow> Inl Access_fault
                  | Some pte2 \<Rightarrow>
                      if \<not> bit pte2 0 \<or> (\<not> bit pte2 1 \<and> bit pte2 2)
                        then Inl Page_fault_class
                      else if \<not> (bit pte2 1 \<or> bit pte2 2 \<or> bit pte2 3)
                        then Inl Page_fault_class
                      else if \<not> sv32_leaf_checks pte2 is_write then Inl Page_fault_class
                      else Inr (push_bit 12 (drop_bit 10 pte2) + offset)))"

section \<open>A small system for worked examples\<close>

text \<open>
  An instance of the collaborators: a bus of aligned words without byte lanes,
  reservations or atomics; a decoder that knows ADDI, ECALL and EBREAK and takes the
  register fields from their places in the word; one ECALL handler, number 1, which writes 7
  to lane 0 and the hart id to \<open>a0\<close>; and a floating-point unit whose division by zero
  gives infinity and raises \<open>FE_DIVBYZERO\<close> and whose other operations raise nothing.
\<close>

type_synonym demo_bus = "u32 \<rightharpoonup> u32"

definition demo_decode :: "u32 \<Rightarrow> RVInstruction" where
  "demo_decode w =
    (let fields = \<lparr>type = RV32SYS INVALID, rd = ucast (drop_bit 7 w),
                    rs1 = ucast (drop_bit 15 w), rs2 = ucast (drop_bit 20 w),
                    rs3 = ucast (drop_bit 27 w), immediate = SignExtend (drop_bit 20 w) 11,
                    rm = ucast (drop_bit 12 w AND 7)\<rparr>
     in if w = 0x00000073 then fields\<lparr>type := RV32SYS ECALL\<rparr>
        else if w = 0x00100073 then fields\<lparr>type := RV32SYS EBREAK\<rparr>
        else if w AND 0x707f = 0x13 then fields\<lparr>type := RV32ALU ADDI\<rparr>
        else fields)"

definition demo_handler ::
    "u32 \<Rightarrow> demo_bus \<Rightarrow> (regidx \<Rightarrow> u32) \<Rightarrow> (regidx \<Rightarrow> Float)
      \<Rightarrow> error option \<times> demo_bus \<times> (regidx \<Rightarrow> u32) \<times> (regidx \<Rightarrow> Float)" where
  "demo_handler hart m rs fs = (None, m, rs(0 := 7, 10 := hart), fs)"

definition demo_host :: "demo_bus Host" where
  "demo_host =
    \<lparr>FromUInt32 = demo_decode,
     ReadByte = (\<lambda>m a. Inl (Bus_error a)),
     ReadHalf = (\<lambda>m a. Inl (Bus_error a)),
     ReadWord = (\<lambda>m a. case m a of None \<Rightarrow> Inl (Bus_error a) | Some w \<Rightarrow> Inr w),
     WriteByte = (\<lambda>m a v. Inl (Bus_error a)),
     WriteHalf = (\<lambda>m a v. Inl (Bus_error a)),
     WriteWord = (\<lambda>m a v. case m a of None \<Rightarrow> Inl (Bus_error a)
                                       | Some w \<Rightarrow> Inr (m(a \<mapsto> v))),
     PeekWord = (\<lambda>m a. m a),
     ReadWordReserved = (\<lambda>m a hart. Inl (Bus_error a)),
     WriteWordConditional = (\<lambda>m a v hart. Inl (Bus_error a)),
     Atomic = (\<lambda>opn m a v. Inl (Bus_error a)),
     ecall_handlers = [1 \<mapsto> demo_handler],
     shl_1U_32 = 1,
     Float_uninit = \<lparr>u64 = 0, is_double = False\<rparr>,
     host_f32_arith = (\<lambda>opn r a b. if opn = F_DIV \<and> b AND 0x7fffffff = 0
                          then (0x7f800000, {FE_DIVBYZERO}) else (a, {})),
     host_f32_sqrt = (\<lambda>r a. (a, {})),
     host_f32_to_i32 = (\<lambda>a. (0, {})),
     host_f32_to_u32 = (\<lambda>a. (0, {})),
     host_i32_to_f32 = (\<lambda>r a. (0, {})),
     host_u32_to_f32 = (\<lambda>r a. (0, {})),
     host_f32_to_f64 = (\<lambda>a. (0, {})),
     host_f64_arith = (\<lambda>opn r a b. (a, {})),
     host_f64_sqrt = (\<lambda>r a. (a, {})),
     host_f64_to_i32 = (\<lambda>a. (0, {})),
     host_f64_to_u32 = (\<lambda>a. (0, {})),
     host_i32_to_f64 = (\<lambda>a. 0),
     host_u32_to_f64 = (\<lambda>a. 0),
     host_f64_to_f32 = (\<lambda>r a. (0, {})),
     default_rounding_mode = FE_TONEAREST\<rparr>"

text \<open>
  The program \<open>ADDI x0, x0, 5; ECALL;\<close> and an all-zero word at \<open>0x1000\<close>, and at \<open>0x2004\<close>
  the entry of a superpage (V, R and A set, \<open>PPN[1] = 0x080\<close>) for a root table at \<open>0x2000\<close>.
\<close>

definition demo_program :: demo_bus where
  "demo_program = [0x1000 \<mapsto> 0x00500013, 0x1004 \<mapsto> 0x00000073, 0x1008 \<mapsto> 0x00000000,
                   0x2004 \<mapsto> 0x08000043]"

definition demo_raw :: "demo_bus VirtualMachine" where
  "demo_raw =
    \<lparr>memory = Map.empty, regs = (\<lambda>r. 0), fregs = (\<lambda>r. \<lparr>u64 = 0, is_double = False\<rparr>),
     pc = 0, csrs = Map.empty, privilege_level = Machine, cycles = 0, ticks = 0,
     running = True, break_points = {}, mapped_time = 0, mapped_time_cmp = 0,
     host_rounding = FE_TONEAREST, host_flags = {}\<rparr>"

definition demo_vm :: "demo_bus VirtualMachine" where
  "demo_vm = new_VirtualMachine demo_raw demo_program 0x1000 0 0"

lemmas demo_defs = demo_vm_def demo_raw_def demo_program_def demo_host_def demo_decode_def
  demo_handler_def new_VirtualMachine_def Setup_def

text \<open>
  A second program for the jumps: \<open>JAL x1, 0x100\<close> at \<open>0x1000\<close> and \<open>BEQ x0, x0, 8\<close> at
  \<open>0x1100\<close>, with a decoder that knows these two words besides those of \<open>demo_decode\<close>.
\<close>

definition jump_decode :: "u32 \<Rightarrow> RVInstruction" where
  "jump_decode w =
    (if w = 0x100000EF
       then \<lparr>type = RV32I JAL, rd = 1, rs1 = 0, rs2 = 0, rs3 = 0, immediate = 0x100, rm = 0\<rparr>
     else if w = 0x00000463
       then \<lparr>type = RV32I BEQ, rd = 0, rs1 = 0, rs2 = 0, rs3 = 0, immediate = 8, rm = 0\<rparr>
     else demo_decode w)"

definition jump_host :: "demo_bus Host" where
  "jump_host = demo_host\<lparr>FromUInt32 := jump_decode\<rparr>"

definition jump_program :: demo_bus where
  "jump_program = [0x1000 \<mapsto> 0x100000EF, 0x1100 \<mapsto> 0x00000463]"

definition jump_vm :: "demo_bus VirtualMachine" where
  "jump_vm = new_VirtualMachine demo_raw jump_program 0x1000 0 0"

lemmas jump_defs = jump_vm_def jump_program_def jump_host_def jump_decode_def

declare ChangeRoundingMode.simps [code]

section \<open>Properties\<close>

subsection \<open>What the state transformers leave alone\<close>

lemma touch_simps [simp]:
  "pc (touch_csr vm k) = pc vm" "cycles (touch_csr vm k) = cycles vm"
  "regs (touch_csr vm k) = regs vm" "fregs (touch_csr vm k) = fregs vm"
  "memory (touch_csr vm k) = memory vm"
  by (simp_all add: touch_csr_def)

lemma csr_or_simps [simp]:
  "pc (csr_or vm k b) = pc vm" "cycles (csr_or vm k b) = cycles vm"
  "regs (csr_or vm k b) = regs vm" "fregs (csr_or vm k b) = fregs vm"
  "memory (csr_or vm k b) = memory vm"
  by (simp_all add: csr_or_def)

lemma csr_and_simps [simp]:
  "pc (csr_and vm k b) = pc vm" "cycles (csr_and vm k b) = cycles vm"
  "regs (csr_and vm k b) = regs vm" "fregs (csr_and vm k b) = fregs vm"
  "memory (csr_and vm k b) = memory vm"
  by (simp_all add: csr_and_def)

lemma host_raise_simps [simp]:
  "pc (host_raise fl vm) = pc vm" "cycles (host_raise fl vm) = cycles vm"
  "regs (host_raise fl vm) = regs vm" "fregs (host_raise fl vm) = fregs vm"
  "memory (host_raise fl vm) = memory vm"
  by (simp_all add: host_raise_def)

lemma SetFloatFlags_simps [simp]:
  "pc (SetFloatFlags vm a b c d e) = pc vm" "cycles (SetFloatFlags vm a b c d e) = cycles vm"
  "regs (SetFloatFlags vm a b c d e) = regs vm" "fregs (SetFloatFlags vm a b c d e) = fregs vm"
  "memory (SetFloatFlags vm a b c d e) = memory vm"
  by (simp_all add: SetFloatFlags_def Let_def)

lemma NV_only_simps [simp]:
  "pc (NV_only vm) = pc vm" "cycles (NV_only vm) = cycles vm"
  "regs (NV_only vm) = regs vm" "fregs (NV_only vm) = fregs vm"
  "memory (NV_only vm) = memory vm"
  by (simp_all add: NV_only_def)

lemma NX_only_simps [simp]:
  "pc (NX_only vm) = pc vm" "cycles (NX_only vm) = cycles vm"
  "regs (NX_only vm) = regs vm" "fregs (NX_only vm) = fregs vm"
  "memory (NX_only vm) = memory vm"
  by (simp_all add: NX_only_def)

lemma CheckFloatErrors_simps [simp]:
  "pc (snd (CheckFloatErrors vm)) = pc vm" "cycles (snd (CheckFloatErrors vm)) = cycles vm"
  "regs (snd (CheckFloatErrors vm)) = regs vm" "fregs (snd (CheckFloatErrors vm)) = fregs vm"
  "memory (snd (CheckFloatErrors vm)) = memory vm"
  by (simp_all add: CheckFloatErrors_def Let_def)

lemma set_reg_simps [simp]:
  "pc (set_reg vm r v) = pc vm" "cycles (set_reg vm r v) = cycles vm"
  "regs (set_reg vm r v) = (regs vm)(r := v)" "fregs (set_reg vm r v) = fregs vm"
  "memory (set_reg vm r v) = memory vm"
  by (simp_all add: set_reg_def)

lemma set_freg_simps [simp]:
  "pc (set_freg vm r v) = pc vm" "cycles (set_freg vm r v) = cycles vm"
  "regs (set_freg vm r v) = regs vm" "fregs (set_freg vm r v) = (fregs vm)(r := v)"
  "memory (set_freg vm r v) = memory vm"
  by (simp_all add: set_freg_def)

lemma host_flags_simps [simp]:
  "host_flags (csr_or vm k b) = host_flags vm" "host_flags (csr_and vm k b) = host_flags vm"
  "host_flags (set_freg vm r v) = host_flags vm"
  "host_flags (snd (CheckFloatErrors vm)) = host_flags vm"
  by (simp_all add: csr_or_def csr_and_def set_freg_def CheckFloatErrors_def Let_def)

subsection \<open>Rounding modes\<close>

lemma ChangeRoundingMode_to_zero:
  "ChangeRoundingMode h vm RM_ROUND_TO_ZERO = Some (True, vm\<lparr>host_rounding := FE_TOWARDZERO\<rparr>)"
  by (subst ChangeRoundingMode.simps) (simp add: RM_defs)

lemma ChangeRoundingMode_nearest:
  "ChangeRoundingMode h vm RM_ROUND_TO_NEAREST_TIES_EVEN
     = Some (True, vm\<lparr>host_rounding := FE_TONEAREST\<rparr>)"
  by (subst ChangeRoundingMode.simps) (simp add: RM_defs)

text \<open>When \<open>ChangeRoundingMode\<close> returns, it has changed the CSR map and the host rounding mode only.\<close>

lemma ChangeRoundingMode_frame:
  assumes "ChangeRoundingMode h vm r = Some y"
  shows "pc (snd y) = pc vm \<and> cycles (snd y) = cycles vm \<and> regs (snd y) = regs vm
     \<and> fregs (snd y) = fregs vm \<and> memory (snd y) = memory vm"
  by (rule ChangeRoundingMode.raw_induct
      [where P = "\<lambda>h vm r y. pc (snd y) = pc vm \<and> cycles (snd y) = cycles vm
          \<and> regs (snd y) = regs vm \<and> fregs (snd y) = fregs vm \<and> memory (snd y) = memory vm",
       OF _ assms])
    (auto split: if_splits)

text \<open>
  With \<open>RM_DYNAMIC\<close> in bits 7:5 of \<open>fcsr\<close>, the call for \<open>RM_DYNAMIC\<close> calls itself with
  the same argument on the same state, and does not return.
\<close>

lemma frm_field_touch [simp]: "frm_field (touch_csr vm CSR_FCSR) = frm_field vm"
  by (simp add: frm_field_def touch_csr_def csrs_touch_def csrs_index_def split: option.splits)

lemma ChangeRoundingMode_dynamic_loop:
  assumes "ChangeRoundingMode h vm r = Some y"
  shows "\<not> (r = RM_DYNAMIC \<and> frm_field vm = RM_DYNAMIC)"
  apply (rule ChangeRoundingMode.raw_induct
      [where P = "\<lambda>h vm r y. \<not> (r = RM_DYNAMIC \<and> frm_field vm = RM_DYNAMIC)", OF _ assms])
  subgoal premises prems for f h vm r y
    using prems(2) prems(1) [of h "touch_csr vm CSR_FCSR" RM_DYNAMIC y]
    by (auto simp add: RM_defs frm_field_def [symmetric] split: if_splits)
  done

lemma ChangeRoundingMode_never_returns:
  "frm_field vm = RM_DYNAMIC \<Longrightarrow> ChangeRoundingMode h vm RM_DYNAMIC = None"
  using ChangeRoundingMode_dynamic_loop [of h vm RM_DYNAMIC]
  by (cases "ChangeRoundingMode h vm RM_DYNAMIC") auto

text \<open>In every other case the call returns.\<close>

lemma ChangeRoundingMode_static:
  "r \<noteq> RM_DYNAMIC \<Longrightarrow> \<exists>y. ChangeRoundingMode h vm r = Some y"
  by (subst ChangeRoundingMode.simps) auto

lemma ChangeRoundingMode_returns:
  assumes "\<not> (r = RM_DYNAMIC \<and> frm_field vm = RM_DYNAMIC)"
  shows "\<exists>y. ChangeRoundingMode h vm r = Some y"
proof (cases "r = RM_DYNAMIC")
  case False
  then show ?thesis by (rule ChangeRoundingMode_static)
next
  case True
  with assms have n: "frm_field vm \<noteq> RM_DYNAMIC" by simp
  from True have "ChangeRoundingMode h vm r
      = ChangeRoundingMode h (touch_csr vm CSR_FCSR) (frm_field vm)"
    by (subst ChangeRoundingMode.simps) (simp add: RM_defs frm_field_def)
  with ChangeRoundingMode_static [OF n, of h "touch_csr vm CSR_FCSR"] show ?thesis by simp
qed

subsection \<open>The frame of every instruction\<close>

lemma frame_Done: "frame pcw d vm (Done vm') =
   ((pcw \<or> pc vm' = pc vm) \<and> cycles vm' = cycles vm \<and> (\<forall>r. r \<noteq> d \<longrightarrow> regs vm' r = regs vm r))"
  by (simp add: frame_def)

lemma frame_Throw: "frame pcw d vm (Throw e vm') =
   (pc vm' = pc vm \<and> cycles vm' = cycles vm \<and> regs vm' 0 = regs vm 0)"
  by (simp add: frame_def)

lemma frame_NoReturn: "frame pcw d vm NoReturn" by (simp add: frame_def)

lemma frame_InvalidInstruction:
  "pc vm1 = pc vm \<Longrightarrow> cycles vm1 = cycles vm \<Longrightarrow> regs vm1 = regs vm \<Longrightarrow> frame pcw d vm (InvalidInstruction h vm1)"
  by (simp add: InvalidInstruction_def frame_Throw split: sum.splits)

lemma frame_bus_read:
  "(\<And>v. frame pcw d vm (k v)) \<Longrightarrow> frame pcw d vm (bus_read r vm k)"
  by (simp add: bus_read_def frame_Throw split: sum.splits)

lemma frame_bus_write:
  "pc vm1 = pc vm \<Longrightarrow> cycles vm1 = cycles vm \<Longrightarrow> regs vm1 = regs vm \<Longrightarrow>
    frame pcw d vm (bus_write r vm1)"
  by (simp add: bus_write_def frame_Throw frame_Done split: sum.splits)

lemma frame_bus_rmw:
  "pc vm1 = pc vm \<Longrightarrow> cycles vm1 = cycles vm \<Longrightarrow> regs vm1 = regs vm \<Longrightarrow> frame pcw d vm (bus_rmw r vm1 d)"
  by (simp add: bus_rmw_def frame_Throw frame_Done split: sum.splits)

lemma frame_with_rounding:
  assumes "\<And>vm1. pc vm1 = pc vm \<Longrightarrow> cycles vm1 = cycles vm \<Longrightarrow> regs vm1 = regs vm
     \<Longrightarrow> frame pcw d vm (k vm1)"
  shows "frame pcw d vm (with_rounding h vm instr k)"
proof (cases "ChangeRoundingMode h vm (rm instr)")
  case None
  then show ?thesis by (simp add: with_rounding_def frame_NoReturn)
next
  case (Some y)
  from ChangeRoundingMode_frame [OF Some] show ?thesis
    by (cases y) (simp add: with_rounding_def Some assms frame_InvalidInstruction)
qed

lemma exec_alu_frame: "frame False (rd instr) vm (exec_alu h t instr vm)"
  by (cases t) (simp_all add: frame_Done Let_def)

lemma exec_base_frame: "frame (writes_pc (RV32I t)) (rd instr) vm (exec_base h t instr vm)"
  by (cases t) (simp_all add: frame_Done Let_def frame_bus_read frame_bus_write)

lemma exec_ma_frame: "frame False (rd instr) vm (exec_ma h t instr vm)"
  by (cases t) (simp_all add: frame_Done frame_Throw Let_def frame_bus_rmw amo_op_def frame_InvalidInstruction split: sum.splits prod.splits)

lemma WriteCSR_frame:
  "WriteCSR vm csr v = Inr vm' \<Longrightarrow> pc vm' = pc vm \<and> cycles vm' = cycles vm \<and> regs vm' = regs vm"
  by (auto simp add: WriteCSR_def split: if_splits)

lemma frame_csr_write:
  "pc vm1 = pc vm \<Longrightarrow> cycles vm1 = cycles vm \<Longrightarrow> regs vm1 0 = regs vm 0 \<Longrightarrow>
   (\<forall>r. r \<noteq> d \<longrightarrow> regs vm1 r = regs vm r) \<Longrightarrow> frame pcw d vm (csr_write vm1 csr v)"
  by (auto simp add: csr_write_def frame_Throw frame_Done split: sum.splits dest!: WriteCSR_frame)

lemma frame_csr_modify:
  "pc vm1 = pc vm \<Longrightarrow> cycles vm1 = cycles vm \<Longrightarrow> regs vm1 0 = regs vm 0 \<Longrightarrow>
   (\<forall>r. r \<noteq> d \<longrightarrow> regs vm1 r = regs vm r) \<Longrightarrow> frame pcw d vm (csr_modify vm1 csr f)"
  by (simp add: csr_modify_def frame_Throw frame_csr_write split: sum.splits)

lemma frame_csr_read_rd:
  assumes "\<And>vm1. pc vm1 = pc vm \<Longrightarrow> cycles vm1 = cycles vm \<Longrightarrow> regs vm1 0 = regs vm 0 \<Longrightarrow>
     (\<forall>r. r \<noteq> rd instr \<longrightarrow> regs vm1 r = regs vm r) \<Longrightarrow> frame pcw (rd instr) vm (k vm1)"
  shows "frame pcw (rd instr) vm (csr_read_rd vm instr k)"
proof (cases "rd instr = REG_ZERO")
  case True
  have "frame pcw (rd instr) vm (k vm)" by (rule assms) simp_all
  with True show ?thesis by (simp add: csr_read_rd_def)
next
  case False
  then show ?thesis
    by (cases "ReadCSR vm (immediate instr) False")
       (simp_all add: csr_read_rd_def frame_Throw assms REG_ZERO_def)
qed

lemma exec_sys_frame:
  "t \<noteq> ECALL \<Longrightarrow> frame False (rd instr) vm (exec_sys h t instr vm)"
  by (cases t)
    (simp_all add: frame_Done frame_Throw Let_def frame_csr_read_rd frame_csr_write
       frame_csr_modify frame_InvalidInstruction split: sum.splits)

lemma ecall_frame:
  "case ecall h vm of Done vm' \<Rightarrow> pc vm' = pc vm \<and> cycles vm' = cycles vm
     | Throw e vm' \<Rightarrow> pc vm' = pc vm \<and> cycles vm' = cycles vm | NoReturn \<Rightarrow> True"
  by (simp add: ecall_def Let_def split: option.splits prod.splits)

lemma frame_write_f32_checked:
  "pc vm1 = pc vm \<Longrightarrow> cycles vm1 = cycles vm \<Longrightarrow> regs vm1 = regs vm \<Longrightarrow>
    frame pcw d vm (write_f32_checked vm1 dst res)"
  by (cases "CheckFloatErrors (host_raise (snd res) vm1)")
     (use CheckFloatErrors_simps [of "host_raise (snd res) vm1"] in
       \<open>simp add: write_f32_checked_def frame_Done\<close>)

lemma frame_write_f64_checked:
  "pc vm1 = pc vm \<Longrightarrow> cycles vm1 = cycles vm \<Longrightarrow> regs vm1 = regs vm \<Longrightarrow>
    frame pcw d vm (write_f64_checked vm1 dst res)"
  by (cases "CheckFloatErrors (host_raise (snd res) vm1)")
     (use CheckFloatErrors_simps [of "host_raise (snd res) vm1"] in
       \<open>simp add: write_f64_checked_def frame_Done\<close>)

lemma exec_f_frame: "frame False (rd instr) vm (exec_f h t instr vm)"
  by (cases t)
    (simp_all add: frame_Done Let_def frame_bus_read frame_bus_write fma_s_def arith_s_def
       minmax_s_def fcvt_int_s_def compare_s_def fcvt_s_int_def frame_with_rounding
       frame_write_f32_checked frame_InvalidInstruction)

lemma exec_d_frame: "frame False (rd instr) vm (exec_d h t instr vm)"
  by (cases t)
    (simp_all add: frame_Done frame_Throw Let_def frame_bus_read frame_bus_write fma_d_def arith_d_def
       minmax_d_def fcvt_int_d_def compare_d_def fcvt_d_int_def frame_with_rounding
       frame_write_f64_checked frame_InvalidInstruction split: sum.splits)

lemma dispatch_frame:
  "t \<noteq> RV32SYS ECALL \<Longrightarrow> frame (writes_pc t) (rd instr) vm (dispatch h t instr vm)"
  by (cases t) (simp_all add: exec_base_frame exec_alu_frame exec_sys_frame exec_ma_frame
      exec_f_frame exec_d_frame)

lemma fetch_cycles [simp]: "fetch h (vm\<lparr>cycles := c\<rparr>) = fetch h vm"
  by (simp add: fetch_def CheckMemoryAccess_def)

lemma dispatch_Throw:
  "dispatch h t instr vm = Throw e vm' \<Longrightarrow> pc vm' = pc vm \<and> cycles vm' = cycles vm"
proof (cases "t = RV32SYS ECALL")
  case True
  assume "dispatch h t instr vm = Throw e vm'"
  with True ecall_frame [where h = h and vm = vm] show ?thesis by simp
next
  case False
  assume "dispatch h t instr vm = Throw e vm'"
  with dispatch_frame [OF False, where h = h and instr = instr and vm = vm] show ?thesis by (simp add: frame_Throw)
qed

lemma dispatch_Done:
  "dispatch h t instr vm = Done vm' \<Longrightarrow>
     cycles vm' = cycles vm \<and> (writes_pc t \<or> pc vm' = pc vm)"
proof (cases "t = RV32SYS ECALL")
  case True
  assume "dispatch h t instr vm = Done vm'"
  with True ecall_frame [where h = h and vm = vm] show ?thesis by simp
next
  case False
  assume "dispatch h t instr vm = Done vm'"
  with dispatch_frame [OF False, where h = h and instr = instr and vm = vm] show ?thesis by (simp add: frame_Done)
qed

lemma dispatch_Done_regs:
  "dispatch h t instr vm = Done vm' \<Longrightarrow> t \<noteq> RV32SYS ECALL \<Longrightarrow> r \<noteq> rd instr \<Longrightarrow>
     regs vm' r = regs vm r"
  using dispatch_frame [where t = t and h = h and instr = instr and vm = vm] by (simp add: frame_Done)

lemma writes_pc_iff:
  "writes_pc t \<longleftrightarrow> t \<in> RV32I ` {BEQ, BNE, BLT, BGE, BLTU, BGEU, JAL, JALR}"
  by (cases t rule: writes_pc.cases) auto

text \<open>An iteration that completes on an instruction other than ECALL leaves lane 0 at 0.\<close>

lemma step_body_lane0:
  assumes "step_body h vm = Done vm'"
    and "regs vm 0 = 0"
    and "\<And>w. type (FromUInt32 h w) = RV32SYS ECALL \<Longrightarrow> rd (FromUInt32 h w) = 0"
  shows "regs vm' 0 = 0"
proof -
  let ?vm1 = "vm\<lparr>cycles := cycles vm + 1\<rparr>"
  from assms(1) obtain instr vm2 where
    f: "fetch h vm = Inr instr" and d: "dispatch h (type instr) instr ?vm1 = Done vm2"
    and r: "regs vm' = (if rd instr = 0 then (regs vm2)(0 := 0) else regs vm2)"
    by (auto simp add: step_body_def Let_def split: if_splits sum.splits outcome.splits)
  show ?thesis
  proof (cases "rd instr = 0")
    case True
    with r show ?thesis by simp
  next
    case False
    from f obtain w where "instr = FromUInt32 h w"
      by (auto simp add: fetch_def split: sum.splits)
    with False assms(3) have "type instr \<noteq> RV32SYS ECALL" by auto
    from dispatch_Done_regs [OF d this, of 0] False have "regs vm2 0 = regs ?vm1 0" by simp
    with r False assms(2) show ?thesis by simp
  qed
qed

text \<open>
  An iteration that throws has not advanced \<open>pc\<close> and has counted the cycle; the exception
  that \<open>Step\<close> lets through is that of the iteration that threw, with the hart as it was
  then.
\<close>

lemma step_body_Throw:
  assumes "step_body h vm = Throw e vm'"
  shows "pc vm' = pc vm \<and> cycles vm' = cycles vm + 1"
  using assms
  by (auto simp add: step_body_def Let_def CheckMemoryAccess_def
      split: if_splits sum.splits outcome.splits dest!: dispatch_Throw)

lemma step_loop_error:
  "step_loop h n vm = Some (Some e, b, vm') \<Longrightarrow>
     \<exists>vm0. step_body h vm0 = Throw e vm' \<and> pc vm' = pc vm0 \<and> cycles vm' = cycles vm0 + 1"
proof (induction n arbitrary: vm)
  case 0
  then show ?case by simp
next
  case (Suc n)
  show ?case
  proof (cases "step_body h vm")
    case (Done vm1)
    with Suc.prems have "step_loop h n vm1 = Some (Some e, b, vm')"
      by (simp split: if_splits)
    then show ?thesis by (rule Suc.IH)
  next
    case (Throw e1 vm1)
    with Suc.prems have "e1 = e \<and> vm1 = vm'" by (simp split: if_splits)
    with Throw step_body_Throw [of h vm e vm'] show ?thesis by blast
  next
    case NoReturn
    with Suc.prems show ?thesis by (simp split: if_splits)
  qed
qed

lemma Step_error:
  "Step h steps vm = Some (Some e, b, vm') \<Longrightarrow>
     \<exists>vm0. step_body h vm0 = Throw e vm' \<and> pc vm' = pc vm0 \<and> cycles vm' = cycles vm0 + 1"
  unfolding Step_def by (rule step_loop_error)

subsection \<open>Evaluating the worked examples\<close>

lemma step_loop_numeral:
  "step_loop h (numeral k) vm =
    (if \<not> running vm then Some (None, False, vm)
     else case step_body h vm of
            NoReturn \<Rightarrow> None
          | Throw e vm1 \<Rightarrow> Some (Some e, False, vm1)
          | Done vm1 \<Rightarrow>
              (if IsBreakPoint h vm1 (pc vm1) then Some (None, True, vm1)
               else step_loop h (pred_numeral k) vm1))"
  by (simp add: numeral_eq_Suc)

lemmas demo_eval = Step_def step_loop_numeral step_body_def demo_defs fetch_def
  CheckMemoryAccess_def SignExtend_def set_reg_def Let_def IsBreakPoint_def ecall_def
  REG_A0_def touch_csr_def csrs_touch_def csrs_index_def CSR_defs

lemma demo_ecall_rd:
  "type (FromUInt32 demo_host w) = RV32SYS ECALL \<Longrightarrow> rd (FromUInt32 demo_host w) = 0"
  by (simp add: demo_host_def demo_decode_def Let_def split: if_splits)

subsection \<open>Lane 0\<close>

text \<open>
  Claim C1. Integer register 0 reads as 0 after every instruction of the step loop: if
  lane 0 is 0 when \<open>Step\<close> is called (as it is after \<open>Setup\<close>) and \<open>Step\<close> returns, lane 0
  is 0 in the hart it leaves, for every number of steps, every bus and every program. An
  instruction writes \<open>regs[instr.rd]\<close> only, and the loop resets lane 0 when \<open>instr.rd\<close> is 0.
  ECALL hands the register file to its handler; its encoding has a zero \<open>rd\<close> field, which
  is what the hypothesis on the decoder (not among the sources) says.
\<close>

theorem lane_zero_reads_zero:
  assumes "Step h steps vm = Some (None, b, vm')"
    and "regs vm 0 = 0"
    and "\<And>w. type (FromUInt32 h w) = RV32SYS ECALL \<Longrightarrow> rd (FromUInt32 h w) = 0"
  shows "regs vm' 0 = 0"
proof -
  have loop: "step_loop h n v = Some (None, b, vm') \<Longrightarrow> regs v 0 = 0 \<Longrightarrow> regs vm' 0 = 0" for n v
  proof (induction n arbitrary: v)
    case 0
    then show ?case by simp
  next
    case (Suc n)
    show ?case
    proof (cases "running v")
      case False
      with Suc.prems show ?thesis by simp
    next
      case True
      with Suc.prems(1) obtain v1 where b: "step_body h v = Done v1"
        and rest: "(if IsBreakPoint h v1 (pc v1) then Some (None, True, v1) else step_loop h n v1)
                    = Some (None, b, vm')"
        by (auto split: outcome.splits)
      from step_body_lane0 [OF b Suc.prems(2) assms(3)] have z: "regs v1 0 = 0" .
      show ?thesis
      proof (cases "IsBreakPoint h v1 (pc v1)")
        case True
        with rest z show ?thesis by simp
      next
        case False
        with rest have "step_loop h n v1 = Some (None, b, vm')" by simp
        from Suc.IH [OF this z] show ?thesis .
      qed
    qed
  qed
  from assms(1) have "step_loop h (unat steps) (vm\<lparr>ticks := ticks vm + steps\<rparr>) = Some (None, b, vm')"
    by (simp add: Step_def)
  from loop [OF this] assms(2) show ?thesis by simp
qed

theorem lane_zero_reads_zero_witness:
  "regs (set_reg demo_vm 10 1) 0 = 0
   \<and> (\<exists>b vm'. Step demo_host 2 (set_reg demo_vm 10 1) = Some (None, b, vm') \<and> regs vm' 0 = 0)"
proof -
  have init: "regs (set_reg demo_vm 10 1) 0 = 0"
    by (simp add: demo_defs set_reg_def)
  have "\<exists>vm'. Step demo_host 2 (set_reg demo_vm 10 1) = Some (None, False, vm')"
    by (simp add: demo_eval)
  then obtain vm' where run: "Step demo_host 2 (set_reg demo_vm 10 1) = Some (None, False, vm')"
    by blast
  from lane_zero_reads_zero [OF run init demo_ecall_rd] have "regs vm' 0 = 0" by simp
  with init run show ?thesis by blast
qed

subsection \<open>Arithmetic right shift\<close>

text \<open>
  Claim C2. SRAI and SRA are to write the arithmetic right shift of \<open>rs1\<close>, the sign of bit
  31 filling the vacated bits. The code tests bit \<open>32 - amount\<close> and fills with
  \<open>-1U << amount\<close>: for \<open>rs1 = 0x80000000\<close> and the amount 1 (the \<open>rs2\<close> field of SRAI, the
  value of register \<open>rs2\<close> for SRA) it writes \<open>0xFFFFFFFE\<close> to \<open>rd\<close>, where the arithmetic
  shift is \<open>0xC0000000\<close>.
\<close>

theorem sra_fills_from_the_wrong_end:
  "done_reg (exec_alu h SRAI
      \<lparr>type = RV32ALU SRAI, rd = 2, rs1 = 1, rs2 = 1, rs3 = 0, immediate = 0, rm = 0\<rparr>
      (set_reg vm 1 0x80000000)) 2 = Some 0xFFFFFFFE
   \<and> done_reg (exec_alu h SRA
      \<lparr>type = RV32ALU SRA, rd = 2, rs1 = 1, rs2 = 3, rs3 = 0, immediate = 0, rm = 0\<rparr>
      (set_reg (set_reg vm 1 0x80000000) 3 1)) 2 = Some 0xFFFFFFFE
   \<and> signed_drop_bit 1 (0x80000000 :: u32) = 0xC0000000"
  by (simp add: sra_value_def shl_1U_def set_reg_def done_reg_def)

subsection \<open>Conversions to integers\<close>

text \<open>
  Claim C3. A conversion of minus infinity to a signed integer is to give \<open>INT32_MIN\<close>.
  FCVT.W.S on the lane \<open>0xFF800000\<close> and FCVT.W.D on the lane \<open>0xFFF0000000000000\<close> write
  \<open>0xFFFFFFFF\<close> to \<open>rd\<close>, which is \<open>-1\<close> and not \<open>0x80000000\<close>.
\<close>

theorem fcvt_w_of_minus_infinity:
  "done_reg (exec_f h FCVT_W_S
      \<lparr>type = RV32F FCVT_W_S, rd = 1, rs1 = 2, rs2 = 0, rs3 = 0, immediate = 0,
         rm = RM_ROUND_TO_ZERO\<rparr>
      (set_freg vm 2 \<lparr>u64 = 0xFF800000, is_double = False\<rparr>)) 1 = Some 0xFFFFFFFF
   \<and> done_reg (exec_d h FCVT_W_D
      \<lparr>type = RV32D FCVT_W_D, rd = 1, rs1 = 2, rs2 = 0, rs3 = 0, immediate = 0,
         rm = RM_ROUND_TO_ZERO\<rparr>
      (set_freg vm 2 \<lparr>u64 = 0xFFF0000000000000, is_double = True\<rparr>)) 1 = Some 0xFFFFFFFF"
  by (simp add: fcvt_int_s_def fcvt_int_d_def with_rounding_def ChangeRoundingMode_to_zero
      done_reg_def set_freg_def u32_of_def ClassF32_defs ClassF64_defs f32_lt_def f64_lt_def
      f32_isnan_def f64_isnan_def ieee_key_def ieee_mag_def set_reg_def Let_def)

subsection \<open>Classification\<close>

text \<open>
  Claim C4. FCLASS.S is to set exactly one of the ten bits. On minus infinity
  (\<open>0xFF800000\<close>) it writes \<open>0x43\<close>: bit 0 (negative infinity), bit 1 (negative and not
  subnormal) and bit 6 (not subnormal and not a signalling NaN).
\<close>

theorem fclass_s_of_minus_infinity:
  "done_reg (exec_f h FCLASS_S
      \<lparr>type = RV32F FCLASS_S, rd = 1, rs1 = 2, rs2 = 0, rs3 = 0, immediate = 0,
         rm = RM_ROUND_TO_ZERO\<rparr>
      (set_freg vm 2 \<lparr>u64 = 0xFF800000, is_double = False\<rparr>)) 1 = Some 0x43"
  by (simp add: with_rounding_def ChangeRoundingMode_to_zero done_reg_def set_freg_def
      u32_of_def ClassF32_defs fclass_mask_def set_reg_def Let_def)

subsection \<open>The cycle counter as a CSR\<close>

text \<open>
  Claim C5. CYCLE, MCYCLE, CYCLEH and MCYCLEH are all to be readable. On the hart the
  constructor leaves, a read of MCYCLE or of MCYCLEH throws "Read Invalid CSR": \<open>Setup\<close>
  enters CYCLE and CYCLEH into the CSR map and not their machine-level twins, and
  \<open>ReadCSR\<close> looks the address up before it reaches the cases that synthesise the counter.
  The read of CYCLE gives the low half of the counter, which is 0 there.
\<close>

theorem mcycle_is_not_readable_after_reset:
  "ReadCSR (new_VirtualMachine raw mem starting_pc hart_id now) CSR_MCYCLE False
     = Inl Read_Invalid_CSR
   \<and> ReadCSR (new_VirtualMachine raw mem starting_pc hart_id now) CSR_MCYCLEH False
     = Inl Read_Invalid_CSR
   \<and> ReadCSR (new_VirtualMachine raw mem starting_pc hart_id now) CSR_CYCLE False = Inr 0"
  by (simp add: ReadCSR_def new_VirtualMachine_def Setup_def CSRPrivilegeCheck_def CSR_defs)

subsection \<open>The upper half of a single-precision lane\<close>

lemma CheckFloatErrors_fst:
  "fst (CheckFloatErrors vm) = (FE_DIVBYZERO \<in> host_flags vm \<or> FE_INVALID \<in> host_flags vm)"
  by (simp add: CheckFloatErrors_def Let_def)

lemma hi_mask: "(0xFFFFFFFF00000000 :: u64) = NOT (mask 32)"
  by (simp add: mask_eq_exp_minus_1 not_eq_complement)

lemma upper32_set_u32: "upper32 (set_u32 l v) = upper32 l"
  unfolding upper32_def set_u32_def hi_mask
  by (rule bit_word_eqI) (auto simp add: bit_simps dest: bit_imp_le_length)

lemma u32_of_set_u32: "u32_of (set_u32 l v) = v"
  unfolding u32_of_def set_u32_def hi_mask
  by (rule bit_word_eqI) (auto simp add: bit_simps)

lemma upper32_set_u64_nan: "upper32 (l\<lparr>u64 := RV_F32_NAN\<rparr>) = NaN_box"
  by (simp add: upper32_def RV_F32_NAN_def NaN_box_def)

lemma InvalidInstruction_not_Done [simp]: "InvalidInstruction h vm \<noteq> Done vm'"
  by (simp add: InvalidInstruction_def split: sum.splits)

lemma upper32_set_u64_qnan: "upper32 (l\<lparr>u64 := RV_F32_QNAN\<rparr>) = NaN_box"
  by (simp add: upper32_def RV_F32_QNAN_def NaN_box_def)

lemma upper32_set_u64_zero: "upper32 (l\<lparr>u64 := 0\<rparr>) = 0"
  by (simp add: upper32_def)

lemma host_rounding_simps [simp]:
  "host_rounding (csr_or vm k b) = host_rounding vm"
  "host_rounding (csr_and vm k b) = host_rounding vm"
  "host_rounding (host_raise fl vm) = host_rounding vm"
  "host_rounding (set_freg vm r v) = host_rounding vm"
  "host_rounding (snd (CheckFloatErrors vm)) = host_rounding vm"
  "host_rounding (NV_only vm) = host_rounding vm"
  by (simp_all add: csr_or_def csr_and_def host_raise_def set_freg_def CheckFloatErrors_def
      NV_only_def SetFloatFlags_def Let_def)

lemma csrs_set_freg [simp]: "csrs (set_freg vm r v) = csrs vm"
  by (simp add: set_freg_def)

lemma fcsr_flagged_set_freg [simp]: "fcsr_flagged (set_freg vm r v) = fcsr_flagged vm"
  by (simp add: fcsr_flagged_def)

lemma flagged_bits: "(v AND (0x18 :: u32) \<noteq> 0) = (bit v 3 \<or> bit v 4)"
proof -
  have e: "(0x18 :: u32) = 2 ^ 3 OR 2 ^ 4" by simp
  have "v AND 0x18 = (v AND 2 ^ 3) OR (v AND 2 ^ 4)"
    unfolding e by (rule bit.conj_disj_distrib)
  then have "(v AND 0x18 = 0) = (v AND 2 ^ 3 = 0 \<and> v AND 2 ^ 4 = 0)"
    by (simp only: or_eq_0_iff)
  then show ?thesis
    by (simp only: and_exp_eq_0_iff_not_bit) simp
qed

lemma CheckFloatErrors_fcsr:
  "fcsr_flagged (snd (CheckFloatErrors vm)) = fst (CheckFloatErrors vm)"
  by (simp add: fcsr_flagged_def CheckFloatErrors_def Let_def csr_or_def csr_and_def
      csrs_index_def FCSR_defs flagged_bits bit_simps)

lemma write_f32_checked_lane:
  assumes "write_f32_checked vm1 dst res = Done vm'"
  shows "checked_lane vm' (fregs vm1 dst) (fregs vm' dst) (fst res)"
    and "host_rounding vm' = host_rounding vm1"
proof -
  let ?c = "CheckFloatErrors (host_raise (snd res) vm1)"
  have eq: "write_f32_checked vm1 dst res =
      (if fst ?c then Done (set_freg (snd ?c) dst (set_u64 (fregs (snd ?c) dst) RV_F32_NAN))
       else Done (set_freg (snd ?c) dst (set_u32 (fregs (snd ?c) dst) (fst res))))"
    by (simp add: write_f32_checked_def case_prod_unfold)
  show "checked_lane vm' (fregs vm1 dst) (fregs vm' dst) (fst res)"
  proof (cases "fst ?c")
    case True
    with eq assms have "vm' = set_freg (snd ?c) dst (set_u64 (fregs (snd ?c) dst) RV_F32_NAN)"
      by simp
    with True show ?thesis
      by (simp add: checked_lane_def CheckFloatErrors_fcsr upper32_set_u64_nan set_u64_def)
  next
    case False
    with eq assms have "vm' = set_freg (snd ?c) dst (set_u32 (fregs (snd ?c) dst) (fst res))"
      by simp
    with False show ?thesis
      by (simp add: checked_lane_def CheckFloatErrors_fcsr upper32_set_u32 u32_of_set_u32)
  qed
  from eq assms show "host_rounding vm' = host_rounding vm1"
    by (auto split: if_splits)
qed

lemma with_rounding_Done:
  assumes "with_rounding h vm instr k = Done vm'"
  obtains vm1 where "k vm1 = Done vm'" and "fregs vm1 = fregs vm" and "regs vm1 = regs vm"
proof -
  from assms obtain vm1 where c: "ChangeRoundingMode h vm (rm instr) = Some (True, vm1)"
    and k: "k vm1 = Done vm'"
    by (auto simp add: with_rounding_def split: option.splits if_splits)
  from ChangeRoundingMode_frame [OF c] have "fregs vm1 = fregs vm" "regs vm1 = regs vm"
    by simp_all
  with k that show thesis by blast
qed

lemma arith_s_lane:
  assumes "arith_s h opn instr vm = Done vm'"
  shows "checked_lane vm' (fregs vm (rd instr)) (fregs vm' (rd instr))
           (fst (host_f32_arith h opn (host_rounding vm')
                   (u32_of (fregs vm (rs1 instr))) (u32_of (fregs vm (rs2 instr)))))"
proof -
  from assms [unfolded arith_s_def] obtain vm1 where
    k: "write_f32_checked vm1 (rd instr)
          (host_f32_arith h opn (host_rounding vm1)
             (u32_of (fregs vm1 (rs1 instr))) (u32_of (fregs vm1 (rs2 instr)))) = Done vm'"
    and f: "fregs vm1 = fregs vm"
    by (rule with_rounding_Done)
  from write_f32_checked_lane [OF k] f show ?thesis by simp
qed

lemma fma_s_lane:
  assumes "fma_s h negate opn instr vm = Done vm'"
  shows "checked_lane vm' (fregs vm (rd instr)) (fregs vm' (rd instr))
           (fst (host_f32_arith h opn (host_rounding vm')
                   (if negate
                    then f32_neg (fst (host_f32_arith h F_MUL (host_rounding vm')
                           (u32_of (fregs vm (rs1 instr))) (u32_of (fregs vm (rs2 instr)))))
                    else fst (host_f32_arith h F_MUL (host_rounding vm')
                           (u32_of (fregs vm (rs1 instr))) (u32_of (fregs vm (rs2 instr)))))
                   (u32_of (fregs vm (rs3 instr)))))"
proof -
  from assms [unfolded fma_s_def] obtain vm1 where
    k: "(let a = u32_of (fregs vm1 (rs1 instr));
          b = u32_of (fregs vm1 (rs2 instr));
          c = u32_of (fregs vm1 (rs3 instr));
          lhs_is_inf = is_inf32 a;
          rhs_is_zero = is_zero32 b
      in if lhs_is_inf \<and> rhs_is_zero then InvalidInstruction h vm1
         else (let prod = host_f32_arith h F_MUL (host_rounding vm1) a b;
                   p = (if negate then f32_neg (fst prod) else fst prod);
                   res = host_f32_arith h opn (host_rounding vm1) p c
               in write_f32_checked vm1 (rd instr) (fst res, snd prod \<union> snd res))) = Done vm'"
    and f: "fregs vm1 = fregs vm"
    by (rule with_rounding_Done)
  let ?a = "u32_of (fregs vm (rs1 instr))"
  let ?b = "u32_of (fregs vm (rs2 instr))"
  let ?c = "u32_of (fregs vm (rs3 instr))"
  let ?prod = "host_f32_arith h F_MUL (host_rounding vm1) ?a ?b"
  let ?p = "if negate then f32_neg (fst ?prod) else fst ?prod"
  let ?res = "host_f32_arith h opn (host_rounding vm1) ?p ?c"
  from k f have w: "write_f32_checked vm1 (rd instr) (fst ?res, snd ?prod \<union> snd ?res) = Done vm'"
    by (simp add: Let_def split: if_splits)
  from write_f32_checked_lane [OF w] f show ?thesis by (simp split: if_splits)
qed

lemma fsqrt_s_lane:
  assumes "exec_f h FSQRT_S instr vm = Done vm'"
  shows "if is_inf32 (u32_of (fregs vm (rs1 instr))) \<or> is_nan32 (u32_of (fregs vm (rs1 instr)))
            \<or> is_qnan32 (u32_of (fregs vm (rs1 instr))) \<or> is_neg32 (u32_of (fregs vm (rs1 instr)))
         then u64 (fregs vm' (rd instr)) = RV_F32_NAN \<and> upper32 (fregs vm' (rd instr)) = NaN_box
         else upper32 (fregs vm' (rd instr)) = upper32 (fregs vm (rd instr))
              \<and> u32_of (fregs vm' (rd instr))
                  = fst (host_f32_sqrt h (host_rounding vm') (u32_of (fregs vm (rs1 instr))))"
proof -
  from assms obtain vm1 where
    k: "(let a = u32_of (fregs vm1 (rs1 instr))
      in if is_inf32 a \<or> is_nan32 a \<or> is_qnan32 a \<or> is_neg32 a
         then Done (set_freg vm1 (rd instr) (set_u64 (fregs vm1 (rd instr)) RV_F32_NAN))
         else (let res = host_f32_sqrt h (host_rounding vm1) a;
                   vm2 = host_raise (snd res) vm1
               in Done (set_freg vm2 (rd instr) (set_u32 (fregs vm2 (rd instr)) (fst res)))))
       = Done vm'"
    and f: "fregs vm1 = fregs vm"
    by (auto elim: with_rounding_Done)
  from k f show ?thesis
    by (auto simp add: Let_def set_u64_def upper32_set_u64_nan upper32_set_u32 u32_of_set_u32
        split: if_splits)
qed

lemma minmax_s_lane:
  assumes "minmax_s is_max instr vm = Done vm'"
  shows "let a = u32_of (fregs vm (rs1 instr)); b = u32_of (fregs vm (rs2 instr));
             lhs_nan = (is_nan32 a \<or> is_qnan32 a); rhs_nan = (is_nan32 b \<or> is_qnan32 b);
             lhs_less = (if lhs_nan then False
                         else if rhs_nan then True
                         else if is_neg32 a \<and> \<not> is_neg32 b then True
                         else if \<not> is_neg32 a \<and> is_neg32 b then False
                         else f32_lt a b)
         in if lhs_nan \<and> rhs_nan
            then u64 (fregs vm' (rd instr)) = RV_F32_NAN
                 \<and> upper32 (fregs vm' (rd instr)) = NaN_box
            else fregs vm' (rd instr)
                   = fregs vm (if lhs_less \<noteq> is_max then rs1 instr else rs2 instr)"
  using assms
  by (auto simp add: minmax_s_def Let_def set_u64_def upper32_set_u64_nan split: if_splits)

lemma fcvt_s_int_lane:
  assumes "fcvt_s_int h from_int instr vm = Done vm'"
  shows "upper32 (fregs vm' (rd instr)) = upper32 (fregs vm (rd instr))
       \<and> u32_of (fregs vm' (rd instr))
           = fst (from_int (host_rounding vm') (regs vm (rs1 instr)))"
  using assms
  by (auto simp add: fcvt_s_int_def Let_def upper32_set_u32 u32_of_set_u32 split: if_splits)

lemma fcvt_s_d_lane:
  assumes "exec_d h FCVT_S_D instr vm = Done vm'"
  shows "if is_nan64 (u64 (fregs vm (rs1 instr)))
         then u64 (fregs vm' (rd instr)) = RV_F32_NAN \<and> upper32 (fregs vm' (rd instr)) = NaN_box
         else if is_qnan64 (u64 (fregs vm (rs1 instr)))
         then u64 (fregs vm' (rd instr)) = RV_F32_QNAN \<and> upper32 (fregs vm' (rd instr)) = NaN_box
         else upper32 (fregs vm' (rd instr)) = 0
              \<and> u32_of (fregs vm' (rd instr))
                  = fst (host_f64_to_f32 h (host_rounding vm') (u64 (fregs vm (rs1 instr))))"
proof -
  from assms obtain vm1 where
    k: "(let a = u64 (fregs vm1 (rs1 instr));
          lhs_snan = is_nan64 a; lhs_qnan = is_qnan64 a
      in if lhs_snan
         then Done (set_freg vm1 (rd instr) (set_u64 (fregs vm1 (rd instr)) RV_F32_NAN))
         else if lhs_qnan
         then Done (set_freg vm1 (rd instr) (set_u64 (fregs vm1 (rd instr)) RV_F32_QNAN))
         else (let res = host_f64_to_f32 h (host_rounding vm1) a;
                   vm2 = host_raise (snd res) vm1;
                   lane0 = set_u64 (fregs vm2 (rd instr)) 0
               in Done (set_freg vm2 (rd instr) (set_u32 lane0 (fst res))))) = Done vm'"
    and f: "fregs vm1 = fregs vm"
    by (auto elim: with_rounding_Done)
  from k f show ?thesis
    by (auto simp add: Let_def set_u64_def upper32_set_u64_nan upper32_set_u64_qnan
        upper32_set_u32 u32_of_set_u32 upper32_set_u64_zero split: if_splits)
qed

lemma sgnj_lane:
  "upper32 (set_u32 (set_u32 l x) y) = upper32 l" "u32_of (set_u32 (set_u32 l x) y) = y"
  by (simp_all add: upper32_set_u32 u32_of_set_u32)

lemma u32_of_ToFloat: "u32_of (ToFloat h w) = w"
  using u32_of_set_u32 [of "Float_uninit h" w] by (simp add: ToFloat_def u32_of_def)

text \<open>
  Claim C6, as stated: every instruction that writes a single-precision result leaves the
  upper 32 bits of the lane all ones. FMV.W.X from a register holding 5 leaves the lane
  \<open>0x0000000000000005\<close>: the case assigns \<open>u64 = 0\<close> before \<open>u32\<close>. FADD.S of 2.0 and 0.0 into a
  lane that held \<open>0x1234567800000000\<close> leaves \<open>0x12345678\<close> above the sum: the case assigns
  \<open>.f\<close> only.
\<close>

theorem fmv_w_x_upper_half_counterexample:
  "map_option u64 (done_freg (exec_f demo_host FMV_W_X
      \<lparr>type = RV32F FMV_W_X, rd = 1, rs1 = 2, rs2 = 0, rs3 = 0, immediate = 0, rm = 0\<rparr>
      (set_reg demo_vm 2 5)) 1) = Some 5
   \<and> map_option upper32 (done_freg (exec_f demo_host FMV_W_X
      \<lparr>type = RV32F FMV_W_X, rd = 1, rs1 = 2, rs2 = 0, rs3 = 0, immediate = 0, rm = 0\<rparr>
      (set_reg demo_vm 2 5)) 1) = Some 0
   \<and> (0 :: u32) \<noteq> NaN_box
   \<and> map_option u64 (done_freg (exec_f demo_host FADD_S
      \<lparr>type = RV32F FADD_S, rd = 3, rs1 = 1, rs2 = 2, rs3 = 0, immediate = 0,
         rm = RM_ROUND_TO_NEAREST_TIES_EVEN\<rparr>
      (set_freg (set_freg demo_vm 1 \<lparr>u64 = 0x40000000, is_double = False\<rparr>)
         3 \<lparr>u64 = 0x1234567800000000, is_double = False\<rparr>)) 3) = Some 0x1234567840000000
   \<and> upper32 \<lparr>u64 = 0x1234567840000000, is_double = False\<rparr> = 0x12345678
   \<and> (0x12345678 :: u32) \<noteq> NaN_box"
proof -
  have a: "map_option u64 (done_freg (exec_f demo_host FMV_W_X
      \<lparr>type = RV32F FMV_W_X, rd = 1, rs1 = 2, rs2 = 0, rs3 = 0, immediate = 0, rm = 0\<rparr>
      (set_reg demo_vm 2 5)) 1) = Some 5
   \<and> map_option upper32 (done_freg (exec_f demo_host FMV_W_X
      \<lparr>type = RV32F FMV_W_X, rd = 1, rs1 = 2, rs2 = 0, rs3 = 0, immediate = 0, rm = 0\<rparr>
      (set_reg demo_vm 2 5)) 1) = Some 0
   \<and> (0 :: u32) \<noteq> NaN_box"
    by (simp add: done_freg_def set_freg_def set_reg_def set_u32_def set_u64_def upper32_def
        NaN_box_def demo_defs Let_def)
  have b: "map_option u64 (done_freg (exec_f demo_host FADD_S
      \<lparr>type = RV32F FADD_S, rd = 3, rs1 = 1, rs2 = 2, rs3 = 0, immediate = 0,
         rm = RM_ROUND_TO_NEAREST_TIES_EVEN\<rparr>
      (set_freg (set_freg demo_vm 1 \<lparr>u64 = 0x40000000, is_double = False\<rparr>)
         3 \<lparr>u64 = 0x1234567800000000, is_double = False\<rparr>)) 3) = Some 0x1234567840000000"
    by (simp add: done_freg_def arith_s_def with_rounding_def ChangeRoundingMode_nearest
        write_f32_checked_def case_prod_unfold CheckFloatErrors_fst host_raise_def u32_of_def
        set_u32_def demo_defs Let_def)
  have c: "upper32 \<lparr>u64 = 0x1234567840000000, is_double = False\<rparr> = 0x12345678
      \<and> (0x12345678 :: u32) \<noteq> NaN_box"
    by (simp add: upper32_def NaN_box_def)
  from a b c show ?thesis by simp
qed

text \<open>
  Claim C6, amended. An instruction that writes a single-precision result leaves the upper 32
  bits of the destination lane all ones where it stores a canonical NaN constant
  (\<open>0xFFFFFFFF7FC00000\<close>, or \<open>0xFFFFFFFFFFC00000\<close> for a quiet NaN in FCVT.S.D): the four
  arithmetic instructions and the four fused multiply-adds when \<open>fcsr\<close> records DZ or NV after
  the operation, FSQRT.S on an infinite, NaN or negative operand, FMIN.S and FMAX.S on two
  NaNs, FCVT.S.D on a NaN. On every other path the result goes to the low 32 bits and the upper
  32 bits are not boxed: the arithmetic instructions, the fused multiply-adds, FSQRT.S,
  FCVT.S.W and FCVT.S.WU leave them as they were; FSGNJ.S, FSGNJN.S and FSGNJX.S copy them
  from the lane \<open>rs1\<close>; FMIN.S and FMAX.S copy the whole lane of the operand they select;
  FMV.W.X and FCVT.S.D leave them zero. FLW writes the loaded word to the low 32 bits; nothing
  is stated of the upper half after it, which \<open>ToFloat\<close> leaves unassigned. Reads of a
  single-precision operand use the low 32 bits of the lane: FMV.X.W copies them to \<open>rd\<close>
  whatever the upper half holds.
\<close>

theorem single_write_upper_half:
  assumes "dispatch h t instr vm = Done vm'"
  shows
    "let before = fregs vm (rd instr); after = fregs vm' (rd instr);
         a = u32_of (fregs vm (rs1 instr)); b = u32_of (fregs vm (rs2 instr));
         c = u32_of (fregs vm (rs3 instr)); d = u64 (fregs vm (rs1 instr));
         r = host_rounding vm';
         prod = fst (host_f32_arith h F_MUL r a b);
         lhs_nan = (is_nan32 a \<or> is_qnan32 a); rhs_nan = (is_nan32 b \<or> is_qnan32 b);
         lhs_less = (if lhs_nan then False
                     else if rhs_nan then True
                     else if is_neg32 a \<and> \<not> is_neg32 b then True
                     else if \<not> is_neg32 a \<and> is_neg32 b then False
                     else f32_lt a b)
     in (t = RV32F FADD_S \<longrightarrow>
           checked_lane vm' before after (fst (host_f32_arith h F_ADD r a b)))
      \<and> (t = RV32F FSUB_S \<longrightarrow>
           checked_lane vm' before after (fst (host_f32_arith h F_SUB r a b)))
      \<and> (t = RV32F FMUL_S \<longrightarrow>
           checked_lane vm' before after (fst (host_f32_arith h F_MUL r a b)))
      \<and> (t = RV32F FDIV_S \<longrightarrow>
           checked_lane vm' before after (fst (host_f32_arith h F_DIV r a b)))
      \<and> (t = RV32F FMADD_S \<longrightarrow>
           checked_lane vm' before after (fst (host_f32_arith h F_ADD r prod c)))
      \<and> (t = RV32F FMSUB_S \<longrightarrow>
           checked_lane vm' before after (fst (host_f32_arith h F_SUB r prod c)))
      \<and> (t = RV32F FNMSUB_S \<longrightarrow>
           checked_lane vm' before after (fst (host_f32_arith h F_ADD r (f32_neg prod) c)))
      \<and> (t = RV32F FNMADD_S \<longrightarrow>
           checked_lane vm' before after (fst (host_f32_arith h F_SUB r (f32_neg prod) c)))
      \<and> (t = RV32F FSQRT_S \<longrightarrow>
           (if is_inf32 a \<or> is_nan32 a \<or> is_qnan32 a \<or> is_neg32 a
            then u64 after = RV_F32_NAN \<and> upper32 after = NaN_box
            else upper32 after = upper32 before
                 \<and> u32_of after = fst (host_f32_sqrt h r a)))
      \<and> (t = RV32F FSGNJ_S \<longrightarrow>
           upper32 after = upper32 (fregs vm (rs1 instr))
           \<and> u32_of after = (a AND NOT sign32) OR (b AND sign32))
      \<and> (t = RV32F FSGNJN_S \<longrightarrow>
           upper32 after = upper32 (fregs vm (rs1 instr))
           \<and> u32_of after = (a AND NOT sign32) OR (NOT b AND sign32))
      \<and> (t = RV32F FSGNJX_S \<longrightarrow>
           upper32 after = upper32 (fregs vm (rs1 instr))
           \<and> u32_of after = a XOR (b AND sign32))
      \<and> (t = RV32F FMIN_S \<longrightarrow>
           (if lhs_nan \<and> rhs_nan then u64 after = RV_F32_NAN \<and> upper32 after = NaN_box
            else after = fregs vm (if lhs_less then rs1 instr else rs2 instr)))
      \<and> (t = RV32F FMAX_S \<longrightarrow>
           (if lhs_nan \<and> rhs_nan then u64 after = RV_F32_NAN \<and> upper32 after = NaN_box
            else after = fregs vm (if lhs_less then rs2 instr else rs1 instr)))
      \<and> (t = RV32F FCVT_S_W \<longrightarrow>
           upper32 after = upper32 before
           \<and> u32_of after = fst (host_i32_to_f32 h r (regs vm (rs1 instr))))
      \<and> (t = RV32F FCVT_S_WU \<longrightarrow>
           upper32 after = upper32 before
           \<and> u32_of after = fst (host_u32_to_f32 h r (regs vm (rs1 instr))))
      \<and> (t = RV32F FMV_W_X \<longrightarrow>
           upper32 after = 0 \<and> u32_of after = regs vm (rs1 instr))
      \<and> (t = RV32D FCVT_S_D \<longrightarrow>
           (if is_nan64 d then u64 after = RV_F32_NAN \<and> upper32 after = NaN_box
            else if is_qnan64 d then u64 after = RV_F32_QNAN \<and> upper32 after = NaN_box
            else upper32 after = 0 \<and> u32_of after = fst (host_f64_to_f32 h r d)))
      \<and> (t = RV32F FLW \<longrightarrow>
           ReadWord h (memory vm) (regs vm (rs1 instr) + immediate instr)
             = Inr (u32_of after))
      \<and> (t = RV32F FMV_X_W \<longrightarrow> regs vm' (rd instr) = a)"
proof -
  have c1: "t = RV32F FADD_S \<longrightarrow>
      (checked_lane vm' (fregs vm (rd instr)) (fregs vm' (rd instr))
      (fst (host_f32_arith h F_ADD (host_rounding vm')
         (u32_of (fregs vm (rs1 instr))) (u32_of (fregs vm (rs2 instr))))))"
    (is "_ \<longrightarrow> ?goal")
  proof
    assume "t = RV32F FADD_S"
    with assms have "arith_s h F_ADD instr vm = Done vm'" by simp
    then show ?goal
      by (rule arith_s_lane)
  qed
  have c2: "t = RV32F FSUB_S \<longrightarrow>
      (checked_lane vm' (fregs vm (rd instr)) (fregs vm' (rd instr))
      (fst (host_f32_arith h F_SUB (host_rounding vm')
         (u32_of (fregs vm (rs1 instr))) (u32_of (fregs vm (rs2 instr))))))"
    (is "_ \<longrightarrow> ?goal")
  proof
    assume "t = RV32F FSUB_S"
    with assms have "arith_s h F_SUB instr vm = Done vm'" by simp
    then show ?goal
      by (rule arith_s_lane)
  qed
  have c3: "t = RV32F FMUL_S \<longrightarrow>
      (checked_lane vm' (fregs vm (rd instr)) (fregs vm' (rd instr))
      (fst (host_f32_arith h F_MUL (host_rounding vm')
         (u32_of (fregs vm (rs1 instr))) (u32_of (fregs vm (rs2 instr))))))"
    (is "_ \<longrightarrow> ?goal")
  proof
    assume "t = RV32F FMUL_S"
    with assms have "arith_s h F_MUL instr vm = Done vm'" by simp
    then show ?goal
      by (rule arith_s_lane)
  qed
  have c4: "t = RV32F FDIV_S \<longrightarrow>
      (checked_lane vm' (fregs vm (rd instr)) (fregs vm' (rd instr))
      (fst (host_f32_arith h F_DIV (host_rounding vm')
         (u32_of (fregs vm (rs1 instr))) (u32_of (fregs vm (rs2 instr))))))"
    (is "_ \<longrightarrow> ?goal")
  proof
    assume "t = RV32F FDIV_S"
    with assms have "arith_s h F_DIV instr vm = Done vm'" by simp
    then show ?goal
      by (rule arith_s_lane)
  qed
  have c5: "t = RV32F FMADD_S \<longrightarrow>
      (checked_lane vm' (fregs vm (rd instr)) (fregs vm' (rd instr))
      (fst (host_f32_arith h F_ADD (host_rounding vm')
         (fst (host_f32_arith h F_MUL (host_rounding vm')
            (u32_of (fregs vm (rs1 instr))) (u32_of (fregs vm (rs2 instr)))))
         (u32_of (fregs vm (rs3 instr))))))"
    (is "_ \<longrightarrow> ?goal")
  proof
    assume "t = RV32F FMADD_S"
    with assms have "fma_s h False F_ADD instr vm = Done vm'" by simp
    from fma_s_lane [OF this]
    show ?goal
      by simp
  qed
  have c6: "t = RV32F FMSUB_S \<longrightarrow>
      (checked_lane vm' (fregs vm (rd instr)) (fregs vm' (rd instr))
      (fst (host_f32_arith h F_SUB (host_rounding vm')
         (fst (host_f32_arith h F_MUL (host_rounding vm')
            (u32_of (fregs vm (rs1 instr))) (u32_of (fregs vm (rs2 instr)))))
         (u32_of (fregs vm (rs3 instr))))))"
    (is "_ \<longrightarrow> ?goal")
  proof
    assume "t = RV32F FMSUB_S"
    with assms have "fma_s h False F_SUB instr vm = Done vm'" by simp
    from fma_s_lane [OF this]
    show ?goal
      by simp
  qed
  have c7: "t = RV32F FNMSUB_S \<longrightarrow>
      (checked_lane vm' (fregs vm (rd instr)) (fregs vm' (rd instr))
      (fst (host_f32_arith h F_ADD (host_rounding vm')
         (f32_neg (fst (host_f32_arith h F_MUL (host_rounding vm')
            (u32_of (fregs vm (rs1 instr))) (u32_of (fregs vm (rs2 instr))))))
         (u32_of (fregs vm (rs3 instr))))))"
    (is "_ \<longrightarrow> ?goal")
  proof
    assume "t = RV32F FNMSUB_S"
    with assms have "fma_s h True F_ADD instr vm = Done vm'" by simp
    from fma_s_lane [OF this]
    show ?goal
      by simp
  qed
  have c8: "t = RV32F FNMADD_S \<longrightarrow>
      (checked_lane vm' (fregs vm (rd instr)) (fregs vm' (rd instr))
      (fst (host_f32_arith h F_SUB (host_rounding vm')
         (f32_neg (fst (host_f32_arith h F_MUL (host_rounding vm')
            (u32_of (fregs vm (rs1 instr))) (u32_of (fregs vm (rs2 instr))))))
         (u32_of (fregs vm (rs3 instr))))))"
    (is "_ \<longrightarrow> ?goal")
  proof
    assume "t = RV32F FNMADD_S"
    with assms have "fma_s h True F_SUB instr vm = Done vm'" by simp
    from fma_s_lane [OF this]
    show ?goal
      by simp
  qed
  have c9: "t = RV32F FSQRT_S \<longrightarrow>
      (if is_inf32 (u32_of (fregs vm (rs1 instr))) \<or> is_nan32 (u32_of (fregs vm (rs1 instr)))
        \<or> is_qnan32 (u32_of (fregs vm (rs1 instr))) \<or> is_neg32 (u32_of (fregs vm (rs1 instr)))
     then u64 (fregs vm' (rd instr)) = RV_F32_NAN \<and> upper32 (fregs vm' (rd instr)) = NaN_box
     else upper32 (fregs vm' (rd instr)) = upper32 (fregs vm (rd instr))
          \<and> u32_of (fregs vm' (rd instr))
              = fst (host_f32_sqrt h (host_rounding vm') (u32_of (fregs vm (rs1 instr)))))"
    (is "_ \<longrightarrow> ?goal")
  proof
    assume "t = RV32F FSQRT_S"
    with assms have "exec_f h FSQRT_S instr vm = Done vm'" by simp
    then show ?goal
      by (rule fsqrt_s_lane)
  qed
  have c10: "t = RV32F FSGNJ_S \<longrightarrow>
      (upper32 (fregs vm' (rd instr)) = upper32 (fregs vm (rs1 instr))
      \<and> u32_of (fregs vm' (rd instr))
          = (u32_of (fregs vm (rs1 instr)) AND NOT sign32)
            OR (u32_of (fregs vm (rs2 instr)) AND sign32))"
    (is "_ \<longrightarrow> ?goal")
  proof
    assume "t = RV32F FSGNJ_S"
    with assms show ?goal
      by (auto simp add: Let_def sgnj_lane u32_of_set_u32)
  qed
  have c11: "t = RV32F FSGNJN_S \<longrightarrow>
      (upper32 (fregs vm' (rd instr)) = upper32 (fregs vm (rs1 instr))
      \<and> u32_of (fregs vm' (rd instr))
          = (u32_of (fregs vm (rs1 instr)) AND NOT sign32)
            OR (NOT (u32_of (fregs vm (rs2 instr))) AND sign32))"
    (is "_ \<longrightarrow> ?goal")
  proof
    assume "t = RV32F FSGNJN_S"
    with assms show ?goal
      by (auto simp add: Let_def sgnj_lane u32_of_set_u32)
  qed
  have c12: "t = RV32F FSGNJX_S \<longrightarrow>
      (upper32 (fregs vm' (rd instr)) = upper32 (fregs vm (rs1 instr))
      \<and> u32_of (fregs vm' (rd instr))
          = u32_of (fregs vm (rs1 instr)) XOR (u32_of (fregs vm (rs2 instr)) AND sign32))"
    (is "_ \<longrightarrow> ?goal")
  proof
    assume "t = RV32F FSGNJX_S"
    with assms show ?goal
      by (auto simp add: Let_def upper32_set_u32 u32_of_set_u32)
  qed
  have c13: "t = RV32F FMIN_S \<longrightarrow>
      (if (is_nan32 (u32_of (fregs vm (rs1 instr))) \<or> is_qnan32 (u32_of (fregs vm (rs1 instr))))
          \<and> (is_nan32 (u32_of (fregs vm (rs2 instr))) \<or> is_qnan32 (u32_of (fregs vm (rs2 instr))))
     then u64 (fregs vm' (rd instr)) = RV_F32_NAN \<and> upper32 (fregs vm' (rd instr)) = NaN_box
     else fregs vm' (rd instr) = fregs vm
       (if (if is_nan32 (u32_of (fregs vm (rs1 instr))) \<or> is_qnan32 (u32_of (fregs vm (rs1 instr)))
            then False
            else if is_nan32 (u32_of (fregs vm (rs2 instr)))
                    \<or> is_qnan32 (u32_of (fregs vm (rs2 instr))) then True
            else if is_neg32 (u32_of (fregs vm (rs1 instr)))
                    \<and> \<not> is_neg32 (u32_of (fregs vm (rs2 instr))) then True
            else if \<not> is_neg32 (u32_of (fregs vm (rs1 instr)))
                    \<and> is_neg32 (u32_of (fregs vm (rs2 instr))) then False
            else f32_lt (u32_of (fregs vm (rs1 instr))) (u32_of (fregs vm (rs2 instr))))
        then rs1 instr else rs2 instr))"
    (is "_ \<longrightarrow> ?goal")
  proof
    assume "t = RV32F FMIN_S"
    with assms have "minmax_s False instr vm = Done vm'" by simp
    from minmax_s_lane [OF this]
    show ?goal
      by (simp add: Let_def)
  qed
  have c14: "t = RV32F FMAX_S \<longrightarrow>
      (if (is_nan32 (u32_of (fregs vm (rs1 instr))) \<or> is_qnan32 (u32_of (fregs vm (rs1 instr))))
          \<and> (is_nan32 (u32_of (fregs vm (rs2 instr))) \<or> is_qnan32 (u32_of (fregs vm (rs2 instr))))
     then u64 (fregs vm' (rd instr)) = RV_F32_NAN \<and> upper32 (fregs vm' (rd instr)) = NaN_box
     else fregs vm' (rd instr) = fregs vm
       (if (if is_nan32 (u32_of (fregs vm (rs1 instr))) \<or> is_qnan32 (u32_of (fregs vm (rs1 instr)))
            then False
            else if is_nan32 (u32_of (fregs vm (rs2 instr)))
                    \<or> is_qnan32 (u32_of (fregs vm (rs2 instr))) then True
            else if is_neg32 (u32_of (fregs vm (rs1 instr)))
                    \<and> \<not> is_neg32 (u32_of (fregs vm (rs2 instr))) then True
            else if \<not> is_neg32 (u32_of (fregs vm (rs1 instr)))
                    \<and> is_neg32 (u32_of (fregs vm (rs2 instr))) then False
            else f32_lt (u32_of (fregs vm (rs1 instr))) (u32_of (fregs vm (rs2 instr))))
        then rs2 instr else rs1 instr))"
    (is "_ \<longrightarrow> ?goal")
  proof
    assume "t = RV32F FMAX_S"
    with assms have "minmax_s True instr vm = Done vm'" by simp
    from minmax_s_lane [OF this]
    show ?goal
      by (simp add: Let_def split: if_splits)
  qed
  have c15: "t = RV32F FCVT_S_W \<longrightarrow>
      (upper32 (fregs vm' (rd instr)) = upper32 (fregs vm (rd instr))
      \<and> u32_of (fregs vm' (rd instr))
          = fst (host_i32_to_f32 h (host_rounding vm') (regs vm (rs1 instr))))"
    (is "_ \<longrightarrow> ?goal")
  proof
    assume "t = RV32F FCVT_S_W"
    with assms have "fcvt_s_int h (host_i32_to_f32 h) instr vm = Done vm'" by simp
    then show ?goal
      by (rule fcvt_s_int_lane)
  qed
  have c16: "t = RV32F FCVT_S_WU \<longrightarrow>
      (upper32 (fregs vm' (rd instr)) = upper32 (fregs vm (rd instr))
      \<and> u32_of (fregs vm' (rd instr))
          = fst (host_u32_to_f32 h (host_rounding vm') (regs vm (rs1 instr))))"
    (is "_ \<longrightarrow> ?goal")
  proof
    assume "t = RV32F FCVT_S_WU"
    with assms have "fcvt_s_int h (host_u32_to_f32 h) instr vm = Done vm'" by simp
    then show ?goal
      by (rule fcvt_s_int_lane)
  qed
  have c17: "t = RV32F FMV_W_X \<longrightarrow>
      (upper32 (fregs vm' (rd instr)) = 0
      \<and> u32_of (fregs vm' (rd instr)) = regs vm (rs1 instr))"
    (is "_ \<longrightarrow> ?goal")
  proof
    assume "t = RV32F FMV_W_X"
    with assms have "vm' = set_freg vm (rd instr)
        (set_u32 (set_u64 (fregs vm (rd instr)) 0) (regs vm (rs1 instr)))"
      by (simp add: Let_def)
    then show ?goal
      by (simp add: upper32_set_u32 u32_of_set_u32 set_u64_def upper32_set_u64_zero)
  qed
  have c18: "t = RV32D FCVT_S_D \<longrightarrow>
      (if is_nan64 (u64 (fregs vm (rs1 instr)))
     then u64 (fregs vm' (rd instr)) = RV_F32_NAN \<and> upper32 (fregs vm' (rd instr)) = NaN_box
     else if is_qnan64 (u64 (fregs vm (rs1 instr)))
     then u64 (fregs vm' (rd instr)) = RV_F32_QNAN \<and> upper32 (fregs vm' (rd instr)) = NaN_box
     else upper32 (fregs vm' (rd instr)) = 0
          \<and> u32_of (fregs vm' (rd instr))
              = fst (host_f64_to_f32 h (host_rounding vm') (u64 (fregs vm (rs1 instr)))))"
    (is "_ \<longrightarrow> ?goal")
  proof
    assume "t = RV32D FCVT_S_D"
    with assms have "exec_d h FCVT_S_D instr vm = Done vm'" by simp
    then show ?goal
      by (rule fcvt_s_d_lane)
  qed
  have c19: "t = RV32F FLW \<longrightarrow>
      (ReadWord h (memory vm) (regs vm (rs1 instr) + immediate instr)
      = Inr (u32_of (fregs vm' (rd instr))))"
    (is "_ \<longrightarrow> ?goal")
  proof
    assume "t = RV32F FLW"
    with assms obtain w where
      "ReadWord h (memory vm) (regs vm (rs1 instr) + immediate instr) = Inr w"
      and "vm' = set_freg vm (rd instr) (ToFloat h w)"
      by (auto simp add: bus_read_def split: sum.splits)
    then show ?goal
      by (simp add: u32_of_ToFloat)
  qed
  have c20: "t = RV32F FMV_X_W \<longrightarrow>
      (regs vm' (rd instr) = u32_of (fregs vm (rs1 instr)))"
    (is "_ \<longrightarrow> ?goal")
  proof
    assume "t = RV32F FMV_X_W"
    with assms show ?goal
      by auto
  qed
  show ?thesis
    unfolding Let_def
    by (intro conjI) (rule c1 c2 c3 c4 c5 c6 c7 c8 c9 c10 c11 c12 c13 c14 c15 c16 c17 c18 c19 c20)+
qed

theorem single_write_upper_half_witness:
  "(\<exists>vm'. dispatch demo_host (RV32F FDIV_S)
        \<lparr>type = RV32F FDIV_S, rd = 3, rs1 = 1, rs2 = 2, rs3 = 0, immediate = 0,
           rm = RM_ROUND_TO_NEAREST_TIES_EVEN\<rparr>
        (set_freg demo_vm 1 \<lparr>u64 = 0x3F800000, is_double = False\<rparr>) = Done vm'
      \<and> fcsr_flagged vm' \<and> u64 (fregs vm' 3) = RV_F32_NAN
      \<and> upper32 (fregs vm' 3) = NaN_box)
   \<and> (\<exists>vm'. dispatch demo_host (RV32F FADD_S)
        \<lparr>type = RV32F FADD_S, rd = 3, rs1 = 1, rs2 = 2, rs3 = 0, immediate = 0,
           rm = RM_ROUND_TO_NEAREST_TIES_EVEN\<rparr>
        (set_freg (set_freg demo_vm 1 \<lparr>u64 = 0x40000000, is_double = False\<rparr>)
           3 \<lparr>u64 = 0x1234567800000000, is_double = False\<rparr>) = Done vm'
      \<and> \<not> fcsr_flagged vm' \<and> upper32 (fregs vm' 3) = 0x12345678
      \<and> u32_of (fregs vm' 3) = 0x40000000)
   \<and> (\<exists>vm'. dispatch demo_host (RV32F FMV_W_X)
        \<lparr>type = RV32F FMV_W_X, rd = 1, rs1 = 2, rs2 = 0, rs3 = 0, immediate = 0, rm = 0\<rparr>
        (set_reg demo_vm 2 5) = Done vm'
      \<and> upper32 (fregs vm' 1) = 0 \<and> u32_of (fregs vm' 1) = 5)
   \<and> (\<exists>vm'. dispatch demo_host (RV32F FMV_X_W)
        \<lparr>type = RV32F FMV_X_W, rd = 4, rs1 = 1, rs2 = 0, rs3 = 0, immediate = 0, rm = 0\<rparr>
        (set_freg demo_vm 1 \<lparr>u64 = 0x123456783F800000, is_double = False\<rparr>) = Done vm'
      \<and> regs vm' 4 = 0x3F800000)
   \<and> (\<exists>vm'. dispatch demo_host (RV32F FSQRT_S)
        \<lparr>type = RV32F FSQRT_S, rd = 3, rs1 = 1, rs2 = 0, rs3 = 0, immediate = 0,
           rm = RM_ROUND_TO_NEAREST_TIES_EVEN\<rparr>
        (set_freg demo_vm 1 \<lparr>u64 = 0xBF800000, is_double = False\<rparr>) = Done vm'
      \<and> u64 (fregs vm' 3) = RV_F32_NAN \<and> upper32 (fregs vm' 3) = NaN_box)
   \<and> (\<exists>vm'. dispatch demo_host (RV32F FMIN_S)
        \<lparr>type = RV32F FMIN_S, rd = 3, rs1 = 1, rs2 = 2, rs3 = 0, immediate = 0, rm = 0\<rparr>
        (set_freg (set_freg demo_vm 1 \<lparr>u64 = 0x7FC00000, is_double = False\<rparr>)
           2 \<lparr>u64 = 0x7FC00000, is_double = False\<rparr>) = Done vm'
      \<and> u64 (fregs vm' 3) = RV_F32_NAN \<and> upper32 (fregs vm' 3) = NaN_box)
   \<and> (\<exists>vm'. dispatch demo_host (RV32D FCVT_S_D)
        \<lparr>type = RV32D FCVT_S_D, rd = 3, rs1 = 1, rs2 = 0, rs3 = 0, immediate = 0,
           rm = RM_ROUND_TO_NEAREST_TIES_EVEN\<rparr>
        (set_freg demo_vm 1 \<lparr>u64 = 0x7FF8000000000000, is_double = True\<rparr>) = Done vm'
      \<and> u64 (fregs vm' 3) = RV_F32_QNAN \<and> upper32 (fregs vm' 3) = NaN_box)
   \<and> (\<exists>vm'. dispatch demo_host (RV32F FSGNJ_S)
        \<lparr>type = RV32F FSGNJ_S, rd = 3, rs1 = 1, rs2 = 2, rs3 = 0, immediate = 0, rm = 0\<rparr>
        (set_freg demo_vm 1 \<lparr>u64 = 0x123456783F800000, is_double = False\<rparr>) = Done vm'
      \<and> upper32 (fregs vm' 3) = 0x12345678 \<and> u32_of (fregs vm' 3) = 0x3F800000)"
proof -
  let ?i = "\<lparr>type = RV32F FDIV_S, rd = 3, rs1 = 1, rs2 = 2, rs3 = 0, immediate = 0,
              rm = RM_ROUND_TO_NEAREST_TIES_EVEN\<rparr>"
  let ?v = "set_freg demo_vm 1 \<lparr>u64 = 0x3F800000, is_double = False\<rparr>"
  have "\<exists>vm'. dispatch demo_host (RV32F FDIV_S) ?i ?v = Done vm' \<and> fcsr_flagged vm'"
    by (simp add: arith_s_def with_rounding_def ChangeRoundingMode_nearest write_f32_checked_def
        case_prod_unfold CheckFloatErrors_fst CheckFloatErrors_fcsr host_raise_def u32_of_def
        set_u32_def
        demo_defs Let_def)
  then obtain vm1 where run1: "dispatch demo_host (RV32F FDIV_S) ?i ?v = Done vm1"
    and fl1: "fcsr_flagged vm1" by blast
  from single_write_upper_half [OF run1] fl1
  have a: "u64 (fregs vm1 3) = RV_F32_NAN \<and> upper32 (fregs vm1 3) = NaN_box"
    by (simp add: Let_def checked_lane_def)
  let ?i2 = "\<lparr>type = RV32F FADD_S, rd = 3, rs1 = 1, rs2 = 2, rs3 = 0, immediate = 0,
               rm = RM_ROUND_TO_NEAREST_TIES_EVEN\<rparr>"
  let ?v2 = "set_freg (set_freg demo_vm 1 \<lparr>u64 = 0x40000000, is_double = False\<rparr>)
               3 \<lparr>u64 = 0x1234567800000000, is_double = False\<rparr>"
  have "\<exists>vm'. dispatch demo_host (RV32F FADD_S) ?i2 ?v2 = Done vm' \<and> \<not> fcsr_flagged vm'"
    by (simp add: arith_s_def with_rounding_def ChangeRoundingMode_nearest write_f32_checked_def
        case_prod_unfold CheckFloatErrors_fst CheckFloatErrors_fcsr host_raise_def u32_of_def
        set_u32_def
        demo_defs Let_def)
  then obtain vm2 where run2: "dispatch demo_host (RV32F FADD_S) ?i2 ?v2 = Done vm2"
    and fl2: "\<not> fcsr_flagged vm2" by blast
  from single_write_upper_half [OF run2] fl2
  have b: "upper32 (fregs vm2 3) = 0x12345678 \<and> u32_of (fregs vm2 3) = 0x40000000"
    by (simp add: Let_def checked_lane_def demo_host_def u32_of_def upper32_def)
  let ?j = "\<lparr>type = RV32F FMV_W_X, rd = 1, rs1 = 2, rs2 = 0, rs3 = 0, immediate = 0, rm = 0\<rparr>"
  have "\<exists>vm'. dispatch demo_host (RV32F FMV_W_X) ?j (set_reg demo_vm 2 5) = Done vm'"
    by (simp add: Let_def)
  then obtain vm3 where
    run3: "dispatch demo_host (RV32F FMV_W_X) ?j (set_reg demo_vm 2 5) = Done vm3"
    by blast
  from single_write_upper_half [OF run3]
  have c: "upper32 (fregs vm3 1) = 0 \<and> u32_of (fregs vm3 1) = 5"
    by (simp add: Let_def set_reg_def)
  let ?l = "\<lparr>type = RV32F FMV_X_W, rd = 4, rs1 = 1, rs2 = 0, rs3 = 0, immediate = 0, rm = 0\<rparr>"
  let ?w = "set_freg demo_vm 1 \<lparr>u64 = 0x123456783F800000, is_double = False\<rparr>"
  have "\<exists>vm'. dispatch demo_host (RV32F FMV_X_W) ?l ?w = Done vm'"
    by simp
  then obtain vm4 where run4: "dispatch demo_host (RV32F FMV_X_W) ?l ?w = Done vm4"
    by blast
  from single_write_upper_half [OF run4]
  have d: "regs vm4 4 = 0x3F800000"
    by (simp add: Let_def set_freg_def u32_of_def)
  let ?i5 = "\<lparr>type = RV32F FSQRT_S, rd = 3, rs1 = 1, rs2 = 0, rs3 = 0, immediate = 0,
               rm = RM_ROUND_TO_NEAREST_TIES_EVEN\<rparr>"
  let ?v5 = "set_freg demo_vm 1 \<lparr>u64 = 0xBF800000, is_double = False\<rparr>"
  have "\<exists>vm'. dispatch demo_host (RV32F FSQRT_S) ?i5 ?v5 = Done vm'"
    by (simp add: with_rounding_def ChangeRoundingMode_nearest Let_def)
  then obtain vm5 where run5: "dispatch demo_host (RV32F FSQRT_S) ?i5 ?v5 = Done vm5"
    by blast
  from single_write_upper_half [OF run5]
  have e: "u64 (fregs vm5 3) = RV_F32_NAN \<and> upper32 (fregs vm5 3) = NaN_box"
    by (simp add: Let_def u32_of_def ClassF32_defs)
  let ?i6 = "\<lparr>type = RV32F FMIN_S, rd = 3, rs1 = 1, rs2 = 2, rs3 = 0, immediate = 0, rm = 0\<rparr>"
  let ?v6 = "set_freg (set_freg demo_vm 1 \<lparr>u64 = 0x7FC00000, is_double = False\<rparr>)
               2 \<lparr>u64 = 0x7FC00000, is_double = False\<rparr>"
  have "\<exists>vm'. dispatch demo_host (RV32F FMIN_S) ?i6 ?v6 = Done vm'"
    by (simp add: minmax_s_def Let_def)
  then obtain vm6 where run6: "dispatch demo_host (RV32F FMIN_S) ?i6 ?v6 = Done vm6"
    by blast
  from single_write_upper_half [OF run6]
  have f: "u64 (fregs vm6 3) = RV_F32_NAN \<and> upper32 (fregs vm6 3) = NaN_box"
    by (simp add: Let_def u32_of_def ClassF32_defs)
  let ?i7 = "\<lparr>type = RV32D FCVT_S_D, rd = 3, rs1 = 1, rs2 = 0, rs3 = 0, immediate = 0,
               rm = RM_ROUND_TO_NEAREST_TIES_EVEN\<rparr>"
  let ?v7 = "set_freg demo_vm 1 \<lparr>u64 = 0x7FF8000000000000, is_double = True\<rparr>"
  have "\<exists>vm'. dispatch demo_host (RV32D FCVT_S_D) ?i7 ?v7 = Done vm'"
    by (simp add: with_rounding_def ChangeRoundingMode_nearest Let_def)
  then obtain vm7 where run7: "dispatch demo_host (RV32D FCVT_S_D) ?i7 ?v7 = Done vm7"
    by blast
  from single_write_upper_half [OF run7]
  have g: "u64 (fregs vm7 3) = RV_F32_QNAN \<and> upper32 (fregs vm7 3) = NaN_box"
    by (simp add: Let_def ClassF64_defs)
  let ?i8 = "\<lparr>type = RV32F FSGNJ_S, rd = 3, rs1 = 1, rs2 = 2, rs3 = 0, immediate = 0, rm = 0\<rparr>"
  let ?v8 = "set_freg demo_vm 1 \<lparr>u64 = 0x123456783F800000, is_double = False\<rparr>"
  have "\<exists>vm'. dispatch demo_host (RV32F FSGNJ_S) ?i8 ?v8 = Done vm'"
    by (simp add: Let_def)
  then obtain vm8 where run8: "dispatch demo_host (RV32F FSGNJ_S) ?i8 ?v8 = Done vm8"
    by blast
  from single_write_upper_half [OF run8]
  have k: "upper32 (fregs vm8 3) = 0x12345678 \<and> u32_of (fregs vm8 3) = 0x3F800000"
    by (simp add: Let_def u32_of_def upper32_def sign32_def demo_defs set_u32_def)
  from run1 fl1 a run2 fl2 b run3 c run4 d run5 e run6 f run7 g run8 k show ?thesis
    by blast
qed

subsection \<open>CSR set and clear with a zero source\<close>

text \<open>
  Claim C7. With a zero \<open>rs1\<close> field no CSR write is to be issued, so that no write-privilege
  fault can arise. CSRRS and CSRRC guard the write with \<open>instr.rs1 != REG_ZERO\<close>; CSRRSI and
  CSRRCI do not: in user mode, CSRRSI with \<open>rd = 0\<close> and the immediate 0 on \<open>sstatus\<close>
  throws "CSR Write Privilege", where CSRRS with \<open>rs1 = x0\<close> completes. On the hart the
  constructor leaves, in machine mode, the same instruction on a CSR that is not populated
  throws from the internal read that prepares the write, where CSRRS completes.
\<close>

theorem csrrsi_zero_immediate_still_writes:
  "exec_sys h CSRRSI
      \<lparr>type = RV32SYS CSRRSI, rd = 0, rs1 = 0, rs2 = 0, rs3 = 0, immediate = CSR_SSTATUS,
         rm = 0\<rparr>
      (vm\<lparr>privilege_level := User, csrs := (csrs vm)(CSR_SSTATUS \<mapsto> v)\<rparr>)
   = Throw CSR_Write_Privilege
       (vm\<lparr>privilege_level := User, csrs := (csrs vm)(CSR_SSTATUS \<mapsto> v)\<rparr>)
   \<and> exec_sys h CSRRS
      \<lparr>type = RV32SYS CSRRS, rd = 0, rs1 = 0, rs2 = 0, rs3 = 0, immediate = CSR_SSTATUS,
         rm = 0\<rparr>
      (vm\<lparr>privilege_level := User, csrs := (csrs vm)(CSR_SSTATUS \<mapsto> v)\<rparr>)
   = Done (vm\<lparr>privilege_level := User, csrs := (csrs vm)(CSR_SSTATUS \<mapsto> v)\<rparr>)
   \<and> exec_sys h CSRRSI
      \<lparr>type = RV32SYS CSRRSI, rd = 0, rs1 = 0, rs2 = 0, rs3 = 0, immediate = CSR_MCYCLE,
         rm = 0\<rparr>
      (new_VirtualMachine raw mem starting_pc hart_id now)
   = Throw Read_Invalid_CSR (new_VirtualMachine raw mem starting_pc hart_id now)
   \<and> exec_sys h CSRRS
      \<lparr>type = RV32SYS CSRRS, rd = 0, rs1 = 0, rs2 = 0, rs3 = 0, immediate = CSR_MCYCLE,
         rm = 0\<rparr>
      (new_VirtualMachine raw mem starting_pc hart_id now)
   = Done (new_VirtualMachine raw mem starting_pc hart_id now)"
  by (simp add: csr_read_rd_def csr_modify_def csr_write_def REG_ZERO_def ReadCSR_def
      WriteCSR_def CSRPrivilegeCheck_def new_VirtualMachine_def Setup_def CSR_defs)

subsection \<open>Sv32 translation\<close>

lemma m12: "(x :: u32) AND 0xfff = take_bit 12 x"
  by (simp add: take_bit_eq_mask mask_eq_exp_minus_1)
lemma m10: "(x :: u32) AND 0x3ff = take_bit 10 x"
  by (simp add: take_bit_eq_mask mask_eq_exp_minus_1)
lemma m22: "(x :: u32) AND 0x3fffff = take_bit 22 x"
  by (simp add: take_bit_eq_mask mask_eq_exp_minus_1)

lemma ppn_full: "take_bit 22 (drop_bit 10 (x::u32)) = drop_bit 10 x"
  by (rule bit_word_eqI) (auto simp add: bit_simps dest: bit_imp_le_length)

lemma ppn1_shift: "push_bit 22 (take_bit 12 (drop_bit 20 (x::u32))) = push_bit 22 (drop_bit 20 x)"
  by (rule bit_word_eqI) (auto simp add: bit_simps)

lemma cat2: "push_bit 12 (a::u32) OR take_bit 12 c = push_bit 12 a + take_bit 12 c"
  by (rule disjunctive_add_eq_or [symmetric]) (auto simp add: bit_eq_iff bit_simps)

lemma cat3: "push_bit 22 (a::u32) OR push_bit 12 (take_bit 10 b) OR take_bit 12 c = push_bit 22 a + push_bit 12 (take_bit 10 b) + take_bit 12 c"
proof -
  have 1: "push_bit 12 (take_bit 10 b) OR take_bit 12 c = push_bit 12 (take_bit 10 b) + take_bit 12 c"
    by (rule cat2)
  have 2: "push_bit 22 a OR (push_bit 12 (take_bit 10 b) OR take_bit 12 c) = push_bit 22 a + (push_bit 12 (take_bit 10 b) OR take_bit 12 c)"
    by (rule disjunctive_add_eq_or [symmetric]) (auto simp add: bit_eq_iff bit_simps)
  show ?thesis using 1 2 by (simp add: ac_simps)
qed

lemma super_pa:
  "push_bit 22 (pte_PPN_1 leaf) OR push_bit 12 (vaddr_vpn_0 va) OR vaddr_offset va
    = push_bit 22 (drop_bit 20 leaf) + push_bit 12 (take_bit 10 (drop_bit 12 va)) + take_bit 12 va"
  by (simp add: pte_PPN_1_def vaddr_vpn_0_def vaddr_offset_def m12 m10 m22 ppn1_shift cat3)

lemma page_pa:
  "push_bit 12 (pte_PPN leaf) OR vaddr_offset va = push_bit 12 (drop_bit 10 leaf) + take_bit 12 va"
  by (simp add: pte_PPN_def vaddr_offset_def m12 m22 ppn_full cat2)

lemma sv32_refines:
  "map_sum fault_class id (TranslateMemoryAddress h (vm\<lparr>csrs := (csrs vm)(CSR_SATP \<mapsto> satp)\<rparr>) va w)
    = map_sum Some id (sv32_translate_spec (PeekWord h (memory vm)) satp va w)"
  unfolding TranslateMemoryAddress_def sv32_translate_spec_def super_pa page_pa
  by (auto simp add: ReadTLBEntry_def pte_V_def pte_R_def pte_W_def pte_X_def pte_A_def pte_D_def
       pte_PPN_0_def pte_PPN_def IsLeaf_def vaddr_vpn_0_def vaddr_vpn_1_def
    m10 m22 ppn_full PAGE_SIZE_def sv32_leaf_checks_def Let_def split: option.splits)

text \<open>
  Claim C8. For every virtual address, every \<open>satp\<close> and every bus, the translator faults
  where the walk of the specification faults, with the same kind of fault, and returns the
  same physical address where it succeeds; the reads of the walk are the \<open>PeekWord\<close> of the
  bus. CUST_TVA writes the translation of \<open>rs1\<close> for a read access to \<open>rd\<close>, and throws what
  the translator throws.
\<close>

theorem sv32_translation_as_specified:
  "map_sum fault_class id (TranslateMemoryAddress h (vm\<lparr>csrs := (csrs vm)(CSR_SATP \<mapsto> satp)\<rparr>) va w)
    = map_sum Some id (sv32_translate_spec (PeekWord h (memory vm)) satp va w)
  \<and> exec_sys h CUST_TVA instr vm =
      (case TranslateMemoryAddress h vm (regs vm (rs1 instr)) False of
         Inl e \<Rightarrow> Throw e vm | Inr pa \<Rightarrow> Done (set_reg vm (rd instr) pa))"
  using sv32_refines [of h vm satp va w] by simp

theorem sv32_translation_as_specified_witness:
  "sv32_translate_spec (PeekWord demo_host (memory demo_vm)) 2 0x00400123 False = Inr 0x20000123
   \<and> TranslateMemoryAddress demo_host (demo_vm\<lparr>csrs := (csrs demo_vm)(CSR_SATP \<mapsto> 2)\<rparr>)
        0x00400123 False = Inr 0x20000123"
proof -
  have s: "sv32_translate_spec (PeekWord demo_host (memory demo_vm)) 2 0x00400123 False
             = Inr 0x20000123"
    by (simp add: sv32_translate_spec_def sv32_leaf_checks_def demo_defs Let_def)
  from sv32_translation_as_specified [of demo_host demo_vm 2 "0x00400123" False]
  have "map_sum fault_class id
          (TranslateMemoryAddress demo_host (demo_vm\<lparr>csrs := (csrs demo_vm)(CSR_SATP \<mapsto> 2)\<rparr>)
             0x00400123 False) = map_sum Some id (Inr 0x20000123)"
    by (simp only: s)
  then have "TranslateMemoryAddress demo_host (demo_vm\<lparr>csrs := (csrs demo_vm)(CSR_SATP \<mapsto> 2)\<rparr>)
             0x00400123 False = Inr 0x20000123"
    by (cases "TranslateMemoryAddress demo_host
                 (demo_vm\<lparr>csrs := (csrs demo_vm)(CSR_SATP \<mapsto> 2)\<rparr>) 0x00400123 False") simp_all
  with s show ?thesis by simp
qed

subsection \<open>The program counter\<close>

text \<open>
  Claim C9. An iteration of the loop that completes on an instruction other than a
  conditional branch, JAL or JALR leaves \<open>pc\<close> at its value before plus 4. The excluded
  instructions write \<open>pc\<close> themselves and the loop adds nothing to it: JAL leaves \<open>pc\<close> plus the
  immediate, JALR leaves \<open>rs1\<close> plus the immediate with bit 0 cleared, and a branch leaves \<open>pc\<close>
  plus the immediate when its condition holds and \<open>pc\<close> plus 4 when it does not.
\<close>

theorem pc_advances_by_four:
  assumes "step_body h vm = Done vm'"
    and "fetch h vm = Inr instr"
  shows "(type instr \<notin> RV32I ` {BEQ, BNE, BLT, BGE, BLTU, BGEU, JAL, JALR} \<longrightarrow>
            pc vm' = pc vm + 4)
       \<and> (type instr = RV32I JAL \<longrightarrow> pc vm' = pc vm + immediate instr)
       \<and> (type instr = RV32I JALR \<longrightarrow>
            pc vm' = (regs vm (rs1 instr) + immediate instr) AND 0xfffffffe)
       \<and> (type instr = RV32I BEQ \<longrightarrow>
            pc vm' = pc vm + (if regs vm (rs1 instr) = regs vm (rs2 instr)
                              then immediate instr else 4))
       \<and> (type instr = RV32I BNE \<longrightarrow>
            pc vm' = pc vm + (if regs vm (rs1 instr) \<noteq> regs vm (rs2 instr)
                              then immediate instr else 4))
       \<and> (type instr = RV32I BLT \<longrightarrow>
            pc vm' = pc vm + (if sint (regs vm (rs1 instr)) < sint (regs vm (rs2 instr))
                              then immediate instr else 4))
       \<and> (type instr = RV32I BGE \<longrightarrow>
            pc vm' = pc vm + (if sint (regs vm (rs1 instr)) \<ge> sint (regs vm (rs2 instr))
                              then immediate instr else 4))
       \<and> (type instr = RV32I BLTU \<longrightarrow>
            pc vm' = pc vm + (if regs vm (rs1 instr) < regs vm (rs2 instr)
                              then immediate instr else 4))
       \<and> (type instr = RV32I BGEU \<longrightarrow>
            pc vm' = pc vm + (if regs vm (rs1 instr) \<ge> regs vm (rs2 instr)
                              then immediate instr else 4))"
proof -
  from assms obtain vm2 where
    d: "dispatch h (type instr) instr (vm\<lparr>cycles := cycles vm + 1\<rparr>) = Done vm2"
    and p: "pc vm' = (if writes_pc (type instr) then pc vm2 else pc vm2 + 4)"
    by (auto simp add: step_body_def Let_def CheckMemoryAccess_def fetch_def
        split: if_splits sum.splits outcome.splits)
  have plain: "type instr \<notin> RV32I ` {BEQ, BNE, BLT, BGE, BLTU, BGEU, JAL, JALR} \<longrightarrow>
      pc vm' = pc vm + 4"
    using dispatch_Done [OF d] p by (auto simp add: writes_pc_iff)
  have jal: "type instr = RV32I JAL \<longrightarrow> pc vm' = pc vm + immediate instr"
    using d p by (auto simp add: Let_def)
  have jalr: "type instr = RV32I JALR \<longrightarrow>
      pc vm' = (regs vm (rs1 instr) + immediate instr) AND 0xfffffffe"
    using d p by (auto simp add: Let_def)
  have beq: "type instr = RV32I BEQ \<longrightarrow>
      pc vm' = pc vm + (if regs vm (rs1 instr) = regs vm (rs2 instr)
                        then immediate instr else 4)"
    using d p by (auto split: if_splits)
  have bne: "type instr = RV32I BNE \<longrightarrow>
      pc vm' = pc vm + (if regs vm (rs1 instr) \<noteq> regs vm (rs2 instr)
                        then immediate instr else 4)"
    using d p by (auto split: if_splits)
  have blt: "type instr = RV32I BLT \<longrightarrow>
      pc vm' = pc vm + (if sint (regs vm (rs1 instr)) < sint (regs vm (rs2 instr))
                        then immediate instr else 4)"
    using d p by (auto split: if_splits)
  have bge: "type instr = RV32I BGE \<longrightarrow>
      pc vm' = pc vm + (if sint (regs vm (rs1 instr)) \<ge> sint (regs vm (rs2 instr))
                        then immediate instr else 4)"
    using d p by (auto split: if_splits)
  have bltu: "type instr = RV32I BLTU \<longrightarrow>
      pc vm' = pc vm + (if regs vm (rs1 instr) < regs vm (rs2 instr)
                        then immediate instr else 4)"
    using d p by (auto split: if_splits)
  have bgeu: "type instr = RV32I BGEU \<longrightarrow>
      pc vm' = pc vm + (if regs vm (rs1 instr) \<ge> regs vm (rs2 instr)
                        then immediate instr else 4)"
    using d p by (auto split: if_splits)
  show ?thesis
    by (intro conjI) (rule plain jal jalr beq bne blt bge bltu bgeu)+
qed

theorem pc_advances_by_four_witness:
  "(fetch demo_host demo_vm = Inr (demo_decode 0x00500013)
    \<and> type (demo_decode 0x00500013) = RV32ALU ADDI
    \<and> (\<exists>vm'. step_body demo_host demo_vm = Done vm' \<and> pc vm' = 0x1004))
   \<and> (fetch jump_host jump_vm = Inr (jump_decode 0x100000EF)
    \<and> type (jump_decode 0x100000EF) = RV32I JAL
    \<and> (\<exists>vm'. step_body jump_host jump_vm = Done vm' \<and> pc vm' = 0x1100))
   \<and> (fetch jump_host (jump_vm\<lparr>pc := 0x1100\<rparr>) = Inr (jump_decode 0x00000463)
    \<and> type (jump_decode 0x00000463) = RV32I BEQ
    \<and> (\<exists>vm'. step_body jump_host (jump_vm\<lparr>pc := 0x1100\<rparr>) = Done vm' \<and> pc vm' = 0x1108))"
proof -
  have f: "fetch demo_host demo_vm = Inr (demo_decode 0x00500013)"
    by (simp add: demo_eval)
  have t: "type (demo_decode 0x00500013) = RV32ALU ADDI"
    by (simp add: demo_decode_def Let_def)
  have "\<exists>vm'. step_body demo_host demo_vm = Done vm'"
    by (simp add: demo_eval)
  then obtain vm1 where run1: "step_body demo_host demo_vm = Done vm1" by blast
  from pc_advances_by_four [OF run1 f] t have "pc vm1 = pc demo_vm + 4" by simp
  then have a: "pc vm1 = 0x1004" by (simp add: demo_defs)
  have f2: "fetch jump_host jump_vm = Inr (jump_decode 0x100000EF)"
    by (simp add: demo_eval jump_defs)
  have t2: "type (jump_decode 0x100000EF) = RV32I JAL"
    by (simp add: jump_decode_def)
  have "\<exists>vm'. step_body jump_host jump_vm = Done vm'"
    by (simp add: demo_eval jump_defs)
  then obtain vm2 where run2: "step_body jump_host jump_vm = Done vm2" by blast
  from pc_advances_by_four [OF run2 f2] t2
  have "pc vm2 = pc jump_vm + immediate (jump_decode 0x100000EF)" by simp
  then have b: "pc vm2 = 0x1100" by (simp add: demo_defs jump_defs)
  let ?v = "jump_vm\<lparr>pc := 0x1100\<rparr>"
  have f3: "fetch jump_host ?v = Inr (jump_decode 0x00000463)"
    by (simp add: demo_eval jump_defs)
  have t3: "type (jump_decode 0x00000463) = RV32I BEQ"
    by (simp add: jump_decode_def)
  have "\<exists>vm'. step_body jump_host ?v = Done vm'"
    by (simp add: demo_eval jump_defs)
  then obtain vm3 where run3: "step_body jump_host ?v = Done vm3" by blast
  from pc_advances_by_four [OF run3 f3] t3
  have c: "pc vm3 = 0x1108" by (simp add: jump_decode_def)
  from f t run1 a f2 t2 run2 b f3 t3 run3 c show ?thesis by blast
qed

text \<open>
  Claim C10. An iteration of the loop that throws leaves \<open>pc\<close> at its value before the
  instruction, and the cycle counter incremented by one.
\<close>

theorem fatal_error_keeps_pc:
  assumes "step_body h vm = Throw e vm'"
  shows "pc vm' = pc vm \<and> cycles vm' = cycles vm + 1"
  using assms by (rule step_body_Throw)

theorem fatal_error_keeps_pc_witness:
  "\<exists>vm'. step_body demo_host (demo_vm\<lparr>pc := 0x1008\<rparr>) = Throw (Invalid_instruction 0x1008 0) vm'
      \<and> pc vm' = 0x1008 \<and> cycles vm' = 1"
proof -
  have "\<exists>vm'. step_body demo_host (demo_vm\<lparr>pc := 0x1008\<rparr>) = Throw (Invalid_instruction 0x1008 0) vm'"
    by (simp add: demo_eval InvalidInstruction_def)
  then obtain vm' where run:
    "step_body demo_host (demo_vm\<lparr>pc := 0x1008\<rparr>) = Throw (Invalid_instruction 0x1008 0) vm'"
    by blast
  from fatal_error_keeps_pc [OF run] have "pc vm' = 0x1008 \<and> cycles vm' = 1"
    by (simp add: demo_defs)
  with run show ?thesis by blast
qed

end
